theory Spec2Isabelle
  imports Complex_Main "HOL-Library.Sublist"
begin

section \<open>PyCut Pro: the clip model, the project state and the export worker\<close>

text \<open>
  A shallow embedding of \<^verbatim>\<open>src/PyCut.py\<close>: the clip dictionaries, the project state kept by
  \<^verbatim>\<open>VideoEditor\<close> with its clip operations, and \<^verbatim>\<open>VideoExportWorker\<close>.

  Conventions of the model.
  \<^item> A Python number that holds a time, a factor or a size is a rational (\<^typ>\<open>rat\<close>): the
    value of the double, or of the integer. Where the editor computes with such numbers, in
    \<^verbatim>\<open>add_video_clip\<close> and \<^verbatim>\<open>split_selected_clip\<close>, the operation is the one of IEEE
    doubles: the exact result taken to the nearest double, ties to even (\<open>round_double\<close>).
    An integer of magnitude below \<open>2 ^ 53\<close> is a double, so for doubles and such integers
    the operations are Python's. Infinities and NaN are outside the model (\<open>overflows\<close>).
    The sums, differences and quotients of the export worker only reach the argument
    strings of the engine, through \<open>str_num\<close>, and the progress value; they are exact.
    Identifiers, tracks and pixel positions are \<^typ>\<open>int\<close>.
  \<^item> A clip is a Python dictionary with string keys. It is a record here, one field per key
    the program reads or writes. The six keys that every constructor of the editor sets and that
    \<^verbatim>\<open>rebuild_timeline\<close> reads unguarded (\<^verbatim>\<open>id\<close>, \<^verbatim>\<open>type\<close>, \<^verbatim>\<open>track\<close>, \<^verbatim>\<open>start\<close>,
    \<^verbatim>\<open>duration\<close>, \<^verbatim>\<open>name\<close>) are plain fields; every other key is an \<open>option\<close>, where
    \<open>None\<close> is an absent key, so that \<^verbatim>\<open>clip.get(k, default)\<close> and the \<^verbatim>\<open>KeyError\<close> of
    \<^verbatim>\<open>clip[k]\<close> are both written out.
  \<^item> The keys \<^verbatim>\<open>id\<close>, \<^verbatim>\<open>type\<close>, \<^verbatim>\<open>text\<close>, \<^verbatim>\<open>x\<close> and \<^verbatim>\<open>y\<close> are the fields \<open>clip_id\<close>,
    \<open>clip_type\<close>, \<open>text_content\<close>, \<open>pos_x\<close> and \<open>pos_y\<close>; all other fields carry the key's name.
  \<^item> Widgets, dialogs and message boxes are not state of the model: what the user chose in a
    dialog is an argument of the operation, and the status bar is the field \<open>status\<close>.
\<close>

subsection \<open>Strings and paths\<close>

definition digit_char :: "nat \<Rightarrow> char" where
  "digit_char n = ''0123456789'' ! n"

fun str_nat :: "nat \<Rightarrow> string" where
  "str_nat n = (if n < 10 then [digit_char n] else str_nat (n div 10) @ [digit_char (n mod 10)])"

declare str_nat.simps [simp del]

definition str_int :: "int \<Rightarrow> string" where
  "str_int i = (if i < 0 then CHR ''-'' # str_nat (nat (- i)) else str_nat (nat i))"

text \<open>\<^verbatim>\<open>os.path.basename\<close>: what follows the last slash.\<close>

definition basename :: "string \<Rightarrow> string" where
  "basename p = rev (takeWhile (\<lambda>c. c \<noteq> CHR ''/'') (rev p))"

text \<open>\<^verbatim>\<open>os.path.join\<close> of two components (POSIX).\<close>

definition path_join :: "string \<Rightarrow> string \<Rightarrow> string" where
  "path_join a b =
     (if b \<noteq> [] \<and> hd b = CHR ''/'' then b
      else if a = [] \<or> last a = CHR ''/'' then a @ b
      else a @ ''/'' @ b)"

text \<open>\<^verbatim>\<open>sep.join(parts)\<close>.\<close>

fun join :: "string \<Rightarrow> string list \<Rightarrow> string" where
  "join sep [] = []"
| "join sep [p] = p"
| "join sep (p # q # ps) = p @ sep @ join sep (q # ps)"

subsection \<open>Doubles\<close>

text \<open>
  A finite double is \<open>m * 2 ^ e\<close> for integers \<open>m\<close> and \<open>e\<close> with \<open>|m| < 2 ^ 53\<close> and
  \<open>e \<ge> - 1074\<close>. To round a rational \<open>x \<ge> 0\<close>, it is written as \<open>m * 2 ^ n / 2 ^ 1074\<close>
  with a rational \<open>m\<close> and the natural number \<open>n\<close> that puts \<open>m\<close> from \<open>2 ^ 52\<close> up to, but
  not at, \<open>2 ^ 53\<close>, or with \<open>n = 0\<close> and a smaller \<open>m\<close> when \<open>x\<close> is in the subnormal
  range; then \<open>m\<close> is rounded to the nearest integer, a tie going to the even one.
\<close>

definition bias :: nat where
  "bias = 1074"

definition round_half_even :: "rat \<Rightarrow> int" where
  "round_half_even x =
     (let f = \<lfloor>x\<rfloor>; r = x - of_int f
      in if r < 1 / 2 then f else if 1 / 2 < r then f + 1 else if even f then f else f + 1)"

function normalize_down :: "rat \<Rightarrow> nat \<Rightarrow> rat \<times> nat" where
  "normalize_down m n = (if 2 ^ 53 \<le> m then normalize_down (m / 2) (Suc n) else (m, n))"
  by pat_completeness auto
termination
proof (relation "measure (\<lambda>(m, n). nat \<lfloor>m\<rfloor>)")
  show "wf (measure (\<lambda>(m, n). nat \<lfloor>m\<rfloor>))"
    by simp
next
  fix m :: rat and n :: nat
  assume a: "2 ^ 53 \<le> m"
  then have h: "m / 2 \<le> m - 1"
    by simp
  have "\<lfloor>m / 2\<rfloor> \<le> \<lfloor>m - 1\<rfloor>"
    using h by (rule floor_mono)
  then have "\<lfloor>m / 2\<rfloor> < \<lfloor>m\<rfloor>"
    by simp
  moreover from a have "0 < \<lfloor>m\<rfloor>"
    by simp
  ultimately show "((m / 2, Suc n), (m, n)) \<in> measure (\<lambda>(m, n). nat \<lfloor>m\<rfloor>)"
    by simp
qed

function normalize_up :: "rat \<Rightarrow> nat \<Rightarrow> rat \<times> nat" where
  "normalize_up m n = (if m < 2 ^ 52 \<and> 0 < n then normalize_up (2 * m) (n - 1) else (m, n))"
  by pat_completeness auto
termination
  by (relation "measure (\<lambda>(m, n). n)") auto

declare normalize_down.simps [simp del]

declare normalize_up.simps [simp del]

definition decompose :: "rat \<Rightarrow> rat \<times> nat" where
  "decompose x = (case normalize_down x bias of (m, n) \<Rightarrow> normalize_up m n)"

definition round_double :: "rat \<Rightarrow> rat" where
  "round_double x =
     (case decompose \<bar>x\<bar> of
        (m, n) \<Rightarrow> sgn x * of_int (round_half_even m) * 2 ^ n / 2 ^ bias)"

text \<open>The doubles are the values that rounding leaves as they are.\<close>

definition is_double :: "rat \<Rightarrow> bool" where
  "is_double x = (round_double x = x)"

text \<open>
  An exact result that reaches the middle between the largest double and \<open>2 ^ 1024\<close> is
  infinite in Python. The model has no infinity, and rounds such a result like any other;
  what is proved of a result that can be that large is stated for the results that do not
  overflow.
\<close>

definition overflows :: "rat \<Rightarrow> bool" where
  "overflows x = (2 ^ 1024 - 2 ^ 970 \<le> \<bar>x\<bar>)"

text \<open>Python's \<^verbatim>\<open>a + b\<close>, \<^verbatim>\<open>a - b\<close> and \<^verbatim>\<open>a / b\<close> on floats.\<close>

definition fadd :: "rat \<Rightarrow> rat \<Rightarrow> rat" where
  "fadd a b = round_double (a + b)"

definition fsub :: "rat \<Rightarrow> rat \<Rightarrow> rat" where
  "fsub a b = round_double (a - b)"

definition fdiv :: "rat \<Rightarrow> rat \<Rightarrow> rat" where
  "fdiv a b = round_double (a / b)"

subsection \<open>Clips and project state\<close>

record clip =
  clip_id :: int
  clip_type :: string
  track :: int
  start :: rat
  duration :: rat
  name :: string
  path :: "string option"
  start_trim :: "rat option"
  speed :: "rat option"
  volume :: "rat option"
  fade_in :: "rat option"
  fade_out :: "rat option"
  scale :: "rat option"
  rotation :: "rat option"
  opacity :: "rat option"
  bw :: "bool option"
  blur :: "rat option"
  chroma_key :: "bool option"
  chroma_color :: "string option"
  chroma_similarity :: "rat option"
  chroma_blend :: "rat option"
  lut :: "string option"
  text_content :: "string option"
  font_size :: "int option"
  font_file :: "string option"
  font_color :: "string option"
  bg_color :: "string option"
  position :: "string option"
  shadow :: "bool option"
  shadow_color :: "string option"
  shadow_offset :: "int option"
  outline :: "bool option"
  outline_color :: "string option"
  outline_width :: "int option"
  animation :: "string option"
  anim_duration :: "rat option"
  pos_x :: "int option"
  pos_y :: "int option"

text \<open>The dictionary literal with exactly the six common keys.\<close>

definition clip_dict :: "int \<Rightarrow> string \<Rightarrow> int \<Rightarrow> rat \<Rightarrow> rat \<Rightarrow> string \<Rightarrow> clip" where
  "clip_dict i ty tr st du nm =
     \<lparr> clip_id = i, clip_type = ty, track = tr, start = st, duration = du, name = nm,
       path = None, start_trim = None, speed = None, volume = None,
       fade_in = None, fade_out = None, scale = None, rotation = None, opacity = None,
       bw = None, blur = None, chroma_key = None, chroma_color = None,
       chroma_similarity = None, chroma_blend = None, lut = None,
       text_content = None, font_size = None, font_file = None, font_color = None,
       bg_color = None, position = None, shadow = None, shadow_color = None,
       shadow_offset = None, outline = None, outline_color = None, outline_width = None,
       animation = None, anim_duration = None, pos_x = None, pos_y = None \<rparr>"

record settings =
  fps :: rat
  resolution :: "int \<times> int"
  background :: string

text \<open>
  \<^verbatim>\<open>VideoEditor\<close>. A history entry is the dictionary \<^verbatim>\<open>{'clips': ..., 'next_clip_id': ...}\<close>,
  a pair here. The two stacks are Python lists used with \<^verbatim>\<open>append\<close> and \<^verbatim>\<open>pop\<close>: the top is
  the last element. \<open>current_time\<close> is \<^verbatim>\<open>self.timeline.current_time\<close>.
\<close>

record editor =
  project_name :: string
  project_path :: "string option"
  project_settings :: settings
  clips :: "clip list"
  next_clip_id :: int
  undo_stack :: "(clip list \<times> int) list"
  redo_stack :: "(clip list \<times> int) list"
  selected_clip_id :: int
  current_time :: rat
  status :: string

definition DEFAULT_PROJECT_NAME :: string where
  "DEFAULT_PROJECT_NAME = ''Untitled Project''"

definition DEFAULT_FPS :: rat where
  "DEFAULT_FPS = 30"

definition DEFAULT_RESOLUTION :: "int \<times> int" where
  "DEFAULT_RESOLUTION = (1920, 1080)"

definition default_settings :: settings where
  "default_settings =
     \<lparr> fps = DEFAULT_FPS, resolution = DEFAULT_RESOLUTION, background = ''#000000'' \<rparr>"

text \<open>\<^verbatim>\<open>VideoEditor.__init__\<close>.\<close>

definition init_editor :: editor where
  "init_editor =
     \<lparr> project_name = DEFAULT_PROJECT_NAME, project_path = None,
       project_settings = default_settings, clips = [], next_clip_id = 1,
       undo_stack = [], redo_stack = [], selected_clip_id = - 1,
       current_time = 0, status = ''Ready'' \<rparr>"

subsection \<open>Project files\<close>

text \<open>
  A project file is the JSON object written by \<^verbatim>\<open>do_save_project\<close>; \<^verbatim>\<open>open_project\<close> reads
  each of its four keys with \<^verbatim>\<open>data.get(key, default)\<close>, so each may be absent. The disk maps
  a path to the object stored there; a path that is unmapped cannot be opened or parsed.
  \<^verbatim>\<open>json.dump\<close> followed by \<^verbatim>\<open>json.load\<close> returns integers, floats, strings, booleans and the
  lists and dictionaries built from them unchanged, which is all a clip of this model holds,
  so the stored object is the data itself.
\<close>

record project_file =
  file_name :: "string option"
  file_settings :: "settings option"
  file_clips :: "clip list option"
  file_next_clip_id :: "int option"

type_synonym disk = "string \<rightharpoonup> project_file"

definition media_types :: "string list" where
  "media_types = [''video'', ''image'', ''audio'', ''sticker'']"

text \<open>
  \<^verbatim>\<open>open_project\<close>, given the path chosen in the file dialog (\<open>None\<close>: dialog dismissed).
  The assignments come first; rebuilding the media library then reads \<^verbatim>\<open>clip['path']\<close> of
  every video, image, audio and sticker clip, and a missing key raises inside the
  \<^verbatim>\<open>try\<close>, after the project state has been replaced.
\<close>

definition open_project :: "string option \<Rightarrow> editor \<times> disk \<Rightarrow> editor" where
  "open_project chosen w =
     (case chosen of
        None \<Rightarrow> fst w
      | Some file_path \<Rightarrow>
          (case snd w file_path of
             None \<Rightarrow> fst w
           | Some data \<Rightarrow>
               let s1 = (fst w)
                     \<lparr> project_name := (case file_name data of None \<Rightarrow> DEFAULT_PROJECT_NAME | Some n \<Rightarrow> n),
                       project_path := Some file_path,
                       project_settings := (case file_settings data of None \<Rightarrow> default_settings | Some st \<Rightarrow> st),
                       clips := (case file_clips data of None \<Rightarrow> [] | Some cs \<Rightarrow> cs),
                       next_clip_id := (case file_next_clip_id data of None \<Rightarrow> 1 | Some n \<Rightarrow> n) \<rparr>
               in if list_ex (\<lambda>c. clip_type c \<in> set media_types \<and> path c = None) (clips s1)
                  then s1
                  else s1 \<lparr> status := ''Project loaded: '' @ basename file_path \<rparr>))"

text \<open>
  \<^verbatim>\<open>do_save_project\<close>; \<open>writable\<close> says whether opening the file for writing succeeds.
  Returns the function's boolean result with the new state and disk.
\<close>

definition do_save_project :: "string \<Rightarrow> bool \<Rightarrow> editor \<times> disk \<Rightarrow> bool \<times> editor \<times> disk" where
  "do_save_project file_path writable w =
     (if writable then
        let data = \<lparr> file_name = Some (project_name (fst w)),
                     file_settings = Some (project_settings (fst w)),
                     file_clips = Some (clips (fst w)),
                     file_next_clip_id = Some (next_clip_id (fst w)) \<rparr>
        in (True, (fst w) \<lparr> status := ''Project saved: '' @ basename file_path \<rparr>,
            (snd w)(file_path \<mapsto> data))
      else (False, fst w, snd w))"

definition new_project :: "editor \<Rightarrow> editor" where
  "new_project s =
     s \<lparr> project_name := DEFAULT_PROJECT_NAME, project_path := None, clips := [],
         next_clip_id := 1, status := ''New project created'' \<rparr>"

definition apply_project_settings :: "string \<Rightarrow> rat \<Rightarrow> int \<times> int \<Rightarrow> string \<Rightarrow> editor \<Rightarrow> editor" where
  "apply_project_settings nm f res bg s =
     s \<lparr> project_name := nm,
         project_settings := \<lparr> fps = f, resolution = res, background = bg \<rparr> \<rparr>"

definition set_current_time :: "rat \<Rightarrow> editor \<Rightarrow> editor" where
  "set_current_time t s = s \<lparr> current_time := t \<rparr>"

subsection \<open>Adding clips\<close>

text \<open>
  What \<^verbatim>\<open>cv2.VideoCapture\<close> reports for a file: whether it opened, its frame rate and its
  frame count.
\<close>

record capture =
  opened :: bool
  cap_fps :: rat
  frame_count :: rat

text \<open>
  \<^verbatim>\<open>add_video_clip\<close>. \<open>loaded\<close> is the result of \<^verbatim>\<open>video_player.load_video\<close>, which only
  changes the status message.
\<close>

definition add_video_clip :: "string \<Rightarrow> int \<Rightarrow> capture \<Rightarrow> bool \<Rightarrow> editor \<Rightarrow> editor" where
  "add_video_clip file_path tr cap loaded s =
     (if \<not> opened cap then s \<lparr> status := ''Error loading video'' \<rparr>
      else
        let dur = (if cap_fps cap > 0 then fdiv (frame_count cap) (cap_fps cap) else 0);
            new_id = next_clip_id s;
            clip_name = basename file_path;
            clip_data = (clip_dict new_id ''video'' tr (current_time s) dur clip_name)
                          \<lparr> path := Some file_path, start_trim := Some 0 \<rparr>
        in s \<lparr> next_clip_id := next_clip_id s + 1,
               clips := clips s @ [clip_data],
               status := (if loaded then ''Loaded: '' @ clip_name
                          else ''Failed to load video: '' @ clip_name) \<rparr>)"

text \<open>
  \<^verbatim>\<open>add_audio_clip\<close>. \<open>probed\<close> is the duration parsed from the output of \<^verbatim>\<open>ffprobe\<close>,
  or the text of the exception when running it or \<^verbatim>\<open>float(...)\<close> raises, which the handler
  turns into a status message before anything has been changed.
\<close>

definition add_audio_clip :: "string \<Rightarrow> int \<Rightarrow> string + rat \<Rightarrow> editor \<Rightarrow> editor" where
  "add_audio_clip file_path tr probed s =
     (case probed of
        Inl msg \<Rightarrow> s \<lparr> status := ''Error: '' @ msg \<rparr>
      | Inr dur \<Rightarrow>
          let new_id = next_clip_id s;
              clip_name = basename file_path;
              clip_data = (clip_dict new_id ''audio'' tr (current_time s) dur clip_name)
                            \<lparr> path := Some file_path, volume := Some 1 \<rparr>
          in s \<lparr> next_clip_id := next_clip_id s + 1,
                 clips := clips s @ [clip_data],
                 status := ''Loaded: '' @ clip_name \<rparr>)"

definition add_image_clip :: "string \<Rightarrow> int \<Rightarrow> editor \<Rightarrow> editor" where
  "add_image_clip file_path tr s =
     (let new_id = next_clip_id s;
          clip_name = basename file_path;
          clip_data = (clip_dict new_id ''image'' tr (current_time s) 5 clip_name)
                        \<lparr> path := Some file_path \<rparr>
      in s \<lparr> next_clip_id := next_clip_id s + 1,
             clips := clips s @ [clip_data],
             status := ''Loaded: '' @ clip_name \<rparr>)"

text \<open>\<^verbatim>\<open>TextClipDialog.get_values\<close>.\<close>

record text_values =
  tv_text :: string
  tv_font_size :: int
  tv_font_file :: string
  tv_font_color :: string
  tv_bg_color :: string
  tv_position :: string
  tv_duration :: rat
  tv_shadow :: bool
  tv_shadow_color :: string
  tv_shadow_offset :: int
  tv_outline :: bool
  tv_outline_color :: string
  tv_outline_width :: int
  tv_animation :: string
  tv_anim_duration :: rat

text \<open>\<^verbatim>\<open>add_text\<close>; \<open>None\<close> when the dialog was not accepted.\<close>

definition add_text :: "text_values option \<Rightarrow> int \<Rightarrow> editor \<Rightarrow> editor" where
  "add_text dialog tr s =
     (case dialog of
        None \<Rightarrow> s
      | Some values \<Rightarrow>
          let new_id = next_clip_id s;
              clip_data = (clip_dict new_id ''text'' tr (current_time s) (tv_duration values)
                             (''Text: '' @ take 20 (tv_text values)))
                \<lparr> text_content := Some (tv_text values),
                  font_size := Some (tv_font_size values),
                  font_file := Some (tv_font_file values),
                  font_color := Some (tv_font_color values),
                  bg_color := Some (tv_bg_color values),
                  position := Some (tv_position values),
                  shadow := Some (tv_shadow values),
                  shadow_color := Some (tv_shadow_color values),
                  shadow_offset := Some (tv_shadow_offset values),
                  outline := Some (tv_outline values),
                  outline_color := Some (tv_outline_color values),
                  outline_width := Some (tv_outline_width values),
                  animation := Some (tv_animation values),
                  anim_duration := Some (tv_anim_duration values) \<rparr>
          in s \<lparr> next_clip_id := next_clip_id s + 1, clips := clips s @ [clip_data] \<rparr>)"

text \<open>\<^verbatim>\<open>StickerDialog.get_values\<close>.\<close>

record sticker_values =
  sv_path :: string
  sv_x :: int
  sv_y :: int
  sv_scale :: rat
  sv_rotation :: rat
  sv_opacity :: rat
  sv_duration :: rat

definition add_sticker :: "sticker_values option \<Rightarrow> int \<Rightarrow> editor \<Rightarrow> editor" where
  "add_sticker dialog tr s =
     (case dialog of
        None \<Rightarrow> s
      | Some values \<Rightarrow>
          let new_id = next_clip_id s;
              sticker_name = basename (sv_path values);
              clip_data = (clip_dict new_id ''sticker'' tr (current_time s) (sv_duration values)
                             (''Sticker: '' @ sticker_name))
                \<lparr> path := Some (sv_path values),
                  scale := Some (sv_scale values),
                  rotation := Some (sv_rotation values),
                  opacity := Some (sv_opacity values),
                  pos_x := Some (sv_x values),
                  pos_y := Some (sv_y values) \<rparr>
          in s \<lparr> next_clip_id := next_clip_id s + 1,
                 clips := clips s @ [clip_data],
                 status := ''Sticker added: '' @ sticker_name \<rparr>)"

definition add_transition :: "int \<Rightarrow> editor \<Rightarrow> editor" where
  "add_transition tr s =
     (let new_id = next_clip_id s;
          clip_data = clip_dict new_id ''transition'' tr (current_time s) 2 ''Fade Transition''
      in s \<lparr> next_clip_id := next_clip_id s + 1,
             clips := clips s @ [clip_data],
             status := ''Fade transition added'' \<rparr>)"

subsection \<open>Editing the selected clip\<close>

text \<open>
  Every loop of the form \<^verbatim>\<open>for clip in self.clips: if clip['id'] == self.selected_clip_id: ...\<close>
  returns or breaks in the first iteration whose clip carries the selected identifier, so it
  acts on the first such clip: \<open>find_clip\<close> is its index.
\<close>

fun find_clip :: "int \<Rightarrow> clip list \<Rightarrow> nat option" where
  "find_clip cid [] = None"
| "find_clip cid (c # cs) =
     (if clip_id c = cid then Some 0 else map_option Suc (find_clip cid cs))"

definition select_clip :: "int \<Rightarrow> editor \<Rightarrow> editor" where
  "select_clip cid s = s \<lparr> selected_clip_id := cid \<rparr>"

text \<open>The values of the effect widgets when \<^verbatim>\<open>apply_effects_to_selected\<close> reads them.\<close>

record effects_panel =
  panel_fade_in :: rat
  panel_fade_out :: rat
  panel_scale :: rat
  panel_rotation :: rat
  panel_opacity :: rat
  panel_bw :: bool
  panel_blur :: rat
  panel_chroma_key :: bool

definition apply_effects_to_selected :: "effects_panel \<Rightarrow> editor \<Rightarrow> editor" where
  "apply_effects_to_selected panel s =
     (if selected_clip_id s = - 1 then s \<lparr> status := ''No clip selected'' \<rparr>
      else case find_clip (selected_clip_id s) (clips s) of
        None \<Rightarrow> s
      | Some k \<Rightarrow>
          s \<lparr> clips := (clips s)[k := (clips s ! k)
                  \<lparr> fade_in := Some (panel_fade_in panel),
                    fade_out := Some (panel_fade_out panel),
                    scale := Some (panel_scale panel),
                    rotation := Some (panel_rotation panel),
                    opacity := Some (panel_opacity panel),
                    bw := Some (panel_bw panel),
                    blur := Some (panel_blur panel),
                    chroma_key := Some (panel_chroma_key panel) \<rparr>],
              status := ''Effects applied to selected clip'' \<rparr>)"

text \<open>\<^verbatim>\<open>ChromaKeyDialog.get_values\<close>.\<close>

record chroma_values =
  cv_chroma_color :: string
  cv_chroma_similarity :: rat
  cv_chroma_blend :: rat

definition apply_chroma_key :: "chroma_values option \<Rightarrow> editor \<Rightarrow> editor" where
  "apply_chroma_key dialog s =
     (if selected_clip_id s = - 1 then s \<lparr> status := ''Select a video clip first'' \<rparr>
      else case dialog of
        None \<Rightarrow> s
      | Some values \<Rightarrow>
          (case find_clip (selected_clip_id s) (clips s) of
             None \<Rightarrow> s
           | Some k \<Rightarrow>
               s \<lparr> clips := (clips s)[k := (clips s ! k)
                       \<lparr> chroma_key := Some True,
                         chroma_color := Some (cv_chroma_color values),
                         chroma_similarity := Some (cv_chroma_similarity values),
                         chroma_blend := Some (cv_chroma_blend values) \<rparr>],
                   status := ''Chroma key effect applied'' \<rparr>))"

definition apply_lut :: "string option \<Rightarrow> editor \<Rightarrow> editor" where
  "apply_lut chosen s =
     (if selected_clip_id s = - 1 then s \<lparr> status := ''Select a video clip first'' \<rparr>
      else case chosen of
        None \<Rightarrow> s
      | Some file_path \<Rightarrow>
          (if file_path = [] then s
           else case find_clip (selected_clip_id s) (clips s) of
             None \<Rightarrow> s
           | Some k \<Rightarrow>
               s \<lparr> clips := (clips s)[k := (clips s ! k) \<lparr> lut := Some file_path \<rparr>],
                   status := ''LUT applied: '' @ basename file_path \<rparr>))"

text \<open>\<^verbatim>\<open>adjust_speed\<close>; \<open>str_speed\<close> is the text of the chosen factor in the status message.\<close>

definition adjust_speed :: "(rat \<times> string) option \<Rightarrow> editor \<Rightarrow> editor" where
  "adjust_speed dialog s =
     (if selected_clip_id s = - 1 then s \<lparr> status := ''Select a video clip first'' \<rparr>
      else case dialog of
        None \<Rightarrow> s
      | Some (sp, str_speed) \<Rightarrow>
          (case find_clip (selected_clip_id s) (clips s) of
             None \<Rightarrow> s
           | Some k \<Rightarrow>
               s \<lparr> clips := (clips s)[k := (clips s ! k) \<lparr> speed := Some sp \<rparr>],
                   status := ''Speed adjusted to '' @ str_speed @ ''x'' \<rparr>))"

definition delete_selected :: "editor \<Rightarrow> editor" where
  "delete_selected s =
     (if selected_clip_id s = - 1 then s \<lparr> status := ''No clip selected'' \<rparr>
      else case find_clip (selected_clip_id s) (clips s) of
        None \<Rightarrow> s
      | Some k \<Rightarrow>
          s \<lparr> clips := take k (clips s) @ drop (Suc k) (clips s),
              selected_clip_id := - 1,
              status := ''Clip deleted'' \<rparr>)"

text \<open>
  \<^verbatim>\<open>split_selected_clip\<close>. The copy \<^verbatim>\<open>new_clip\<close> is taken, and its duration computed, before
  the original's duration is overwritten. The three results \<^verbatim>\<open>current_time - clip['start']\<close>,
  \<^verbatim>\<open>clip['duration'] - clip_time\<close> and \<^verbatim>\<open>clip.get('start_trim', 0) + clip_time\<close> are doubles.
\<close>

definition split_selected_clip :: "editor \<Rightarrow> editor" where
  "split_selected_clip s =
     (if selected_clip_id s = - 1 then s \<lparr> status := ''Select a clip first'' \<rparr>
      else case find_clip (selected_clip_id s) (clips s) of
        None \<Rightarrow> s
      | Some k \<Rightarrow>
          let clip = clips s ! k in
          if clip_type clip \<noteq> ''video'' \<and> clip_type clip \<noteq> ''audio''
          then s \<lparr> status := ''Only video and audio clips can be split'' \<rparr>
          else
            let clip_time = fsub (current_time s) (start clip) in
            if clip_time \<le> 0 \<or> clip_time \<ge> duration clip
            then s \<lparr> status := ''Playhead must be within the clip'' \<rparr>
            else
              let new_clip_id = next_clip_id s;
                  new_clip = clip
                    \<lparr> clip_id := new_clip_id,
                      start := current_time s,
                      duration := fsub (duration clip) clip_time,
                      start_trim :=
                        Some (fadd (case start_trim clip of None \<Rightarrow> 0 | Some r \<Rightarrow> r) clip_time) \<rparr>
              in s \<lparr> next_clip_id := next_clip_id s + 1,
                     clips := (clips s)[k := clip \<lparr> duration := clip_time \<rparr>] @ [new_clip],
                     status := ''Clip split at playhead position'' \<rparr>)"

subsection \<open>Undo and redo\<close>

definition undo :: "editor \<Rightarrow> editor" where
  "undo s =
     (if undo_stack s \<noteq> [] then
        let state = last (undo_stack s)
        in s \<lparr> undo_stack := butlast (undo_stack s),
               redo_stack := redo_stack s @ [(clips s, next_clip_id s)],
               clips := fst state,
               next_clip_id := snd state,
               status := ''Undo'' \<rparr>
      else s)"

definition redo :: "editor \<Rightarrow> editor" where
  "redo s =
     (if redo_stack s \<noteq> [] then
        let state = last (redo_stack s)
        in s \<lparr> redo_stack := butlast (redo_stack s),
               undo_stack := undo_stack s @ [(clips s, next_clip_id s)],
               clips := fst state,
               next_clip_id := snd state,
               status := ''Redo'' \<rparr>
      else s)"

subsection \<open>Sessions of the editor\<close>

text \<open>
  The operations a user can trigger, with what the dialogs and probes returned, and the state
  they lead to from a given editor and disk. No other method of \<^verbatim>\<open>VideoEditor\<close> assigns the
  fields of the model.
\<close>

datatype action =
    NewProject
  | OpenProject "string option"
  | SaveProject string bool
  | ApplyProjectSettings string rat "int \<times> int" string
  | SetCurrentTime rat
  | AddVideoClip string int capture bool
  | AddAudioClip string int "string + rat"
  | AddImageClip string int
  | AddText "text_values option" int
  | AddSticker "sticker_values option" int
  | AddTransition int
  | SelectClip int
  | ApplyEffects effects_panel
  | ApplyChromaKey "chroma_values option"
  | ApplyLut "string option"
  | AdjustSpeed "(rat \<times> string) option"
  | DeleteSelected
  | SplitSelectedClip
  | Undo
  | Redo

fun perform :: "action \<Rightarrow> editor \<times> disk \<Rightarrow> editor \<times> disk" where
  "perform NewProject w = (new_project (fst w), snd w)"
| "perform (OpenProject chosen) w = (open_project chosen w, snd w)"
| "perform (SaveProject file_path writable) w = snd (do_save_project file_path writable w)"
| "perform (ApplyProjectSettings nm f res bg) w = (apply_project_settings nm f res bg (fst w), snd w)"
| "perform (SetCurrentTime t) w = (set_current_time t (fst w), snd w)"
| "perform (AddVideoClip file_path tr cap loaded) w = (add_video_clip file_path tr cap loaded (fst w), snd w)"
| "perform (AddAudioClip file_path tr probed) w = (add_audio_clip file_path tr probed (fst w), snd w)"
| "perform (AddImageClip file_path tr) w = (add_image_clip file_path tr (fst w), snd w)"
| "perform (AddText dialog tr) w = (add_text dialog tr (fst w), snd w)"
| "perform (AddSticker dialog tr) w = (add_sticker dialog tr (fst w), snd w)"
| "perform (AddTransition tr) w = (add_transition tr (fst w), snd w)"
| "perform (SelectClip cid) w = (select_clip cid (fst w), snd w)"
| "perform (ApplyEffects panel) w = (apply_effects_to_selected panel (fst w), snd w)"
| "perform (ApplyChromaKey dialog) w = (apply_chroma_key dialog (fst w), snd w)"
| "perform (ApplyLut chosen) w = (apply_lut chosen (fst w), snd w)"
| "perform (AdjustSpeed dialog) w = (adjust_speed dialog (fst w), snd w)"
| "perform DeleteSelected w = (delete_selected (fst w), snd w)"
| "perform SplitSelectedClip w = (split_selected_clip (fst w), snd w)"
| "perform Undo w = (undo (fst w), snd w)"
| "perform Redo w = (redo (fst w), snd w)"

fun session :: "action list \<Rightarrow> editor \<times> disk \<Rightarrow> editor \<times> disk" where
  "session [] w = w"
| "session (a # as) w = session as (perform a w)"

text \<open>
  The numbering of a clip list and a counter: every identifier in the list is below the
  counter. A project file is numbered well when the clip list and the counter that
  \<^verbatim>\<open>open_project\<close> takes from it are.
\<close>

definition well_numbered :: "clip list \<Rightarrow> int \<Rightarrow> bool" where
  "well_numbered cs n = list_all (\<lambda>c. clip_id c < n) cs"

definition well_numbered_file :: "project_file \<Rightarrow> bool" where
  "well_numbered_file f =
     well_numbered (case file_clips f of None \<Rightarrow> [] | Some cs \<Rightarrow> cs)
       (case file_next_clip_id f of None \<Rightarrow> 1 | Some n \<Rightarrow> n)"

section \<open>The export worker\<close>

subsection \<open>Effects, exceptions and the environment\<close>

text \<open>
  The worker acts on the world only through the media engine, the file system and its three
  signals. An \<open>event\<close> is one such action; the \<open>trace\<close> of a run lists them in order.
  \<open>Progress\<close>, \<open>Finished\<close> and \<open>Error\<close> are the signals \<^verbatim>\<open>progress\<close>, \<^verbatim>\<open>finished\<close> and
  \<^verbatim>\<open>error\<close>. \<open>Run\<close> is one \<^verbatim>\<open>subprocess.run\<close> with its argument list. \<open>TextImage\<close> stands for
  \<^verbatim>\<open>create_text_image\<close>, the rasterizer of a text clip, with the text drawn and the file
  written.
\<close>

datatype py_error =
    KeyError string
  | TypeError
  | ValueError
  | ZeroDivisionError
  | CalledProcessError
  | OSError

datatype event =
    Mkdtemp string
  | Progress int
  | Run "string list"
  | TextImage string string
  | WriteFile string string
  | CopyFile string string
  | RemoveFile string
  | Rmtree string
  | Finished string
  | Error py_error

text \<open>
  What the program takes from outside.
  \<^item> \<open>str_num\<close>: the text of a number, as \<^verbatim>\<open>str\<close> and an f-string produce it.
  \<^item> \<open>int16\<close>: \<^verbatim>\<open>int(s, 16)\<close>; \<open>None\<close> when it raises \<^verbatim>\<open>ValueError\<close>.
  \<^item> \<open>gettempdir\<close>, \<open>mkdtemp\<close>: the results of \<^verbatim>\<open>tempfile.gettempdir()\<close> and
    \<^verbatim>\<open>tempfile.mkdtemp()\<close>. Creating the directory and removing it with \<^verbatim>\<open>shutil.rmtree\<close>
    are taken to succeed.
  \<^item> \<open>raises\<close>: whether an engine invocation or file operation, attempted after the given
    history, raises, and what.
  \<^item> \<open>canceled\<close>: the value of \<^verbatim>\<open>self.canceled\<close> when read after the given history. Another
    thread sets the flag, so its value is a function of the moment of the read.
\<close>

record env =
  str_num :: "rat \<Rightarrow> string"
  int16 :: "string \<Rightarrow> int option"
  gettempdir :: string
  mkdtemp :: string
  raises :: "event list \<Rightarrow> event \<Rightarrow> py_error option"
  canceled :: "event list \<Rightarrow> bool"

record xstate =
  trace :: "event list"
  dirs :: "string set"

definition emit :: "event \<Rightarrow> xstate \<Rightarrow> xstate" where
  "emit ev s = s \<lparr> trace := trace s @ [ev] \<rparr>"

definition rmtree :: "string \<Rightarrow> xstate \<Rightarrow> xstate" where
  "rmtree d s = s \<lparr> trace := trace s @ [Rmtree d], dirs := dirs s - {d} \<rparr>"

text \<open>
  A statement that may raise returns the exception, if any, with the state reached.
  \<open>attempt\<close> performs one external operation; \<open>seq\<close> is the semicolon.
\<close>

definition attempt :: "env \<Rightarrow> event \<Rightarrow> xstate \<Rightarrow> py_error option \<times> xstate" where
  "attempt e ev s = (raises e (trace s) ev, s \<lparr> trace := trace s @ [ev] \<rparr>)"

definition seq ::
  "(xstate \<Rightarrow> py_error option \<times> xstate) \<Rightarrow> (xstate \<Rightarrow> py_error option \<times> xstate)
   \<Rightarrow> xstate \<Rightarrow> py_error option \<times> xstate" where
  "seq f g s = (case f s of (None, s') \<Rightarrow> g s' | (Some err, s') \<Rightarrow> (Some err, s'))"

text \<open>
  \<^verbatim>\<open>subprocess.run(cmd, check=True, ...)\<close>. An argument list that contains \<^verbatim>\<open>None\<close> raises
  \<^verbatim>\<open>TypeError\<close> before any process is started.
\<close>

definition subprocess_run :: "env \<Rightarrow> string option list \<Rightarrow> xstate \<Rightarrow> py_error option \<times> xstate" where
  "subprocess_run e cmd s =
     (if None \<in> set cmd then (Some TypeError, s) else attempt e (Run (map the cmd)) s)"

text \<open>\<^verbatim>\<open>d.get(key, default)\<close> on an optional key.\<close>

definition dict_get :: "'a option \<Rightarrow> 'a \<Rightarrow> 'a" where
  "dict_get v dflt = (case v of None \<Rightarrow> dflt | Some x \<Rightarrow> x)"

definition squote :: string where
  "squote = [CHR 0x27]"

definition backslash :: string where
  "backslash = [CHR 0x5C]"

definition newline :: string where
  "newline = [CHR 0x0A]"

subsection \<open>Rendering one clip\<close>

definition hex_to_rgb :: "env \<Rightarrow> string \<Rightarrow> py_error + int \<times> int \<times> int" where
  "hex_to_rgb e hex_color =
     (let h = dropWhile (\<lambda>c. c = CHR ''#'') hex_color in
      case int16 e (take 2 h) of
        None \<Rightarrow> Inl ValueError
      | Some r \<Rightarrow>
          (case int16 e (take 2 (drop 2 h)) of
             None \<Rightarrow> Inl ValueError
           | Some g \<Rightarrow>
               (case int16 e (take 2 (drop 4 h)) of
                  None \<Rightarrow> Inl ValueError
                | Some b \<Rightarrow> Inr (r, g, b))))"

text \<open>
  \<^verbatim>\<open>process_video_clip\<close> and \<^verbatim>\<open>process_image_clip\<close> carry the same lines for the scale,
  rotation, opacity, black-and-white and blur filters, and for the chroma key filter; they
  are \<open>effect_filters\<close> and \<open>chroma_filter\<close> here.
\<close>

definition effect_filters :: "env \<Rightarrow> clip \<Rightarrow> string list" where
  "effect_filters e clip =
     (if dict_get (scale clip) 1 \<noteq> 1
      then [''scale=iw*'' @ str_num e (dict_get (scale clip) 1) @ '':-1''] else [])
     @ (if dict_get (rotation clip) 0 \<noteq> 0
        then [''rotate='' @ str_num e (dict_get (rotation clip) 0) @ ''*PI/180''] else [])
     @ (if dict_get (opacity clip) 1 < 1
        then [''colorchannelmixer=aa='' @ str_num e (dict_get (opacity clip) 1)] else [])
     @ (if dict_get (bw clip) False then [''hue=s=0''] else [])
     @ (if dict_get (blur clip) 0 > 0
        then [''boxblur='' @ str_num e (dict_get (blur clip) 0)] else [])"

definition chroma_filter :: "env \<Rightarrow> clip \<Rightarrow> py_error + string list" where
  "chroma_filter e clip =
     (if dict_get (chroma_key clip) False then
        let color = dict_get (chroma_color clip) ''#00FF00'';
            similarity = dict_get (chroma_similarity clip) (1 / 10);
            blend = dict_get (chroma_blend clip) (1 / 10)
        in case hex_to_rgb e color of
             Inl err \<Rightarrow> Inl err
           | Inr (r, g, b) \<Rightarrow>
               Inr [''chromakey=color='' @ str_int r @ '':'' @ str_int g @ '':'' @ str_int b
                    @ '':similarity='' @ str_num e similarity @ '':blend='' @ str_num e blend]
      else Inr [])"

text \<open>The list \<^verbatim>\<open>filters\<close> of \<^verbatim>\<open>process_video_clip\<close>, or the exception raised on the way.\<close>

definition video_filters :: "env \<Rightarrow> clip \<Rightarrow> py_error + string list" where
  "video_filters e clip =
     (let start_time = dict_get (start_trim clip) 0;
          end_time = start_time + duration clip
      in case chroma_filter e clip of
           Inl err \<Rightarrow> Inl err
         | Inr chroma \<Rightarrow>
             if dict_get (speed clip) 1 \<noteq> 1 \<and> dict_get (speed clip) 1 = 0
             then Inl ZeroDivisionError
             else Inr
               ((if dict_get (fade_in clip) 0 > 0
                 then [''fade=t=in:st='' @ str_num e start_time
                       @ '':d='' @ str_num e (dict_get (fade_in clip) 0)] else [])
                @ (if dict_get (fade_out clip) 0 > 0
                   then [''fade=t=out:st='' @ str_num e (end_time - dict_get (fade_out clip) 0)
                         @ '':d='' @ str_num e (dict_get (fade_out clip) 0)] else [])
                @ effect_filters e clip
                @ chroma
                @ (if dict_get (lut clip) [] \<noteq> []
                   then [''lut3d=file='' @ squote @ dict_get (lut clip) [] @ squote] else [])
                @ (if dict_get (speed clip) 1 \<noteq> 1
                   then [''setpts='' @ str_num e (1 / dict_get (speed clip) 1) @ ''*PTS''] else [])))"

text \<open>
  The argument list \<^verbatim>\<open>cmd\<close> of \<^verbatim>\<open>process_video_clip\<close>. \<^verbatim>\<open>filter_str\<close> is \<^verbatim>\<open>None\<close> when no
  filter was added, and is placed in the list as it is.
\<close>

definition video_cmd :: "env \<Rightarrow> clip \<Rightarrow> string \<Rightarrow> py_error + string option list" where
  "video_cmd e clip output_path =
     (case video_filters e clip of
        Inl err \<Rightarrow> Inl err
      | Inr filters \<Rightarrow>
          let start_time = dict_get (start_trim clip) 0;
              dur = (if dict_get (speed clip) 1 \<noteq> 1
                     then duration clip / dict_get (speed clip) 1 else duration clip);
              filter_str = (if filters \<noteq> [] then Some (join '','' filters) else None)
          in (case path clip of
               None \<Rightarrow> Inl (KeyError ''path'')
             | Some p \<Rightarrow>
                 if dict_get (speed clip) 1 \<noteq> 1
                 then Inr (map Some [''ffmpeg'', ''-y'', ''-ss'', str_num e start_time, ''-i'', p,
                                     ''-t'', str_num e dur, ''-vf'']
                           @ [filter_str]
                           @ map Some [''-filter:a'', ''atempo='' @ str_num e (dict_get (speed clip) 1),
                                       ''-c:v'', ''libx264'', ''-preset'', ''fast'', ''-crf'', ''23'',
                                       output_path])
                 else Inr (map Some [''ffmpeg'', ''-y'', ''-ss'', str_num e start_time, ''-i'', p,
                                     ''-t'', str_num e dur, ''-vf'']
                           @ [filter_str]
                           @ map Some [''-c:v'', ''libx264'', ''-preset'', ''fast'', ''-crf'', ''23'',
                                       output_path])))"

definition process_video_clip :: "env \<Rightarrow> clip \<Rightarrow> string \<Rightarrow> xstate \<Rightarrow> py_error option \<times> xstate" where
  "process_video_clip e clip output_path s =
     (case video_cmd e clip output_path of
        Inl err \<Rightarrow> (Some err, s)
      | Inr cmd \<Rightarrow> subprocess_run e cmd s)"

definition image_filters :: "env \<Rightarrow> clip \<Rightarrow> py_error + string list" where
  "image_filters e clip =
     (case chroma_filter e clip of
        Inl err \<Rightarrow> Inl err
      | Inr chroma \<Rightarrow>
          Inr
            ((if dict_get (fade_in clip) 0 > 0
              then [''fade=t=in:st=0:d='' @ str_num e (dict_get (fade_in clip) 0)] else [])
             @ (if dict_get (fade_out clip) 0 > 0
                then [''fade=t=out:st='' @ str_num e (duration clip - dict_get (fade_out clip) 0)
                      @ '':d='' @ str_num e (dict_get (fade_out clip) 0)] else [])
             @ effect_filters e clip
             @ chroma
             @ (if dict_get (lut clip) [] \<noteq> []
                then [''lut3d:file='' @ squote @ dict_get (lut clip) [] @ squote] else [])))"

definition image_cmd :: "env \<Rightarrow> clip \<Rightarrow> string \<Rightarrow> py_error + string option list" where
  "image_cmd e clip output_path =
     (case image_filters e clip of
        Inl err \<Rightarrow> Inl err
      | Inr filters \<Rightarrow>
          let filter_str = (if filters \<noteq> [] then Some (join '','' filters) else None)
          in (case path clip of
               None \<Rightarrow> Inl (KeyError ''path'')
             | Some p \<Rightarrow>
                 Inr (map Some [''ffmpeg'', ''-y'', ''-loop'', ''1'', ''-i'', p,
                                ''-t'', str_num e (duration clip), ''-vf'']
                      @ [filter_str]
                      @ map Some [''-c:v'', ''libx264'', ''-pix_fmt'', ''yuv420p'',
                                  ''-preset'', ''fast'', ''-crf'', ''23'', output_path])))"

definition process_image_clip :: "env \<Rightarrow> clip \<Rightarrow> string \<Rightarrow> xstate \<Rightarrow> py_error option \<times> xstate" where
  "process_image_clip e clip output_path s =
     (case image_cmd e clip output_path of
        Inl err \<Rightarrow> (Some err, s)
      | Inr cmd \<Rightarrow> subprocess_run e cmd s)"

text \<open>\<^verbatim>\<open>text.replace(":", "\\:").replace("'", "\\\\'")\<close>.\<close>

definition escape_text :: "string \<Rightarrow> string" where
  "escape_text t =
     concat (map (\<lambda>c. if c = CHR 0x27 then backslash @ backslash @ squote else [c])
       (concat (map (\<lambda>c. if c = CHR '':'' then backslash @ '':'' else [c]) t)))"

definition color_source :: "env \<Rightarrow> settings \<Rightarrow> string \<Rightarrow> string" where
  "color_source e st color =
     ''color=size='' @ str_int (fst (resolution st)) @ ''x'' @ str_int (snd (resolution st))
     @ '':rate='' @ str_num e (fps st) @ '':color='' @ color"

text \<open>
  \<^verbatim>\<open>process_text_clip\<close>: the text image is drawn first, then the plate is rendered, the
  image overlaid, and the image file removed.
\<close>

definition process_text_clip ::
  "env \<Rightarrow> settings \<Rightarrow> clip \<Rightarrow> string \<Rightarrow> xstate \<Rightarrow> py_error option \<times> xstate" where
  "process_text_clip e st clip output_path =
     (let text = escape_text (dict_get (text_content clip) ''Sample Text'');
          bg = dict_get (bg_color clip) ''#00000000'';
          cmd = [''ffmpeg'', ''-y'', ''-f'', ''lavfi'', ''-i'', color_source e st bg,
                 ''-t'', str_num e (duration clip), ''-c:v'', ''libx264'',
                 ''-pix_fmt'', ''yuv420p'', output_path];
          temp_text_img = path_join (gettempdir e) ''text_overlay.png'';
          overlay_cmd = [''ffmpeg'', ''-y'', ''-i'', output_path, ''-i'', temp_text_img,
                         ''-filter_complex'', ''[0:v][1:v]overlay=0:0'',
                         ''-c:a'', ''copy'', output_path]
      in seq (attempt e (TextImage text temp_text_img))
           (seq (subprocess_run e (map Some cmd))
              (seq (subprocess_run e (map Some overlay_cmd))
                 (attempt e (RemoveFile temp_text_img)))))"

text \<open>\<^verbatim>\<open>process_sticker_clip\<close>: \<^verbatim>\<open>clip['path']\<close> is read after the plate has been rendered.\<close>

definition process_sticker_clip ::
  "env \<Rightarrow> settings \<Rightarrow> clip \<Rightarrow> string \<Rightarrow> xstate \<Rightarrow> py_error option \<times> xstate" where
  "process_sticker_clip e st clip output_path =
     (let bg_cmd = [''ffmpeg'', ''-y'', ''-f'', ''lavfi'', ''-i'', color_source e st ''#00000000'',
                    ''-t'', str_num e (duration clip), ''-c:v'', ''libx264'',
                    ''-pix_fmt'', ''yuv420p'', output_path]
      in seq (subprocess_run e (map Some bg_cmd))
           (\<lambda>s. case path clip of
                  None \<Rightarrow> (Some (KeyError ''path''), s)
                | Some sticker_path \<Rightarrow>
                    let x = dict_get (pos_x clip) (fst (resolution st) div 2);
                        y = dict_get (pos_y clip) (snd (resolution st) div 2);
                        sc = str_num e (dict_get (scale clip) 1);
                        rot = str_num e (dict_get (rotation clip) 0);
                        op = str_num e (dict_get (opacity clip) 1);
                        overlay_cmd =
                          [''ffmpeg'', ''-y'', ''-i'', output_path, ''-i'', sticker_path,
                           ''-filter_complex'',
                           ''[1]scale=iw*'' @ sc @ '':-1,rotate='' @ rot @ ''*PI/180:ow=''
                             @ squote @ ''rotw(iw,ih,'' @ rot @ '')'' @ squote @ '':oh=''
                             @ squote @ ''roth(iw,ih,'' @ rot @ '')'' @ squote
                             @ '',colorchannelmixer=aa='' @ op @ ''[sticker];''
                             @ ''[0][sticker]overlay='' @ str_int x @ '':'' @ str_int y,
                           ''-c:a'', ''copy'', output_path]
                    in subprocess_run e (map Some overlay_cmd) s))"

definition process_transition_clip ::
  "env \<Rightarrow> settings \<Rightarrow> clip \<Rightarrow> string \<Rightarrow> xstate \<Rightarrow> py_error option \<times> xstate" where
  "process_transition_clip e st clip output_path =
     subprocess_run e
       (map Some [''ffmpeg'', ''-y'', ''-f'', ''lavfi'', ''-i'', color_source e st ''black'',
                  ''-t'', str_num e (duration clip), ''-c:v'', ''libx264'',
                  ''-pix_fmt'', ''yuv420p'', output_path])"

definition process_audio_clip :: "env \<Rightarrow> clip \<Rightarrow> string \<Rightarrow> xstate \<Rightarrow> py_error option \<times> xstate" where
  "process_audio_clip e clip output_path s =
     (case path clip of
        None \<Rightarrow> (Some (KeyError ''path''), s)
      | Some p \<Rightarrow>
          subprocess_run e
            (map Some [''ffmpeg'', ''-y'', ''-ss'', str_num e (dict_get (start_trim clip) 0),
                       ''-i'', p, ''-t'', str_num e (duration clip),
                       ''-af'', ''volume='' @ str_num e (dict_get (volume clip) 1),
                       output_path]) s)"

subsection \<open>The export run\<close>

text \<open>
  The \<^verbatim>\<open>if\<close>/\<^verbatim>\<open>elif\<close> chain of the first loop for a clip that is not audio. A type that no
  branch names renders nothing.
\<close>

definition render_clip ::
  "env \<Rightarrow> settings \<Rightarrow> clip \<Rightarrow> string \<Rightarrow> xstate \<Rightarrow> py_error option \<times> xstate" where
  "render_clip e st clip output_path s =
     (if clip_type clip = ''video'' then process_video_clip e clip output_path s
      else if clip_type clip = ''image'' then process_image_clip e clip output_path s
      else if clip_type clip = ''text'' then process_text_clip e st clip output_path s
      else if clip_type clip = ''transition'' then process_transition_clip e st clip output_path s
      else if clip_type clip = ''sticker'' then process_sticker_clip e st clip output_path s
      else (None, s))"

text \<open>\<^verbatim>\<open>int((i / total_clips) * 80)\<close>.\<close>

definition progress_value :: "nat \<Rightarrow> nat \<Rightarrow> int" where
  "progress_value i total_clips = \<lfloor>(rat_of_nat i / rat_of_nat total_clips) * 80\<rfloor>"

definition clip_file :: "string \<Rightarrow> nat \<Rightarrow> string" where
  "clip_file temp_dir i = path_join temp_dir (''clip_'' @ str_nat i @ ''.mp4'')"

definition audio_file :: "string \<Rightarrow> nat \<Rightarrow> string" where
  "audio_file temp_dir i = path_join temp_dir (''audio_'' @ str_nat i @ ''.wav'')"

text \<open>
  The first loop of \<^verbatim>\<open>export\<close>, from index \<open>i\<close> on, with the list \<^verbatim>\<open>intermediate_files\<close>
  built so far. It returns the exception raised, if any, the list, and the state. The
  \<^verbatim>\<open>break\<close> on the flag returns normally; an audio clip emits its progress value and is
  skipped by \<^verbatim>\<open>continue\<close>.
\<close>

fun render_clips ::
  "env \<Rightarrow> settings \<Rightarrow> string \<Rightarrow> nat \<Rightarrow> nat \<Rightarrow> clip list \<Rightarrow> string list \<Rightarrow> xstate
   \<Rightarrow> py_error option \<times> string list \<times> xstate" where
  "render_clips e st temp_dir total_clips i [] files s = (None, files, s)"
| "render_clips e st temp_dir total_clips i (clip # rest) files s =
     (if canceled e (trace s) then (None, files, s)
      else
        let s1 = emit (Progress (progress_value i total_clips)) s;
            output_path = clip_file temp_dir i
        in if clip_type clip = ''audio''
           then render_clips e st temp_dir total_clips (Suc i) rest files s1
           else (case render_clip e st clip output_path s1 of
                   (Some err, s2) \<Rightarrow> (Some err, files, s2)
                 | (None, s2) \<Rightarrow>
                     render_clips e st temp_dir total_clips (Suc i) rest (files @ [output_path]) s2))"

text \<open>The second loop, over the same list, which trims the audio clips.\<close>

fun process_audio_clips ::
  "env \<Rightarrow> string \<Rightarrow> nat \<Rightarrow> clip list \<Rightarrow> string list \<Rightarrow> xstate
   \<Rightarrow> py_error option \<times> string list \<times> xstate" where
  "process_audio_clips e temp_dir i [] audio_files s = (None, audio_files, s)"
| "process_audio_clips e temp_dir i (clip # rest) audio_files s =
     (if clip_type clip = ''audio'' then
        (case process_audio_clip e clip (audio_file temp_dir i) s of
           (Some err, s1) \<Rightarrow> (Some err, audio_files, s1)
         | (None, s1) \<Rightarrow>
             process_audio_clips e temp_dir (Suc i) rest (audio_files @ [audio_file temp_dir i]) s1)
      else process_audio_clips e temp_dir (Suc i) rest audio_files s)"

definition video_list_content :: "string list \<Rightarrow> string" where
  "video_list_content files =
     concat (map (\<lambda>file. ''file '' @ squote @ file @ squote @ newline) files)"

definition concat_cmd :: "string \<Rightarrow> string \<Rightarrow> string list" where
  "concat_cmd video_list_file concat_path =
     [''ffmpeg'', ''-y'', ''-f'', ''concat'', ''-safe'', ''0'',
      ''-i'', video_list_file, ''-c'', ''copy'', concat_path]"

text \<open>
  The loop \<^verbatim>\<open>for j, audio_file in enumerate(audio_files)\<close> extends \<^verbatim>\<open>audio_inputs\<close> by
  \<^verbatim>\<open>["-i", audio_file]\<close> and \<^verbatim>\<open>filter_complex\<close> by \<^verbatim>\<open>f"[{j+1}:a]"\<close>.
\<close>

definition audio_inputs :: "string list \<Rightarrow> string list" where
  "audio_inputs audio_files = concat (map (\<lambda>f. [''-i'', f]) audio_files)"

definition input_labels :: "string list \<Rightarrow> string list" where
  "input_labels audio_files =
     map (\<lambda>j. ''['' @ str_nat (j + 1) @ '':a]'') [0..<length audio_files]"

definition filter_complex :: "string list \<Rightarrow> string" where
  "filter_complex audio_files =
     concat (input_labels audio_files)
     @ ''amix=inputs='' @ str_nat (length audio_files) @ '':duration=longest[a]''"

definition mix_cmd :: "string list \<Rightarrow> string \<Rightarrow> string list" where
  "mix_cmd audio_files mixed_audio =
     [''ffmpeg'', ''-y''] @ audio_inputs audio_files
     @ [''-filter_complex'', filter_complex audio_files, ''-map'', ''[a]'', mixed_audio]"

definition combine_cmd :: "string \<Rightarrow> string \<Rightarrow> string \<Rightarrow> string list" where
  "combine_cmd concat_path mixed_audio final_output =
     [''ffmpeg'', ''-y'', ''-i'', concat_path, ''-i'', mixed_audio,
      ''-c:v'', ''libx264'', ''-c:a'', ''aac'', ''-b:a'', ''192k'',
      ''-map'', ''0:v:0'', ''-map'', ''1:a:0'', ''-shortest'', final_output]"

text \<open>From writing the concatenation list to the final output.\<close>

definition assemble ::
  "env \<Rightarrow> string \<Rightarrow> string \<Rightarrow> string list \<Rightarrow> string list \<Rightarrow> xstate \<Rightarrow> py_error option \<times> xstate" where
  "assemble e temp_dir final_output intermediate_files audio_files =
     (let video_list_file = path_join temp_dir ''video_list.txt'';
          concat_path = path_join temp_dir ''concat.mp4'';
          mixed_audio = path_join temp_dir ''mixed_audio.wav''
      in seq (attempt e (WriteFile video_list_file (video_list_content intermediate_files)))
           (seq (subprocess_run e (map Some (concat_cmd video_list_file concat_path)))
              (if audio_files \<noteq> []
               then seq (subprocess_run e (map Some (mix_cmd audio_files mixed_audio)))
                      (subprocess_run e (map Some (combine_cmd concat_path mixed_audio final_output)))
               else attempt e (CopyFile concat_path final_output))))"

text \<open>
  What follows the first loop inside the \<^verbatim>\<open>try\<close> block: the audio loop, the assembly, the
  removal of the scratch directory and the \<^verbatim>\<open>finished\<close> signal, which is emitted unless the
  flag is set when it is read there.
\<close>

definition after_clips ::
  "env \<Rightarrow> clip list \<Rightarrow> string \<Rightarrow> string \<Rightarrow> string list \<Rightarrow> xstate \<Rightarrow> py_error option \<times> xstate" where
  "after_clips e cs output_path temp_dir intermediate_files s1 =
     (case process_audio_clips e temp_dir 0 cs [] s1 of
        (Some err, audio_files, s2) \<Rightarrow> (Some err, s2)
      | (None, audio_files, s2) \<Rightarrow>
          (case assemble e temp_dir output_path intermediate_files audio_files s2 of
             (Some err, s3) \<Rightarrow> (Some err, s3)
           | (None, s3) \<Rightarrow>
               (None, if \<not> canceled e (trace (rmtree temp_dir s3))
                      then emit (Finished output_path) (rmtree temp_dir s3)
                      else rmtree temp_dir s3)))"

text \<open>The body of the \<^verbatim>\<open>try\<close> block after the scratch directory has been made.\<close>

definition export_body ::
  "env \<Rightarrow> clip list \<Rightarrow> settings \<Rightarrow> string \<Rightarrow> string \<Rightarrow> xstate \<Rightarrow> py_error option \<times> xstate" where
  "export_body e cs st output_path temp_dir s =
     (case render_clips e st temp_dir (length cs) 0 cs [] s of
        (Some err, intermediate_files, s1) \<Rightarrow> (Some err, s1)
      | (None, intermediate_files, s1) \<Rightarrow>
          after_clips e cs output_path temp_dir intermediate_files s1)"

text \<open>
  \<^verbatim>\<open>VideoExportWorker.export\<close>, for the worker's clip list, settings and output path, started
  with the directories \<open>ds\<close> on disk. The handler emits the error and removes the scratch
  directory if it still exists.
\<close>

definition export :: "env \<Rightarrow> clip list \<Rightarrow> settings \<Rightarrow> string \<Rightarrow> string set \<Rightarrow> xstate" where
  "export e cs st output_path ds =
     (case export_body e cs st output_path (mkdtemp e)
             \<lparr> trace = [Mkdtemp (mkdtemp e)], dirs = insert (mkdtemp e) ds \<rparr> of
        (Some err, s1) \<Rightarrow>
          if mkdtemp e \<in> dirs (emit (Error err) s1)
          then rmtree (mkdtemp e) (emit (Error err) s1)
          else emit (Error err) s1
      | (None, s1) \<Rightarrow> s1)"

text \<open>
  \<^verbatim>\<open>VideoEditor.export_project\<close>, given the path chosen in the file dialog: the worker gets
  the editor's clip list and settings, and the editor's state is returned as it was.
\<close>

definition export_project ::
  "env \<Rightarrow> string option \<Rightarrow> string set \<Rightarrow> editor \<Rightarrow> editor \<times> xstate option" where
  "export_project e chosen ds s =
     (if clips s = [] then (s, None)
      else case chosen of
        None \<Rightarrow> (s, None)
      | Some file_path \<Rightarrow>
          if file_path = [] then (s, None)
          else (s, Some (export e (clips s) (project_settings s) file_path ds)))"

subsection \<open>Reading a trace\<close>

fun progress_values :: "event list \<Rightarrow> int list" where
  "progress_values [] = []"
| "progress_values (Progress v # evs) = v # progress_values evs"
| "progress_values (ev # evs) = progress_values evs"

fun is_signal :: "event \<Rightarrow> bool" where
  "is_signal (Progress v) = True"
| "is_signal (Finished p) = True"
| "is_signal (Error err) = True"
| "is_signal ev = False"

text \<open>The events that rendering or trimming one clip can add.\<close>

fun is_engine :: "event \<Rightarrow> bool" where
  "is_engine (Run cmd) = True"
| "is_engine (TextImage t p) = True"
| "is_engine (RemoveFile p) = True"
| "is_engine ev = False"

definition other_events :: "event list \<Rightarrow> event list" where
  "other_events evs = filter (\<lambda>ev. \<not> is_engine ev) evs"

text \<open>
  A statement is quiet when it touches no directory and adds engine events only to the
  trace.
\<close>

definition quiet :: "(xstate \<Rightarrow> py_error option \<times> xstate) \<Rightarrow> bool" where
  "quiet f =
     (\<forall>s. dirs (snd (f s)) = dirs s \<and> prefix (trace s) (trace (snd (f s)))
          \<and> other_events (trace (snd (f s))) = other_events (trace s))"

text \<open>
  The files that the first loop has put on \<^verbatim>\<open>intermediate_files\<close> when it has gone through
  the first \<open>k\<close> clips of the list: those of the clips that are not audio, each named by
  the clip's index in the list, in the order of the list.
\<close>

definition rendered_files :: "string \<Rightarrow> nat \<Rightarrow> clip list \<Rightarrow> string list" where
  "rendered_files temp_dir k cs =
     map (\<lambda>(j, c). clip_file temp_dir j)
       (filter (\<lambda>(j, c). clip_type c \<noteq> ''audio'') (take k (enumerate 0 cs)))"

text \<open>
  A clip whose effect keys are each absent or at the neutral value that the render
  functions test for. \<open>effect_free\<close> covers the keys read by \<^verbatim>\<open>process_image_clip\<close>, and
  \<open>speed_free\<close> the one more that \<^verbatim>\<open>process_video_clip\<close> reads.
\<close>

definition effect_free :: "clip \<Rightarrow> bool" where
  "effect_free clip =
     (dict_get (fade_in clip) 0 = 0 \<and> dict_get (fade_out clip) 0 = 0
      \<and> dict_get (scale clip) 1 = 1 \<and> dict_get (rotation clip) 0 = 0
      \<and> dict_get (opacity clip) 1 = 1 \<and> dict_get (bw clip) False = False
      \<and> dict_get (blur clip) 0 = 0 \<and> dict_get (chroma_key clip) False = False
      \<and> dict_get (lut clip) [] = [])"

definition speed_free :: "clip \<Rightarrow> bool" where
  "speed_free clip = (dict_get (speed clip) 1 = 1)"

subsection \<open>Sample inputs\<close>

text \<open>
  A session that imports a ten second video, selects it and moves the playhead to a given
  time.
\<close>

definition sample_capture :: capture where
  "sample_capture = \<lparr> opened = True, cap_fps = 30, frame_count = 300 \<rparr>"

definition sample_editor :: "rat \<Rightarrow> editor" where
  "sample_editor t =
     fst (session [AddVideoClip ''a.mp4'' 0 sample_capture True, SelectClip 1, SetCurrentTime t]
            (init_editor, Map.empty))"

text \<open>
  The doubles nearest to 0.1, 0.3 and 10.1, and the session that imports the ten second
  video with the playhead at the first of them, selects it and moves the playhead.
\<close>

definition tenth :: rat where
  "tenth = 3602879701896397 / 36028797018963968"

definition three_tenths :: rat where
  "three_tenths = 5404319552844595 / 18014398509481984"

definition ten_and_tenth :: rat where
  "ten_and_tenth = 5685794529555251 / 562949953421312"

definition offset_editor :: "rat \<Rightarrow> editor" where
  "offset_editor t =
     fst (session [SetCurrentTime tenth, AddVideoClip ''a.mp4'' 0 sample_capture True,
                   SelectClip 1, SetCurrentTime t]
            (init_editor, Map.empty))"

text \<open>
  A project file that holds one video clip, numbered 1, and no counter; and the session that
  opens it, selects the clip and moves the playhead to 4 seconds.
\<close>

definition bare_file :: project_file where
  "bare_file =
     \<lparr> file_name = None, file_settings = None,
       file_clips = Some [(clip_dict 1 ''video'' 0 0 10 ''a.mp4'') \<lparr> path := Some ''a.mp4'' \<rparr>],
       file_next_clip_id = None \<rparr>"

definition reopened_editor :: editor where
  "reopened_editor =
     fst (session [OpenProject (Some ''p.json''), SelectClip 1, SetCurrentTime 4]
            (init_editor, [''p.json'' \<mapsto> bare_file]))"

text \<open>A project with one clip of each kind that the editor can add.\<close>

definition sample_text_values :: text_values where
  "sample_text_values =
     \<lparr> tv_text = ''Hello'', tv_font_size = 48, tv_font_file = [], tv_font_color = ''#FFFFFF'',
       tv_bg_color = ''#00000000'', tv_position = ''center'', tv_duration = 5,
       tv_shadow = False, tv_shadow_color = ''#000000'', tv_shadow_offset = 2,
       tv_outline = False, tv_outline_color = ''#000000'', tv_outline_width = 1,
       tv_animation = ''none'', tv_anim_duration = 1 \<rparr>"

definition sample_sticker_values :: sticker_values where
  "sample_sticker_values =
     \<lparr> sv_path = ''s.png'', sv_x = 10, sv_y = 20, sv_scale = 1, sv_rotation = 0,
       sv_opacity = 1, sv_duration = 5 \<rparr>"

definition mixed_project :: editor where
  "mixed_project =
     fst (session [AddVideoClip ''a.mp4'' 0 sample_capture True, AddAudioClip ''b.wav'' 5 (Inr 8),
                   AddImageClip ''c.png'' 0, AddText (Some sample_text_values) 1,
                   AddSticker (Some sample_sticker_values) 0, AddTransition 0]
            (init_editor, Map.empty))"

text \<open>
  An environment in which nothing raises, numbers print as their integer part, and the flag
  has the given value at every read.
\<close>

definition sample_env :: "bool \<Rightarrow> env" where
  "sample_env c =
     \<lparr> str_num = (\<lambda>r. str_int \<lfloor>r\<rfloor>), int16 = (\<lambda>x. None), gettempdir = ''/tmp'',
       mkdtemp = ''/tmp/x'', raises = (\<lambda>t ev. None), canceled = (\<lambda>t. c) \<rparr>"

text \<open>
  The environment with the flag set in which the concatenation into \<^verbatim>\<open>/tmp/x/concat.mp4\<close>
  exits with an error.
\<close>

definition concat_fails_env :: env where
  "concat_fails_env =
     (sample_env True)
       \<lparr> raises := (\<lambda>t ev. if ev = Run [''ffmpeg'', ''-y'', ''-f'', ''concat'', ''-safe'', ''0'', ''-i'',
                                          ''/tmp/x/video_list.txt'', ''-c'', ''copy'',
                                          ''/tmp/x/concat.mp4'']
                              then Some CalledProcessError else None) \<rparr>"

text \<open>
  A project with two transition clips, the first added with the playhead at 5 seconds and
  the second with the playhead back at 0; and a project with a transition clip followed by
  an audio clip.
\<close>

definition transitions_project :: editor where
  "transitions_project =
     fst (session [SetCurrentTime 5, AddTransition 0, SetCurrentTime 0, AddTransition 0]
            (init_editor, Map.empty))"

definition two_transitions :: "clip list" where
  "two_transitions = clips transitions_project"

definition audio_project :: editor where
  "audio_project =
     fst (session [AddTransition 0, AddAudioClip ''b.wav'' 5 (Inr 8)] (init_editor, Map.empty))"

definition with_audio :: "clip list" where
  "with_audio = clips audio_project"

section \<open>Properties of the rounding\<close>

text \<open>
  Rounding to the nearest double is monotone, it commutes with negation, and it leaves
  \<open>k * 2 ^ j / 2 ^ 1074\<close> as it is for every integer \<open>k\<close> of magnitude below \<open>2 ^ 53\<close>; among
  these values are the integers of that magnitude.
\<close>

lemma floor_numeral_divide:
  "\<lfloor>(numeral a :: rat) / numeral b\<rfloor> = numeral a div numeral b"
  using floor_divide_of_int_eq [of "numeral a" "numeral b", where ?'a = rat] by simp

lemmas round_double_eval =
  round_double_def decompose_def bias_def normalize_down.simps normalize_up.simps
  round_half_even_def Let_def floor_numeral_divide

lemma round_half_even_of_int [simp]: "round_half_even (of_int k) = k"
  by (simp add: round_half_even_def)

lemma round_half_even_mono: "x \<le> y \<Longrightarrow> round_half_even x \<le> round_half_even y"
proof -
  assume xy: "x \<le> y"
  then have f: "\<lfloor>x\<rfloor> \<le> \<lfloor>y\<rfloor>"
    by (rule floor_mono)
  show ?thesis
  proof (cases "\<lfloor>x\<rfloor> = \<lfloor>y\<rfloor>")
    case True
    with xy show ?thesis
      by (auto simp: round_half_even_def Let_def)
  next
    case False
    with f have "\<lfloor>x\<rfloor> + 1 \<le> \<lfloor>y\<rfloor>"
      by simp
    moreover have "round_half_even x \<le> \<lfloor>x\<rfloor> + 1"
      by (simp add: round_half_even_def Let_def)
    moreover have "\<lfloor>y\<rfloor> \<le> round_half_even y"
      by (simp add: round_half_even_def Let_def)
    ultimately show ?thesis
      by linarith
  qed
qed

lemma round_half_even_ge: "of_int k \<le> x \<Longrightarrow> k \<le> round_half_even x"
  using round_half_even_mono [of "of_int k" x] by simp

lemma round_half_even_le: "x \<le> of_int k \<Longrightarrow> round_half_even x \<le> k"
  using round_half_even_mono [of x "of_int k"] by simp

lemma normalize_down_props:
  assumes "normalize_down m n = (m', n')" and "0 \<le> m"
  shows "m' * 2 ^ n' = m * 2 ^ n \<and> 0 \<le> m' \<and> m' < 2 ^ 53 \<and> n \<le> n' \<and> (n < n' \<longrightarrow> 2 ^ 52 \<le> m')"
  using assms
proof (induction m n rule: normalize_down.induct)
  case (1 m n)
  show ?case
  proof (cases "2 ^ 53 \<le> m")
    case True
    with "1.prems" have r: "normalize_down (m / 2) (Suc n) = (m', n')"
      by (simp add: normalize_down.simps [of m n])
    from "1.prems" have "0 \<le> m / 2"
      by simp
    from "1.IH" [OF True r this]
    have eq: "m' * 2 ^ n' = m / 2 * 2 ^ Suc n" and p: "0 \<le> m'" "m' < 2 ^ 53" "Suc n \<le> n'"
      and q: "Suc n < n' \<longrightarrow> 2 ^ 52 \<le> m'"
      by simp_all
    have "2 ^ 52 \<le> m'"
    proof (cases "Suc n < n'")
      case True
      with q show ?thesis
        by simp
    next
      case False
      with p have "n' = Suc n"
        by simp
      with eq have "m' = m / 2"
        by simp
      with True show ?thesis
        by simp
    qed
    with eq p show ?thesis
      by simp
  next
    case False
    with "1.prems" show ?thesis
      by (simp add: normalize_down.simps [of m n])
  qed
qed

lemma normalize_up_props:
  assumes "normalize_up m n = (m', n')" and "0 \<le> m" and "m < 2 ^ 53"
  shows "m' * 2 ^ n' = m * 2 ^ n \<and> 0 \<le> m' \<and> m' < 2 ^ 53 \<and> n' \<le> n \<and> (2 ^ 52 \<le> m' \<or> n' = 0)"
  using assms
proof (induction m n rule: normalize_up.induct)
  case (1 m n)
  show ?case
  proof (cases "m < 2 ^ 52 \<and> 0 < n")
    case True
    with "1.prems" have r: "normalize_up (2 * m) (n - 1) = (m', n')"
      by (simp add: normalize_up.simps [of m n])
    from "1.prems" True have "0 \<le> 2 * m" "2 * m < 2 ^ 53"
      by simp_all
    from "1.IH" [OF True r this]
    have eq: "m' * 2 ^ n' = 2 * m * 2 ^ (n - 1)" and p: "0 \<le> m'" "m' < 2 ^ 53" "n' \<le> n - 1"
      "2 ^ 52 \<le> m' \<or> n' = 0"
      by simp_all
    from True have "(2::rat) ^ n = 2 * 2 ^ (n - 1)"
      by (cases n) simp_all
    with eq p show ?thesis
      by simp
  next
    case False
    with "1.prems" show ?thesis
      by (auto simp: normalize_up.simps [of m n])
  qed
qed

lemma decompose_props:
  assumes "decompose x = (m, n)" and "0 \<le> x"
  shows "m * 2 ^ n = x * 2 ^ bias \<and> 0 \<le> m \<and> m < 2 ^ 53 \<and> (2 ^ 52 \<le> m \<or> n = 0)"
proof -
  obtain m1 n1 where d: "normalize_down x bias = (m1, n1)"
    by (cases "normalize_down x bias")
  with assms have u: "normalize_up m1 n1 = (m, n)"
    by (simp add: decompose_def)
  from normalize_down_props [OF d assms(2)]
  have d1: "m1 * 2 ^ n1 = x * 2 ^ bias" "0 \<le> m1" "m1 < 2 ^ 53"
    by simp_all
  from normalize_up_props [OF u d1(2,3)] d1(1) show ?thesis
    by simp
qed

lemma exponent_le:
  fixes m1 m2 :: rat
  assumes le: "m1 * 2 ^ n1 \<le> m2 * 2 ^ n2" and m2: "m2 < 2 ^ 53" and m1: "2 ^ 52 \<le> m1 \<or> n1 = 0"
  shows "n1 \<le> n2"
proof (rule ccontr)
  assume "\<not> n1 \<le> n2"
  then have lt: "Suc n2 \<le> n1"
    by simp
  with m1 have big: "(2::rat) ^ 52 \<le> m1"
    by auto
  have "m2 * 2 ^ n2 < 2 ^ 53 * 2 ^ n2"
    using m2 by simp
  also have "\<dots> = 2 ^ 52 * 2 ^ Suc n2"
    by simp
  also have "\<dots> \<le> 2 ^ 52 * 2 ^ n1"
    using lt by (simp add: power_increasing del: power_Suc)
  also have "\<dots> \<le> m1 * 2 ^ n1"
    using big by simp
  finally show False
    using le by simp
qed

lemma round_double_0 [simp]: "round_double 0 = 0"
  by (simp add: round_double_def split: prod.splits)

lemma round_double_minus: "round_double (- x) = - round_double x"
  by (simp add: round_double_def split: prod.splits)

lemma round_double_nonneg: "0 \<le> x \<Longrightarrow> 0 \<le> round_double x"
proof -
  assume x: "0 \<le> x"
  obtain m n where d: "decompose x = (m, n)"
    by (cases "decompose x")
  from decompose_props [OF d x] have "0 \<le> m"
    by simp
  then have "0 \<le> round_half_even m"
    using round_half_even_ge [of 0 m] by simp
  with x show ?thesis
    by (simp add: round_double_def d sgn_if)
qed

lemma round_double_mono_pos:
  assumes x: "0 < x" and xy: "x \<le> y"
  shows "round_double x \<le> round_double y"
proof -
  obtain mx nx where dx: "decompose x = (mx, nx)"
    by (cases "decompose x")
  obtain my ny where dy: "decompose y = (my, ny)"
    by (cases "decompose y")
  from x xy have y: "0 < y"
    by simp
  from decompose_props [OF dx] x
  have px: "mx * 2 ^ nx = x * 2 ^ bias" "mx < 2 ^ 53" "2 ^ 52 \<le> mx \<or> nx = 0"
    by simp_all
  from decompose_props [OF dy] y
  have py: "my * 2 ^ ny = y * 2 ^ bias" "my < 2 ^ 53" "2 ^ 52 \<le> my \<or> ny = 0"
    by simp_all
  from xy have le: "mx * 2 ^ nx \<le> my * 2 ^ ny"
    unfolding px py by simp
  from exponent_le [OF le py(2) px(3)] have n: "nx \<le> ny" .
  have rx: "round_double x = of_int (round_half_even mx) * 2 ^ nx / 2 ^ bias"
    using x by (simp add: round_double_def dx)
  have ry: "round_double y = of_int (round_half_even my) * 2 ^ ny / 2 ^ bias"
    using y by (simp add: round_double_def dy)
  have "rat_of_int (round_half_even mx) * 2 ^ nx \<le> of_int (round_half_even my) * 2 ^ ny"
  proof (cases "nx = ny")
    case True
    with le have "mx \<le> my"
      by simp
    then have "round_half_even mx \<le> round_half_even my"
      by (rule round_half_even_mono)
    with True show ?thesis
      by simp
  next
    case False
    with n have lt: "Suc nx \<le> ny"
      by simp
    then have "ny \<noteq> 0"
      by simp
    with py have "rat_of_int (2 ^ 52) \<le> my"
      by simp
    then have big: "2 ^ 52 \<le> round_half_even my"
      by (rule round_half_even_ge)
    from px have "mx \<le> rat_of_int (2 ^ 53)"
      by simp
    then have small: "round_half_even mx \<le> 2 ^ 53"
      by (rule round_half_even_le)
    have "rat_of_int (round_half_even mx) * 2 ^ nx \<le> of_int (2 ^ 53) * 2 ^ nx"
      using small by (intro mult_right_mono) (simp_all del: of_int_power add: of_int_le_iff)
    also have "\<dots> = of_int (2 ^ 52) * 2 ^ Suc nx"
      by simp
    also have "\<dots> \<le> of_int (2 ^ 52) * 2 ^ ny"
      using lt by (intro mult_left_mono power_increasing) simp_all
    also have "\<dots> \<le> of_int (round_half_even my) * 2 ^ ny"
      using big by (intro mult_right_mono) (simp_all del: of_int_power add: of_int_le_iff)
    finally show ?thesis .
  qed
  then show ?thesis
    unfolding rx ry by (simp add: divide_right_mono)
qed

lemma round_double_mono: "x \<le> y \<Longrightarrow> round_double x \<le> round_double y"
proof -
  assume xy: "x \<le> y"
  consider "0 < x" | "x \<le> 0" "0 \<le> y" | "y < 0"
    by linarith
  then show ?thesis
  proof cases
    case 1
    then show ?thesis
      using xy by (rule round_double_mono_pos)
  next
    case 2
    from 2(1) have "0 \<le> round_double (- x)"
      by (intro round_double_nonneg) simp
    then have "round_double x \<le> 0"
      by (simp add: round_double_minus)
    with round_double_nonneg [OF 2(2)] show ?thesis
      by simp
  next
    case 3
    with xy have "round_double (- y) \<le> round_double (- x)"
      by (intro round_double_mono_pos) simp_all
    then show ?thesis
      by (simp add: round_double_minus)
  qed
qed

lemma round_double_fix_nonneg:
  assumes rep: "x * 2 ^ bias = of_int k * 2 ^ j" and k: "0 \<le> k" "k < 2 ^ 53"
  shows "round_double x = x"
proof -
  from rep have "x = of_int k * 2 ^ j / 2 ^ bias"
    by (simp add: eq_divide_eq)
  with k have x: "0 \<le> x"
    by simp
  obtain m n where d: "decompose x = (m, n)"
    by (cases "decompose x")
  from decompose_props [OF d] x
  have p: "m * 2 ^ n = x * 2 ^ bias" "m < 2 ^ 53" "2 ^ 52 \<le> m \<or> n = 0"
    by simp_all
  have mk: "m * 2 ^ n = of_int k * 2 ^ j"
    using p(1) rep by simp
  have "n \<le> j"
  proof (rule exponent_le [OF _ _ p(3)])
    show "m * 2 ^ n \<le> of_int k * 2 ^ j"
      using mk by simp
    show "rat_of_int k < 2 ^ 53"
      using k(2) by (metis of_int_less_iff of_int_numeral of_int_power)
  qed
  then have "(2::rat) ^ j = 2 ^ (j - n) * 2 ^ n"
    by (simp add: power_add [symmetric])
  with mk have "m = of_int (k * 2 ^ (j - n))"
    by simp
  then have "rat_of_int (round_half_even m) = m"
    by (metis round_half_even_of_int)
  then have "round_double x * 2 ^ bias = sgn x * (x * 2 ^ bias)"
    using x by (simp add: round_double_def d p(1) [symmetric])
  also have "\<dots> = x * 2 ^ bias"
    using x by (simp add: sgn_if)
  finally show ?thesis
    by simp
qed

lemma round_double_fix:
  assumes rep: "x * 2 ^ bias = of_int k * 2 ^ j" and k: "\<bar>k\<bar> < 2 ^ 53"
  shows "round_double x = x"
proof (cases "0 \<le> k")
  case True
  with rep k show ?thesis
    by (intro round_double_fix_nonneg [of x k j]) simp_all
next
  case False
  with rep k have "round_double (- x) = - x"
    by (intro round_double_fix_nonneg [of "- x" "- k" j]) simp_all
  then show ?thesis
    by (simp add: round_double_minus)
qed

lemma is_double_of_int: "\<bar>k\<bar> < 2 ^ 53 \<Longrightarrow> is_double (of_int k)"
  unfolding is_double_def by (rule round_double_fix [of _ k bias]) simp_all

lemma round_double_numeral [simp]:
  "(numeral k :: int) < 2 ^ 53 \<Longrightarrow> round_double (numeral k) = numeral k"
  using is_double_of_int [of "numeral k"] by (simp add: is_double_def)

lemma round_double_1 [simp]: "round_double 1 = 1"
  using is_double_of_int [of 1] by (simp add: is_double_def)

lemma fsub_nonpos: "a \<le> b \<Longrightarrow> fsub a b \<le> 0"
  using round_double_mono [of "a - b" 0] by (simp add: fsub_def)

lemma fsub_pos_imp: "0 < fsub a b \<Longrightarrow> b < a"
  using fsub_nonpos [of a b] by (cases "b < a") simp_all

lemma fsub_ge: "is_double d \<Longrightarrow> d \<le> a - b \<Longrightarrow> d \<le> fsub a b"
  using round_double_mono [of d "a - b"] by (simp add: fsub_def is_double_def)

lemma fsub_less_imp: "is_double d \<Longrightarrow> fsub a b < d \<Longrightarrow> a - b < d"
  using fsub_ge [of d a b] by (cases "a - b < d") simp_all

lemma fsub_exact: "is_double (a - b) \<Longrightarrow> fsub a b = a - b"
  by (simp add: fsub_def is_double_def)

lemma fadd_exact: "is_double (a + b) \<Longrightarrow> fadd a b = a + b"
  by (simp add: fadd_def is_double_def)

section \<open>Properties of the editor\<close>

subsection \<open>The history stacks\<close>

text \<open>
  Only \<open>undo\<close> and \<open>redo\<close> write the two stacks, and each pushes on one stack only after
  popping the other. Both start empty, so both stay empty in every session.
\<close>

lemma stacks_perform:
  "undo_stack (fst w) = [] \<and> redo_stack (fst w) = [] \<Longrightarrow>
   undo_stack (fst (perform a w)) = [] \<and> redo_stack (fst (perform a w)) = []"
  by (cases a)
    (auto simp: new_project_def open_project_def do_save_project_def apply_project_settings_def
      set_current_time_def add_video_clip_def add_audio_clip_def add_image_clip_def add_text_def
      add_sticker_def add_transition_def select_clip_def apply_effects_to_selected_def
      apply_chroma_key_def apply_lut_def adjust_speed_def delete_selected_def
      split_selected_clip_def undo_def redo_def Let_def
      split: option.splits sum.splits)

lemma stacks_session:
  "undo_stack (fst w) = [] \<and> redo_stack (fst w) = [] \<Longrightarrow>
   undo_stack (fst (session as w)) = [] \<and> redo_stack (fst (session as w)) = []"
  by (induction as arbitrary: w) (simp_all add: stacks_perform)

lemma stacks_empty:
  "undo_stack (fst (session as (init_editor, d))) = [] \<and>
   redo_stack (fst (session as (init_editor, d))) = []"
  by (rule stacks_session) (simp add: init_editor_def)

lemma add_video_clip_keeps_stacks:
  "undo_stack (add_video_clip f tr cap ld s) = undo_stack s \<and>
   redo_stack (add_video_clip f tr cap ld s) = redo_stack s"
  by (simp add: add_video_clip_def Let_def)

lemma sample_editor_eval:
  "sample_editor t =
     init_editor \<lparr> clips := [(clip_dict 1 ''video'' 0 0 10 ''a.mp4'')
                                \<lparr> path := Some ''a.mp4'', start_trim := Some 0 \<rparr>],
                   next_clip_id := 2, selected_clip_id := 1, current_time := t,
                   status := ''Loaded: a.mp4'' \<rparr>"
  by (simp add: sample_editor_def add_video_clip_def select_clip_def set_current_time_def
      sample_capture_def init_editor_def basename_def fdiv_def Let_def)

text \<open>
  C1. The claim: every mutating clip operation pushes the snapshot taken before it on the
  undo stack and clears the redo stack, so that \<open>undo\<close> after one add restores the clip list
  and \<open>next_clip_id\<close>. In the program \<open>add_video_clip\<close> pushes nothing: in a fresh editor the
  undo stack is still empty after the add, \<open>undo\<close> finds it empty and changes nothing, and the
  added clip and the advanced identifier counter stay.
\<close>

theorem add_then_undo_keeps_clip:
  "clips init_editor = [] \<and> next_clip_id init_editor = 1 \<and>
   undo_stack (add_video_clip ''a.mp4'' 0 sample_capture True init_editor) = [] \<and>
   undo (add_video_clip ''a.mp4'' 0 sample_capture True init_editor)
     = add_video_clip ''a.mp4'' 0 sample_capture True init_editor \<and>
   length (clips (undo (add_video_clip ''a.mp4'' 0 sample_capture True init_editor))) = 1 \<and>
   next_clip_id (undo (add_video_clip ''a.mp4'' 0 sample_capture True init_editor)) = 2"
  by (simp add: undo_def add_video_clip_def sample_capture_def init_editor_def Let_def)

subsection \<open>The numbering of the clips\<close>

text \<open>
  Every operation of the editor numbers a new clip with the counter and advances the
  counter, and changes no identifier. So in every session that starts from a fresh editor,
  over a disk whose project files are numbered well, every identifier in use is below the
  counter.
\<close>

lemma find_clip_bound:
  "find_clip cid cs = Some k \<Longrightarrow> k < length cs \<and> clip_id (cs ! k) = cid"
  by (induction cs arbitrary: k) (auto split: if_splits)

lemma well_numbered_update:
  assumes "well_numbered cs n" and "find_clip i cs = Some k" and "clip_id c = clip_id (cs ! k)"
  shows "well_numbered (cs[k := c]) n"
proof -
  from find_clip_bound [OF assms(2)] have k: "k < length cs"
    by simp
  with assms(1) have "clip_id (cs ! k) < n"
    by (simp add: well_numbered_def list_all_length)
  with assms(1,3) show ?thesis
    using set_update_subset_insert [of cs k c]
    by (auto simp: well_numbered_def list_all_iff)
qed

lemma well_numbered_snoc:
  "well_numbered (cs @ [c]) m = (well_numbered cs m \<and> clip_id c < m)"
  by (auto simp: well_numbered_def)

lemma well_numbered_mono: "well_numbered cs n \<Longrightarrow> well_numbered cs (n + 1)"
  by (auto simp: well_numbered_def list_all_iff)

lemma well_numbered_removed:
  "well_numbered cs n \<Longrightarrow> well_numbered (take k cs @ drop (Suc k) cs) n"
  by (auto simp: well_numbered_def list_all_iff dest: in_set_takeD in_set_dropD)

lemma well_numbered_fresh: "well_numbered cs n \<Longrightarrow> n \<notin> clip_id ` set cs"
  by (auto simp: well_numbered_def list_all_iff)

lemma perform_numbered:
  assumes st: "undo_stack (fst w) = [] \<and> redo_stack (fst w) = []"
    and wn: "well_numbered (clips (fst w)) (next_clip_id (fst w))"
    and dk: "\<forall>f \<in> ran (snd w). well_numbered_file f"
  shows "well_numbered (clips (fst (perform a w))) (next_clip_id (fst (perform a w)))
       \<and> (\<forall>f \<in> ran (snd (perform a w)). well_numbered_file f)"
proof (cases a)
  case NewProject
  with dk show ?thesis
    by (simp add: new_project_def well_numbered_def)
next
  case (OpenProject chosen)
  show ?thesis
  proof (cases chosen)
    case None
    with OpenProject wn dk show ?thesis
      by (simp add: open_project_def)
  next
    case (Some file_path)
    show ?thesis
    proof (cases "snd w file_path")
      case None
      with OpenProject Some wn dk show ?thesis
        by (simp add: open_project_def)
    next
      case (Some data)
      then have "data \<in> ran (snd w)"
        by (auto simp: ran_def)
      with dk have "well_numbered_file data"
        by simp
      with OpenProject \<open>chosen = Some file_path\<close> Some dk show ?thesis
        by (simp add: open_project_def well_numbered_file_def Let_def)
    qed
  qed
next
  case (SaveProject file_path writable)
  have "well_numbered_file f"
    if "f \<in> ran ((snd w)(file_path \<mapsto>
          \<lparr> file_name = Some (project_name (fst w)),
            file_settings = Some (project_settings (fst w)),
            file_clips = Some (clips (fst w)),
            file_next_clip_id = Some (next_clip_id (fst w)) \<rparr>))" for f
  proof -
    from that have "f = \<lparr> file_name = Some (project_name (fst w)),
            file_settings = Some (project_settings (fst w)),
            file_clips = Some (clips (fst w)),
            file_next_clip_id = Some (next_clip_id (fst w)) \<rparr> \<or> f \<in> ran (snd w)"
      by (auto simp: ran_def split: if_splits)
    with wn dk show ?thesis
      by (auto simp: well_numbered_file_def)
  qed
  with SaveProject wn dk show ?thesis
    by (simp add: do_save_project_def Let_def)
next
  case (ApplyProjectSettings nm f res bg)
  with wn dk show ?thesis
    by (simp add: apply_project_settings_def)
next
  case (SetCurrentTime t)
  with wn dk show ?thesis
    by (simp add: set_current_time_def)
next
  case (AddVideoClip file_path tr cap loaded)
  with wn dk show ?thesis
    by (simp add: add_video_clip_def Let_def well_numbered_snoc well_numbered_mono clip_dict_def)
next
  case (AddAudioClip file_path tr probed)
  with wn dk show ?thesis
    by (simp add: add_audio_clip_def Let_def well_numbered_snoc well_numbered_mono clip_dict_def split: sum.splits)
next
  case (AddImageClip file_path tr)
  with wn dk show ?thesis
    by (simp add: add_image_clip_def Let_def well_numbered_snoc well_numbered_mono clip_dict_def)
next
  case (AddText dialog tr)
  with wn dk show ?thesis
    by (simp add: add_text_def Let_def well_numbered_snoc well_numbered_mono clip_dict_def split: option.splits)
next
  case (AddSticker dialog tr)
  with wn dk show ?thesis
    by (simp add: add_sticker_def Let_def well_numbered_snoc well_numbered_mono clip_dict_def split: option.splits)
next
  case (AddTransition tr)
  with wn dk show ?thesis
    by (simp add: add_transition_def Let_def well_numbered_snoc well_numbered_mono clip_dict_def)
next
  case (SelectClip cid)
  with wn dk show ?thesis
    by (simp add: select_clip_def)
next
  case (ApplyEffects panel)
  with wn dk show ?thesis
    by (auto simp: apply_effects_to_selected_def intro!: well_numbered_update split: option.splits)
next
  case (ApplyChromaKey dialog)
  with wn dk show ?thesis
    by (auto simp: apply_chroma_key_def intro!: well_numbered_update split: option.splits)
next
  case (ApplyLut chosen)
  with wn dk show ?thesis
    by (auto simp: apply_lut_def intro!: well_numbered_update split: option.splits)
next
  case (AdjustSpeed dialog)
  with wn dk show ?thesis
    by (auto simp: adjust_speed_def intro!: well_numbered_update split: option.splits prod.splits)
next
  case DeleteSelected
  with wn dk show ?thesis
    by (simp add: delete_selected_def well_numbered_removed split: option.splits)
next
  case SplitSelectedClip
  with wn dk show ?thesis
    by (auto simp: split_selected_clip_def Let_def well_numbered_snoc
        intro!: well_numbered_mono well_numbered_update split: option.splits)
next
  case Undo
  with st wn dk show ?thesis
    by (simp add: undo_def)
next
  case Redo
  with st wn dk show ?thesis
    by (simp add: redo_def)
qed

lemma session_numbered:
  assumes "undo_stack (fst w) = [] \<and> redo_stack (fst w) = []"
    and "well_numbered (clips (fst w)) (next_clip_id (fst w))"
    and "\<forall>f \<in> ran (snd w). well_numbered_file f"
  shows "well_numbered (clips (fst (session as w))) (next_clip_id (fst (session as w)))"
  using assms
proof (induction as arbitrary: w)
  case Nil
  then show ?case
    by simp
next
  case (Cons a as)
  from perform_numbered [OF Cons.prems] stacks_perform [OF Cons.prems(1)]
  show ?case
    by (simp add: Cons.IH)
qed

lemma reachable_numbered:
  assumes "\<forall>f \<in> ran d0. well_numbered_file f"
  shows "well_numbered (clips (fst (session as (init_editor, d0))))
           (next_clip_id (fst (session as (init_editor, d0))))"
  using assms by (intro session_numbered) (simp_all add: init_editor_def well_numbered_def)

subsection \<open>Splitting\<close>

lemma offset_editor_eval:
  "offset_editor t =
     init_editor \<lparr> clips := [(clip_dict 1 ''video'' 0 tenth 10 ''a.mp4'')
                                \<lparr> path := Some ''a.mp4'', start_trim := Some 0 \<rparr>],
                   next_clip_id := 2, selected_clip_id := 1, current_time := t,
                   status := ''Loaded: a.mp4'' \<rparr>"
  by (simp add: offset_editor_def add_video_clip_def select_clip_def set_current_time_def
      sample_capture_def init_editor_def basename_def fdiv_def Let_def)

lemma reopened_editor_eval:
  "reopened_editor =
     init_editor \<lparr> project_path := Some ''p.json'',
                   clips := [(clip_dict 1 ''video'' 0 0 10 ''a.mp4'') \<lparr> path := Some ''a.mp4'' \<rparr>],
                   selected_clip_id := 1, current_time := 4,
                   status := ''Project loaded: p.json'' \<rparr>"
  by (simp add: reopened_editor_def open_project_def bare_file_def select_clip_def
      set_current_time_def init_editor_def basename_def media_types_def clip_dict_def
      DEFAULT_PROJECT_NAME_def Let_def)

lemma fsub_three_tenths:
  "fsub three_tenths tenth = 7205759403792793 / 36028797018963968"
  by (simp add: fsub_def three_tenths_def tenth_def round_double_eval)

lemma fsub_ten_three_tenths:
  "fsub 10 (7205759403792793 / 36028797018963968) = 2758454771764429 / 281474976710656"
  by (simp add: fsub_def round_double_eval)

lemma sample_doubles: "is_double tenth" "is_double three_tenths" "is_double ten_and_tenth"
  by (simp_all add: is_double_def tenth_def three_tenths_def ten_and_tenth_def round_double_eval)

lemma fsub_ten_and_tenth: "fsub ten_and_tenth tenth = 10"
  by (simp add: fsub_def ten_and_tenth_def tenth_def round_double_eval)

text \<open>
  C2. The claim: for every playhead \<open>t\<close> with \<open>s < t < s + d\<close> the split succeeds and gives
  the two parts the durations \<open>t - s\<close> and \<open>(s + d) - t\<close>, which add up to \<open>d\<close>, and the
  second part a fresh identifier. The program computes the durations in doubles. For the
  ten second video at the double nearest to 0.1, split at the double nearest to 0.3, the
  second part gets the double nearest to \<open>10 - (t - s)\<close>, which is not \<open>(s + d) - t\<close>, and the
  two durations do not add up to 10. The identifier of the second part is the counter,
  which a project file can set below an identifier in use: after a file with a clip
  numbered 1 and no counter has been opened, the second part is numbered 1 as well.
\<close>

theorem split_rounds_and_renumbers:
  "clip_type (clips (offset_editor three_tenths) ! 0) = ''video'' \<and>
   start (clips (offset_editor three_tenths) ! 0) = tenth \<and>
   duration (clips (offset_editor three_tenths) ! 0) = 10 \<and>
   current_time (offset_editor three_tenths) = three_tenths \<and>
   is_double tenth \<and> is_double three_tenths \<and>
   tenth < three_tenths \<and> three_tenths < tenth + 10 \<and>
   map (\<lambda>c. (clip_id c, start c, duration c)) (clips (split_selected_clip (offset_editor three_tenths)))
     = [(1, tenth, 7205759403792793 / 36028797018963968),
        (2, three_tenths, 2758454771764429 / 281474976710656)] \<and>
   2758454771764429 / 281474976710656 \<noteq> (tenth + 10) - three_tenths \<and>
   7205759403792793 / 36028797018963968 + 2758454771764429 / 281474976710656 \<noteq> (10 :: rat) \<and>
   map clip_id (clips reopened_editor) = [1] \<and>
   map clip_id (clips (split_selected_clip reopened_editor)) = [1, 1]"
proof -
  have a: "map (\<lambda>c. (clip_id c, start c, duration c))
             (clips (split_selected_clip (offset_editor three_tenths)))
     = [(1, tenth, 7205759403792793 / 36028797018963968),
        (2, three_tenths, 2758454771764429 / 281474976710656)]"
    by (simp add: offset_editor_eval split_selected_clip_def init_editor_def clip_dict_def
        fsub_three_tenths fsub_ten_three_tenths Let_def)
  have b: "map clip_id (clips (split_selected_clip reopened_editor)) = [1, 1]"
    by (simp add: reopened_editor_eval split_selected_clip_def init_editor_def clip_dict_def
        fsub_def Let_def)
  have c: "tenth < three_tenths" "three_tenths < tenth + 10"
    "2758454771764429 / 281474976710656 \<noteq> (tenth + 10) - three_tenths"
    by (simp_all add: tenth_def three_tenths_def)
  from a b c sample_doubles show ?thesis
    by (simp add: offset_editor_eval reopened_editor_eval init_editor_def clip_dict_def)
qed

text \<open>
  C2, as the program has it. Let the selected clip be a video or audio clip with start
  \<open>s\<close>, duration \<open>d\<close> and start trim \<open>r\<close> (0 when the key is absent), let \<open>t\<close> be the
  playhead, and let \<open>c\<close> be the double nearest to \<open>t - s\<close>. When \<open>0 < c < d\<close> the split
  succeeds: the original keeps everything but its duration, which becomes \<open>c\<close>, and a copy
  is appended with the counter as its identifier, start \<open>t\<close>, the double nearest to
  \<open>d - c\<close> as its duration and the double nearest to \<open>r + c\<close> as its start trim, for
  \<open>r + c\<close> that does not overflow. This happens only for \<open>t\<close> with \<open>s < t < s + d\<close>, when
  \<open>d\<close> is a double. When the three results need no rounding, the durations are \<open>t - s\<close>
  and \<open>(s + d) - t\<close>, they add up to \<open>d\<close>, and the copy starts where the original now
  ends, on the timeline and in the source. The identifier of the copy is fresh when the
  clips are numbered below the counter, as they are in every session that starts from a
  fresh editor over a disk whose project files are numbered well.
\<close>

theorem split_partitions_clip:
  assumes sel: "selected_clip_id s \<noteq> - 1"
    and found: "find_clip (selected_clip_id s) (clips s) = Some k"
    and kind: "clip_type (clips s ! k) = ''video'' \<or> clip_type (clips s ! k) = ''audio''"
    and lo: "0 < fsub (current_time s) (start (clips s ! k))"
    and hi: "fsub (current_time s) (start (clips s ! k)) < duration (clips s ! k)"
    and fin: "\<not> overflows ((case start_trim (clips s ! k) of None \<Rightarrow> 0 | Some r \<Rightarrow> r)
                             + fsub (current_time s) (start (clips s ! k)))"
  shows "clips (split_selected_clip s) =
           (clips s)[k := (clips s ! k)
                       \<lparr> duration := fsub (current_time s) (start (clips s ! k)) \<rparr>]
           @ [(clips s ! k)
                \<lparr> clip_id := next_clip_id s,
                  start := current_time s,
                  duration := fsub (duration (clips s ! k))
                                (fsub (current_time s) (start (clips s ! k))),
                  start_trim := Some (fadd (case start_trim (clips s ! k) of None \<Rightarrow> 0 | Some r \<Rightarrow> r)
                                        (fsub (current_time s) (start (clips s ! k)))) \<rparr>]
         \<and> length (clips (split_selected_clip s)) = length (clips s) + 1
         \<and> next_clip_id (split_selected_clip s) = next_clip_id s + 1
         \<and> status (split_selected_clip s) = ''Clip split at playhead position''
         \<and> (is_double (duration (clips s ! k)) \<longrightarrow>
              start (clips s ! k) < current_time s
              \<and> current_time s < start (clips s ! k) + duration (clips s ! k))
         \<and> (is_double (current_time s - start (clips s ! k))
            \<and> is_double (duration (clips s ! k) - (current_time s - start (clips s ! k)))
            \<and> is_double ((case start_trim (clips s ! k) of None \<Rightarrow> 0 | Some r \<Rightarrow> r)
                          + (current_time s - start (clips s ! k))) \<longrightarrow>
              duration (clips (split_selected_clip s) ! k) = current_time s - start (clips s ! k)
              \<and> duration (last (clips (split_selected_clip s)))
                  = (start (clips s ! k) + duration (clips s ! k)) - current_time s
              \<and> start_trim (last (clips (split_selected_clip s)))
                  = Some ((case start_trim (clips s ! k) of None \<Rightarrow> 0 | Some r \<Rightarrow> r)
                          + (current_time s - start (clips s ! k)))
              \<and> duration (clips (split_selected_clip s) ! k)
                  + duration (last (clips (split_selected_clip s))) = duration (clips s ! k)
              \<and> start (last (clips (split_selected_clip s)))
                  = start (clips (split_selected_clip s) ! k)
                    + duration (clips (split_selected_clip s) ! k)
              \<and> start_trim (last (clips (split_selected_clip s)))
                  = Some ((case start_trim (clips s ! k) of None \<Rightarrow> 0 | Some r \<Rightarrow> r)
                          + duration (clips (split_selected_clip s) ! k)))
         \<and> (well_numbered (clips s) (next_clip_id s) \<longrightarrow>
              clip_id (last (clips (split_selected_clip s))) \<notin> clip_id ` set (clips s))
         \<and> (s = fst (session as (init_editor, d0)) \<and> (\<forall>f \<in> ran d0. well_numbered_file f) \<longrightarrow>
              clip_id (last (clips (split_selected_clip s))) \<notin> clip_id ` set (clips s))"
proof -
  let ?c = "clips s ! k"
  let ?ct = "fsub (current_time s) (start ?c)"
  let ?r = "case start_trim ?c of None \<Rightarrow> 0 | Some r \<Rightarrow> r"
  from found have k: "k < length (clips s)"
    by (simp add: find_clip_bound)
  have inside: "\<not> (?ct \<le> 0 \<or> duration ?c \<le> ?ct)"
    using lo hi by auto
  have eq: "split_selected_clip s =
      s \<lparr> next_clip_id := next_clip_id s + 1,
          clips := (clips s)[k := ?c \<lparr> duration := ?ct \<rparr>]
            @ [?c \<lparr> clip_id := next_clip_id s,
                   start := current_time s,
                   duration := fsub (duration ?c) ?ct,
                   start_trim := Some (fadd ?r ?ct) \<rparr>],
          status := ''Clip split at playhead position'' \<rparr>"
    using sel found kind inside by (auto simp: split_selected_clip_def Let_def)
  have shape: "clips (split_selected_clip s) =
           (clips s)[k := ?c \<lparr> duration := ?ct \<rparr>]
           @ [?c \<lparr> clip_id := next_clip_id s, start := current_time s,
                   duration := fsub (duration ?c) ?ct, start_trim := Some (fadd ?r ?ct) \<rparr>]"
    "length (clips (split_selected_clip s)) = length (clips s) + 1"
    "next_clip_id (split_selected_clip s) = next_clip_id s + 1"
    "status (split_selected_clip s) = ''Clip split at playhead position''"
    unfolding eq by simp_all
  have parts: "duration (clips (split_selected_clip s) ! k) = ?ct"
    "duration (last (clips (split_selected_clip s))) = fsub (duration ?c) ?ct"
    "start_trim (last (clips (split_selected_clip s))) = Some (fadd ?r ?ct)"
    "start (last (clips (split_selected_clip s))) = current_time s"
    "start (clips (split_selected_clip s) ! k) = start ?c"
    "clip_id (last (clips (split_selected_clip s))) = next_clip_id s"
    unfolding eq using k by (simp_all add: nth_append)
  have interval: "start ?c < current_time s \<and> current_time s < start ?c + duration ?c"
    if "is_double (duration ?c)"
    using fsub_pos_imp [OF lo] fsub_less_imp [OF that hi] by simp
  have exact: "duration (clips (split_selected_clip s) ! k) = current_time s - start ?c
      \<and> duration (last (clips (split_selected_clip s)))
          = (start ?c + duration ?c) - current_time s
      \<and> start_trim (last (clips (split_selected_clip s)))
          = Some (?r + (current_time s - start ?c))
      \<and> duration (clips (split_selected_clip s) ! k)
          + duration (last (clips (split_selected_clip s))) = duration ?c
      \<and> start (last (clips (split_selected_clip s)))
          = start (clips (split_selected_clip s) ! k) + duration (clips (split_selected_clip s) ! k)
      \<and> start_trim (last (clips (split_selected_clip s)))
          = Some (?r + duration (clips (split_selected_clip s) ! k))"
    if e: "is_double (current_time s - start ?c)"
      "is_double (duration ?c - (current_time s - start ?c))"
      "is_double (?r + (current_time s - start ?c))"
  proof -
    have ct: "?ct = current_time s - start ?c"
      using e(1) by (rule fsub_exact)
    have d2: "fsub (duration ?c) ?ct = duration ?c - (current_time s - start ?c)"
      unfolding ct using e(2) by (rule fsub_exact)
    have tr: "fadd ?r ?ct = ?r + (current_time s - start ?c)"
      unfolding ct using e(3) by (rule fadd_exact)
    show ?thesis
      unfolding parts d2 tr unfolding ct by simp
  qed
  have fresh: "clip_id (last (clips (split_selected_clip s))) \<notin> clip_id ` set (clips s)"
    if "well_numbered (clips s) (next_clip_id s)"
    unfolding parts using that by (rule well_numbered_fresh)
  have reach: "clip_id (last (clips (split_selected_clip s))) \<notin> clip_id ` set (clips s)"
    if "s = fst (session as (init_editor, d0))" "\<forall>f \<in> ran d0. well_numbered_file f"
    using reachable_numbered [OF that(2), of as] that(1) by (intro fresh) simp
  from shape interval exact fresh reach show ?thesis
    by blast
qed

theorem split_partitions_clip_witness:
  "selected_clip_id (sample_editor 4) \<noteq> - 1 \<and>
   find_clip (selected_clip_id (sample_editor 4)) (clips (sample_editor 4)) = Some 0 \<and>
   clip_type (clips (sample_editor 4) ! 0) = ''video'' \<and>
   0 < fsub (current_time (sample_editor 4)) (start (clips (sample_editor 4) ! 0)) \<and>
   fsub (current_time (sample_editor 4)) (start (clips (sample_editor 4) ! 0))
     < duration (clips (sample_editor 4) ! 0) \<and>
   \<not> overflows ((case start_trim (clips (sample_editor 4) ! 0) of None \<Rightarrow> 0 | Some r \<Rightarrow> r)
                  + fsub (current_time (sample_editor 4)) (start (clips (sample_editor 4) ! 0))) \<and>
   map (\<lambda>c. (clip_id c, start c, duration c, start_trim c))
     (clips (split_selected_clip (sample_editor 4))) = [(1, 0, 4, Some 0), (2, 4, 6, Some 4)] \<and>
   next_clip_id (split_selected_clip (sample_editor 4)) = 3 \<and>
   clip_id (last (clips (split_selected_clip (sample_editor 4))))
     \<notin> clip_id ` set (clips (sample_editor 4))"
proof -
  have h: "selected_clip_id (sample_editor 4) \<noteq> - 1"
    "find_clip (selected_clip_id (sample_editor 4)) (clips (sample_editor 4)) = Some 0"
    "clip_type (clips (sample_editor 4) ! 0) = ''video'' \<or> clip_type (clips (sample_editor 4) ! 0) = ''audio''"
    "0 < fsub (current_time (sample_editor 4)) (start (clips (sample_editor 4) ! 0))"
    "fsub (current_time (sample_editor 4)) (start (clips (sample_editor 4) ! 0))
       < duration (clips (sample_editor 4) ! 0)"
    "\<not> overflows ((case start_trim (clips (sample_editor 4) ! 0) of None \<Rightarrow> 0 | Some r \<Rightarrow> r)
                    + fsub (current_time (sample_editor 4)) (start (clips (sample_editor 4) ! 0)))"
    by (simp_all add: sample_editor_eval init_editor_def clip_dict_def fsub_def overflows_def)
  have w: "well_numbered (clips (sample_editor 4)) (next_clip_id (sample_editor 4))"
    by (simp add: sample_editor_eval init_editor_def clip_dict_def well_numbered_def)
  from split_partitions_clip [OF h, of "[]" Map.empty] w h(6)
  show ?thesis
    by (simp add: sample_editor_eval init_editor_def clip_dict_def fsub_def fadd_def)
qed

text \<open>
  C8. The claim: the split is refused exactly when the clip is neither video nor audio or
  the playhead lies outside the open interval from the clip's start to its end. The program
  tests the double nearest to \<open>t - s\<close> against the duration. For the ten second video at the
  double nearest to 0.1 and the playhead at the double nearest to 10.1, the playhead is
  inside the interval, the double nearest to \<open>t - s\<close> is 10, and the split is refused.
\<close>

theorem split_refused_inside_interval:
  "clip_type (clips (offset_editor ten_and_tenth) ! 0) = ''video'' \<and>
   start (clips (offset_editor ten_and_tenth) ! 0) = tenth \<and>
   duration (clips (offset_editor ten_and_tenth) ! 0) = 10 \<and>
   current_time (offset_editor ten_and_tenth) = ten_and_tenth \<and>
   is_double tenth \<and> is_double ten_and_tenth \<and>
   tenth < ten_and_tenth \<and> ten_and_tenth < tenth + 10 \<and>
   fsub ten_and_tenth tenth = 10 \<and>
   split_selected_clip (offset_editor ten_and_tenth)
     = (offset_editor ten_and_tenth) \<lparr> status := ''Playhead must be within the clip'' \<rparr>"
proof -
  have a: "split_selected_clip (offset_editor ten_and_tenth)
     = (offset_editor ten_and_tenth) \<lparr> status := ''Playhead must be within the clip'' \<rparr>"
    by (simp add: offset_editor_eval split_selected_clip_def init_editor_def clip_dict_def
        fsub_ten_and_tenth Let_def)
  have c: "tenth < ten_and_tenth" "ten_and_tenth < tenth + 10"
    by (simp_all add: tenth_def ten_and_tenth_def)
  from a c sample_doubles show ?thesis
    by (simp add: offset_editor_eval init_editor_def clip_dict_def fsub_ten_and_tenth)
qed

text \<open>
  C8, as the program has it. For the selected clip, with start \<open>s\<close> and duration \<open>d\<close>, the
  playhead \<open>t\<close> and the double \<open>c\<close> nearest to \<open>t - s\<close>, the split is refused, with one of the
  two status messages and no other change to the state, exactly when the clip is neither
  video nor audio, or \<open>c \<le> 0\<close>, or \<open>c \<ge> d\<close>. When \<open>d\<close> is a double this is the case for every
  playhead outside the open interval from \<open>s\<close> to \<open>s + d\<close>; it is also the case for the
  playheads inside the interval for which \<open>t - s\<close> rounds up to \<open>d\<close>. A refused split leaves
  the clip list, the clip itself and \<open>next_clip_id\<close> as they were, and refusing again changes
  nothing more. The program has no exception class for this: the refusal is the status
  message and the early return.
\<close>

theorem split_refused_iff:
  assumes sel: "selected_clip_id s \<noteq> - 1"
    and found: "find_clip (selected_clip_id s) (clips s) = Some k"
  shows "(((clip_type (clips s ! k) \<noteq> ''video'' \<and> clip_type (clips s ! k) \<noteq> ''audio'')
            \<or> fsub (current_time s) (start (clips s ! k)) \<le> 0
            \<or> duration (clips s ! k) \<le> fsub (current_time s) (start (clips s ! k)))
          = (split_selected_clip s = s \<lparr> status := ''Only video and audio clips can be split'' \<rparr>
             \<or> split_selected_clip s = s \<lparr> status := ''Playhead must be within the clip'' \<rparr>))
         \<and> (((clip_type (clips s ! k) \<noteq> ''video'' \<and> clip_type (clips s ! k) \<noteq> ''audio'')
               \<or> fsub (current_time s) (start (clips s ! k)) \<le> 0
               \<or> duration (clips s ! k) \<le> fsub (current_time s) (start (clips s ! k)))
             \<longrightarrow> clips (split_selected_clip s) = clips s
                 \<and> clips (split_selected_clip s) ! k = clips s ! k
                 \<and> next_clip_id (split_selected_clip s) = next_clip_id s
                 \<and> split_selected_clip (split_selected_clip s) = split_selected_clip s)
         \<and> (is_double (duration (clips s ! k))
             \<and> (current_time s \<le> start (clips s ! k)
                \<or> start (clips s ! k) + duration (clips s ! k) \<le> current_time s)
             \<longrightarrow> split_selected_clip s = s \<lparr> status := ''Only video and audio clips can be split'' \<rparr>
                 \<or> split_selected_clip s = s \<lparr> status := ''Playhead must be within the clip'' \<rparr>)"
proof -
  let ?c = "clips s ! k"
  let ?ct = "fsub (current_time s) (start ?c)"
  let ?R = "(clip_type ?c \<noteq> ''video'' \<and> clip_type ?c \<noteq> ''audio'') \<or> ?ct \<le> 0 \<or> duration ?c \<le> ?ct"
  let ?refused = "split_selected_clip s = s \<lparr> status := ''Only video and audio clips can be split'' \<rparr>
      \<or> split_selected_clip s = s \<lparr> status := ''Playhead must be within the clip'' \<rparr>"
  have outside: "?R"
    if "is_double (duration ?c)"
      "current_time s \<le> start ?c \<or> start ?c + duration ?c \<le> current_time s"
    using that(2)
  proof
    assume "current_time s \<le> start ?c"
    then have "?ct \<le> 0"
      by (rule fsub_nonpos)
    then show ?thesis
      by simp
  next
    assume "start ?c + duration ?c \<le> current_time s"
    then have "duration ?c \<le> current_time s - start ?c"
      by simp
    with that(1) have "duration ?c \<le> ?ct"
      by (rule fsub_ge)
    then show ?thesis
      by simp
  qed
  show ?thesis
  proof (cases ?R)
    case True
    then have refused: ?refused
      using sel found by (auto simp: split_selected_clip_def Let_def)
    have again: "split_selected_clip (s \<lparr> status := m \<rparr>) = split_selected_clip s" for m
      using sel found True by (auto simp: split_selected_clip_def Let_def)
    from refused have idem: "split_selected_clip (split_selected_clip s) = split_selected_clip s"
      using again by auto
    from refused have same: "clips (split_selected_clip s) = clips s"
      "next_clip_id (split_selected_clip s) = next_clip_id s"
      by auto
    show ?thesis
      using True refused idem same by simp
  next
    case False
    then have kind: "clip_type ?c = ''video'' \<or> clip_type ?c = ''audio''"
      and lo: "0 < ?ct" and hi: "?ct < duration ?c"
      by auto
    have "next_clip_id (split_selected_clip s) = next_clip_id s + 1"
      using sel found kind lo hi by (auto simp: split_selected_clip_def Let_def)
    moreover have "next_clip_id (s \<lparr> status := m \<rparr>) = next_clip_id s" for m
      by simp
    ultimately have "split_selected_clip s \<noteq> s \<lparr> status := m \<rparr>" for m
      by (metis add_cancel_left_right zero_neq_one)
    with False outside show ?thesis
      by auto
  qed
qed

theorem split_refused_iff_witness:
  "selected_clip_id (sample_editor 12) \<noteq> - 1 \<and>
   find_clip (selected_clip_id (sample_editor 12)) (clips (sample_editor 12)) = Some 0 \<and>
   is_double (duration (clips (sample_editor 12) ! 0)) \<and>
   start (clips (sample_editor 12) ! 0) + duration (clips (sample_editor 12) ! 0)
     \<le> current_time (sample_editor 12) \<and>
   duration (clips (sample_editor 12) ! 0)
     \<le> fsub (current_time (sample_editor 12)) (start (clips (sample_editor 12) ! 0)) \<and>
   split_selected_clip (sample_editor 12)
     = (sample_editor 12) \<lparr> status := ''Playhead must be within the clip'' \<rparr> \<and>
   clips (split_selected_clip (sample_editor 12)) = clips (sample_editor 12) \<and>
   next_clip_id (split_selected_clip (sample_editor 12)) = 2"
proof -
  have h: "selected_clip_id (sample_editor 12) \<noteq> - 1"
    "find_clip (selected_clip_id (sample_editor 12)) (clips (sample_editor 12)) = Some 0"
    by (simp_all add: sample_editor_eval init_editor_def clip_dict_def)
  have out: "is_double (duration (clips (sample_editor 12) ! 0))"
    "start (clips (sample_editor 12) ! 0) + duration (clips (sample_editor 12) ! 0)
      \<le> current_time (sample_editor 12)"
    "duration (clips (sample_editor 12) ! 0)
      \<le> fsub (current_time (sample_editor 12)) (start (clips (sample_editor 12) ! 0))"
    by (simp_all add: sample_editor_eval init_editor_def clip_dict_def is_double_def fsub_def)
  have v: "clip_type (clips (sample_editor 12) ! 0) = ''video''"
    by (simp add: sample_editor_eval init_editor_def clip_dict_def)
  from split_refused_iff [OF h] out
  have u: "clips (split_selected_clip (sample_editor 12)) = clips (sample_editor 12)"
      "next_clip_id (split_selected_clip (sample_editor 12)) = next_clip_id (sample_editor 12)"
    by auto
  have "split_selected_clip (sample_editor 12)
      = (sample_editor 12) \<lparr> status := ''Playhead must be within the clip'' \<rparr>"
    using h v out by (simp add: split_selected_clip_def Let_def)
  with h out u show ?thesis
    by (simp add: sample_editor_eval init_editor_def)
qed

subsection \<open>Saving and opening\<close>

lemmas add_defs =
  add_video_clip_def add_audio_clip_def add_image_clip_def add_text_def add_sticker_def
  add_transition_def sample_capture_def sample_text_values_def sample_sticker_values_def
  init_editor_def basename_def Let_def

lemma mixed_project_kinds:
  "map (\<lambda>c. (clip_id c, clip_type c, path c)) (clips mixed_project)
     = [(1, ''video'', Some ''a.mp4''), (2, ''audio'', Some ''b.wav''),
        (3, ''image'', Some ''c.png''), (4, ''text'', None),
        (5, ''sticker'', Some ''s.png''), (6, ''transition'', None)]
   \<and> next_clip_id mixed_project = 7"
  by (simp add: mixed_project_def add_defs clip_dict_def)

lemma mixed_project_image:
  "clips mixed_project ! 2 = (clip_dict 3 ''image'' 0 0 5 ''c.png'') \<lparr> path := Some ''c.png'' \<rparr>"
  by (simp add: mixed_project_def add_defs)

text \<open>
  C9. Saving a project, when the file can be written, and opening the saved file, from any
  state of the editor, gives back the clip list with every field of every clip, the clip
  counter, the project name and the settings. The two history stacks are empty after the
  load when the editor's state was reached from a fresh editor, as they are in every such
  state.
\<close>

theorem save_then_open_round_trip:
  "fst (do_save_project p True (ed, d)) \<and>
   clips (open_project (Some p) (ed2, snd (snd (do_save_project p True (ed, d))))) = clips ed \<and>
   length (clips (open_project (Some p) (ed2, snd (snd (do_save_project p True (ed, d))))))
     = length (clips ed) \<and>
   next_clip_id (open_project (Some p) (ed2, snd (snd (do_save_project p True (ed, d)))))
     = next_clip_id ed \<and>
   project_name (open_project (Some p) (ed2, snd (snd (do_save_project p True (ed, d)))))
     = project_name ed \<and>
   project_settings (open_project (Some p) (ed2, snd (snd (do_save_project p True (ed, d)))))
     = project_settings ed \<and>
   undo_stack (fst (perform (OpenProject (Some p))
                 (perform (SaveProject p True) (session as (init_editor, d0))))) = [] \<and>
   redo_stack (fst (perform (OpenProject (Some p))
                 (perform (SaveProject p True) (session as (init_editor, d0))))) = [] \<and>
   clips (fst (perform (OpenProject (Some p))
            (perform (SaveProject p True) (session as (init_editor, d0)))))
     = clips (fst (session as (init_editor, d0))) \<and>
   next_clip_id (fst (perform (OpenProject (Some p))
                   (perform (SaveProject p True) (session as (init_editor, d0)))))
     = next_clip_id (fst (session as (init_editor, d0)))"
proof -
  have a: "fst (do_save_project p True (ed, d))"
    by (simp add: do_save_project_def Let_def)
  have b: "clips (open_project (Some p) (ed2, snd (snd (do_save_project p True (ed, d))))) = clips ed"
    "next_clip_id (open_project (Some p) (ed2, snd (snd (do_save_project p True (ed, d)))))
       = next_clip_id ed"
    "project_name (open_project (Some p) (ed2, snd (snd (do_save_project p True (ed, d)))))
       = project_name ed"
    "project_settings (open_project (Some p) (ed2, snd (snd (do_save_project p True (ed, d)))))
       = project_settings ed"
    by (simp_all add: do_save_project_def open_project_def Let_def)
  have s: "session (as @ [SaveProject p True, OpenProject (Some p)]) w
      = perform (OpenProject (Some p)) (perform (SaveProject p True) (session as w))" for w
    by (induction as arbitrary: w) simp_all
  have st: "undo_stack (fst (perform (OpenProject (Some p))
                 (perform (SaveProject p True) (session as (init_editor, d0))))) = []
      \<and> redo_stack (fst (perform (OpenProject (Some p))
                 (perform (SaveProject p True) (session as (init_editor, d0))))) = []"
    using stacks_empty [of "as @ [SaveProject p True, OpenProject (Some p)]" d0]
    unfolding s .
  have c: "clips (fst (perform (OpenProject (Some p)) (perform (SaveProject p True) w))) = clips (fst w)"
    "next_clip_id (fst (perform (OpenProject (Some p)) (perform (SaveProject p True) w)))
       = next_clip_id (fst w)" for w
    by (simp_all add: do_save_project_def open_project_def Let_def)
  from a b st c show ?thesis
    by simp
qed

theorem save_then_open_round_trip_witness:
  "map (\<lambda>c. (clip_id c, clip_type c, path c))
     (clips (open_project (Some ''p.json'')
        (init_editor, snd (snd (do_save_project ''p.json'' True (mixed_project, Map.empty))))))
     = [(1, ''video'', Some ''a.mp4''), (2, ''audio'', Some ''b.wav''),
        (3, ''image'', Some ''c.png''), (4, ''text'', None),
        (5, ''sticker'', Some ''s.png''), (6, ''transition'', None)] \<and>
   length (clips (open_project (Some ''p.json'')
        (init_editor, snd (snd (do_save_project ''p.json'' True (mixed_project, Map.empty)))))) = 6 \<and>
   next_clip_id (open_project (Some ''p.json'')
        (init_editor, snd (snd (do_save_project ''p.json'' True (mixed_project, Map.empty))))) = 7"
proof -
  have l: "length (clips mixed_project) = 6"
    using arg_cong [OF conjunct1 [OF mixed_project_kinds], of length] by simp
  from save_then_open_round_trip [of "''p.json''" mixed_project Map.empty init_editor "[]" Map.empty]
  show ?thesis
    by (simp add: mixed_project_kinds l)
qed

section \<open>Properties of the export worker\<close>

subsection \<open>Quiet statements\<close>

text \<open>
  Rendering or trimming one clip adds engine events only, and touches no directory.
\<close>

lemma other_events_append [simp]: "other_events (a @ b) = other_events a @ other_events b"
  by (simp add: other_events_def)

lemma other_events_Nil [simp]: "other_events [] = []"
  by (simp add: other_events_def)

lemma other_events_Cons [simp]: "other_events (ev # evs) = (if is_engine ev then other_events evs else ev # other_events evs)"
  by (simp add: other_events_def)

lemma quietI:
  "(\<And>s. dirs (snd (f s)) = dirs s) \<Longrightarrow> (\<And>s. prefix (trace s) (trace (snd (f s)))) \<Longrightarrow>
   (\<And>s. other_events (trace (snd (f s))) = other_events (trace s)) \<Longrightarrow> quiet f"
  by (simp add: quiet_def)

lemma quietD:
  assumes "quiet f" and "f s = (r, s')"
  shows "dirs s' = dirs s" and "prefix (trace s) (trace s')" and "other_events (trace s') = other_events (trace s)"
proof -
  from assms(1) have "dirs (snd (f s)) = dirs s \<and> prefix (trace s) (trace (snd (f s)))
      \<and> other_events (trace (snd (f s))) = other_events (trace s)"
    unfolding quiet_def by (rule spec)
  with assms(2) show "dirs s' = dirs s" and "prefix (trace s) (trace s')"
    and "other_events (trace s') = other_events (trace s)"
    by simp_all
qed

lemma quiet_const: "quiet (\<lambda>s. (r, s))"
  by (simp add: quiet_def)

lemma quiet_attempt: "is_engine ev \<Longrightarrow> quiet (attempt e ev)"
  by (simp add: quiet_def attempt_def)

lemma quiet_subprocess_run: "quiet (subprocess_run e cmd)"
proof (cases "None \<in> set cmd")
  case True
  then have "subprocess_run e cmd = (\<lambda>s. (Some TypeError, s))"
    by (simp add: subprocess_run_def fun_eq_iff)
  then show ?thesis by (simp add: quiet_const)
next
  case False
  then have "subprocess_run e cmd = attempt e (Run (map the cmd))"
    by (simp add: subprocess_run_def fun_eq_iff)
  then show ?thesis by (simp add: quiet_attempt)
qed

lemma quiet_seq:
  assumes f: "quiet f" and g: "quiet g"
  shows "quiet (seq f g)"
proof (rule quietI)
  fix s
  obtain r s1 where fs: "f s = (r, s1)" by (cases "f s")
  obtain r2 s2 where gs: "g s1 = (r2, s2)" by (cases "g s1")
  note a = quietD [OF f fs] and b = quietD [OF g gs]
  have "snd (seq f g s) = s1 \<or> snd (seq f g s) = s2"
    using fs gs by (cases r) (simp_all add: seq_def)
  then show "dirs (snd (seq f g s)) = dirs s"
    and "prefix (trace s) (trace (snd (seq f g s)))"
    and "other_events (trace (snd (seq f g s))) = other_events (trace s)"
    using a b by (auto intro: prefix_order.trans)
qed

lemma quiet_process_video_clip: "quiet (process_video_clip e clip out)"
proof (cases "video_cmd e clip out")
  case (Inl err)
  then have "process_video_clip e clip out = (\<lambda>s. (Some err, s))"
    by (simp add: process_video_clip_def fun_eq_iff)
  then show ?thesis by (simp add: quiet_const)
next
  case (Inr cmd)
  then have "process_video_clip e clip out = subprocess_run e cmd"
    by (simp add: process_video_clip_def fun_eq_iff)
  then show ?thesis by (simp add: quiet_subprocess_run)
qed

lemma quiet_process_image_clip: "quiet (process_image_clip e clip out)"
proof (cases "image_cmd e clip out")
  case (Inl err)
  then have "process_image_clip e clip out = (\<lambda>s. (Some err, s))"
    by (simp add: process_image_clip_def fun_eq_iff)
  then show ?thesis by (simp add: quiet_const)
next
  case (Inr cmd)
  then have "process_image_clip e clip out = subprocess_run e cmd"
    by (simp add: process_image_clip_def fun_eq_iff)
  then show ?thesis by (simp add: quiet_subprocess_run)
qed

lemma quiet_process_text_clip: "quiet (process_text_clip e st clip out)"
  unfolding process_text_clip_def Let_def
  by (intro quiet_seq quiet_attempt quiet_subprocess_run) simp_all

lemma quiet_process_sticker_clip: "quiet (process_sticker_clip e st clip out)"
proof -
  have "quiet (\<lambda>s. case path clip of None \<Rightarrow> (Some (KeyError ''path''), s)
                    | Some sticker_path \<Rightarrow> subprocess_run e (cmd sticker_path) s)" for cmd
    using quiet_subprocess_run [of e] by (cases "path clip") (simp_all add: quiet_const)
  then show ?thesis
    unfolding process_sticker_clip_def Let_def
    by (intro quiet_seq quiet_subprocess_run)
qed

lemma quiet_process_transition_clip: "quiet (process_transition_clip e st clip out)"
  unfolding process_transition_clip_def by (rule quiet_subprocess_run)

lemma quiet_process_audio_clip: "quiet (process_audio_clip e clip out)"
proof (cases "path clip")
  case None
  then have "process_audio_clip e clip out = (\<lambda>s. (Some (KeyError ''path''), s))"
    by (simp add: process_audio_clip_def fun_eq_iff)
  then show ?thesis by (simp add: quiet_const)
next
  case (Some p)
  then have "\<exists>cmd. process_audio_clip e clip out = subprocess_run e cmd"
    by (simp add: process_audio_clip_def fun_eq_iff) blast
  then show ?thesis by (auto simp: quiet_subprocess_run)
qed

lemma quiet_render_clip: "quiet (render_clip e st clip out)"
proof -
  have "render_clip e st clip out = process_video_clip e clip out
      \<or> render_clip e st clip out = process_image_clip e clip out
      \<or> render_clip e st clip out = process_text_clip e st clip out
      \<or> render_clip e st clip out = process_transition_clip e st clip out
      \<or> render_clip e st clip out = process_sticker_clip e st clip out
      \<or> render_clip e st clip out = (\<lambda>s. (None, s))"
    by (simp add: render_clip_def fun_eq_iff)
  then show ?thesis
    using quiet_process_video_clip quiet_process_image_clip quiet_process_text_clip
      quiet_process_transition_clip quiet_process_sticker_clip quiet_const [of None]
    by metis
qed

subsection \<open>The shape of a run\<close>

text \<open>
  What a run leaves in the trace besides engine events: the progress values of the clips
  that the first loop went through, then the concatenation list, the copy of the result when
  there is no audio, the removal of the scratch directory and one of the two final signals.
\<close>

lemma enumerate_take_Suc: "take (Suc k) (enumerate i (c # cs)) = (i, c) # take k (enumerate (Suc i) cs)"
  by simp

lemma render_clips_shape:
  "render_clips e st tmp n i cs files s = (r, files', s') \<Longrightarrow>
   dirs s' = dirs s \<and> prefix (trace s) (trace s') \<and>
   (\<exists>k\<le>length cs.
      other_events (trace s') = other_events (trace s)
         @ map (\<lambda>(j, c). Progress (progress_value j n)) (take k (enumerate i cs)) \<and>
      (r = None \<longrightarrow> files' = files
         @ map (\<lambda>(j, c). clip_file tmp j) (filter (\<lambda>(j, c). clip_type c \<noteq> ''audio'') (take k (enumerate i cs)))) \<and>
      (r = None \<longrightarrow> (\<forall>t. \<not> canceled e t) \<longrightarrow> k = length cs))"
proof (induction cs arbitrary: i files s)
  case Nil
  then show ?case by simp
next
  case (Cons clip rest)
  show ?case
  proof (cases "canceled e (trace s)")
    case True
    with Cons.prems have "r = None" "files' = files" "s' = s"
      by simp_all
    then show ?thesis
      using True by (auto intro!: exI [of _ 0])
  next
    case nc: False
    define s1 where "s1 = emit (Progress (progress_value i n)) s"
    have s1: "dirs s1 = dirs s" "trace s1 = trace s @ [Progress (progress_value i n)]"
      by (simp_all add: s1_def emit_def)
    show ?thesis
    proof (cases "clip_type clip = ''audio''")
      case True
      with nc Cons.prems
      have rec: "render_clips e st tmp n (Suc i) rest files s1 = (r, files', s')"
        by (simp add: s1_def Let_def)
      from Cons.IH [OF rec] obtain k where k: "k \<le> length rest"
        and d: "dirs s' = dirs s1" and p: "prefix (trace s1) (trace s')"
        and o: "other_events (trace s') = other_events (trace s1)
           @ map (\<lambda>(j, c). Progress (progress_value j n)) (take k (enumerate (Suc i) rest))"
        and f: "r = None \<longrightarrow> files' = files
           @ map (\<lambda>(j, c). clip_file tmp j) (filter (\<lambda>(j, c). clip_type c \<noteq> ''audio'') (take k (enumerate (Suc i) rest)))"
        and a: "r = None \<longrightarrow> (\<forall>t. \<not> canceled e t) \<longrightarrow> k = length rest"
        by blast
      have "prefix (trace s) (trace s')"
        using p s1 by (metis append_prefixD)
      moreover have "Suc k \<le> length (clip # rest)"
        using k by simp
      ultimately show ?thesis
        using d o f a s1 True by (intro conjI exI [of _ "Suc k"]) simp_all
    next
      case False
      obtain r2 s2 where rc: "render_clip e st clip (clip_file tmp i) s1 = (r2, s2)"
        by (cases "render_clip e st clip (clip_file tmp i) s1")
      note q = quietD [OF quiet_render_clip rc]
      have ps2: "prefix (trace s) (trace s2)"
        using q(2) s1 by (metis append_prefixD)
      show ?thesis
      proof (cases r2)
        case (Some err)
        with nc False rc Cons.prems have res: "r = Some err" "files' = files" "s' = s2"
          by (simp_all add: s1_def Let_def)
        have "Suc 0 \<le> length (clip # rest)" by simp
        then show ?thesis
          using res q s1 ps2 by (intro conjI exI [of _ "Suc 0"]) simp_all
      next
        case None
        with nc False rc Cons.prems
        have rec: "render_clips e st tmp n (Suc i) rest (files @ [clip_file tmp i]) s2 = (r, files', s')"
          by (simp add: s1_def Let_def)
        from Cons.IH [OF rec] obtain k where k: "k \<le> length rest"
          and d: "dirs s' = dirs s2" and p: "prefix (trace s2) (trace s')"
          and o: "other_events (trace s') = other_events (trace s2)
             @ map (\<lambda>(j, c). Progress (progress_value j n)) (take k (enumerate (Suc i) rest))"
          and f: "r = None \<longrightarrow> files' = (files @ [clip_file tmp i])
             @ map (\<lambda>(j, c). clip_file tmp j) (filter (\<lambda>(j, c). clip_type c \<noteq> ''audio'') (take k (enumerate (Suc i) rest)))"
          and a: "r = None \<longrightarrow> (\<forall>t. \<not> canceled e t) \<longrightarrow> k = length rest"
          by blast
        have "prefix (trace s) (trace s')"
          using p ps2 by (rule prefix_order.trans [rotated])
        moreover have "Suc k \<le> length (clip # rest)"
          using k by simp
        ultimately show ?thesis
          using d o f a s1 q False by (intro conjI exI [of _ "Suc k"]) simp_all
      qed
    qed
  qed
qed

lemma process_audio_clips_quiet:
  "process_audio_clips e tmp i cs afs s = (r, afs', s') \<Longrightarrow>
   dirs s' = dirs s \<and> prefix (trace s) (trace s') \<and> other_events (trace s') = other_events (trace s)"
proof (induction cs arbitrary: i afs s)
  case Nil
  then show ?case by simp
next
  case (Cons clip rest)
  show ?case
  proof (cases "clip_type clip = ''audio''")
    case False
    with Cons.prems have "process_audio_clips e tmp (Suc i) rest afs s = (r, afs', s')"
      by simp
    then show ?thesis by (rule Cons.IH)
  next
    case True
    obtain r1 s1 where pa: "process_audio_clip e clip (audio_file tmp i) s = (r1, s1)"
      by (cases "process_audio_clip e clip (audio_file tmp i) s")
    note q = quietD [OF quiet_process_audio_clip pa]
    show ?thesis
    proof (cases r1)
      case (Some err)
      with True pa Cons.prems have "s' = s1" by simp
      with q show ?thesis by simp
    next
      case None
      with True pa Cons.prems
      have "process_audio_clips e tmp (Suc i) rest (afs @ [audio_file tmp i]) s1 = (r, afs', s')"
        by simp
      from Cons.IH [OF this] q show ?thesis
        by (auto intro: prefix_order.trans)
    qed
  qed
qed

lemma attempt_result:
  "attempt e ev s = (r, s') \<Longrightarrow> dirs s' = dirs s \<and> trace s' = trace s @ [ev]"
  by (auto simp: attempt_def)

lemma assemble_shape:
  assumes "assemble e tmp out files afs s = (r, s')"
  shows "dirs s' = dirs s \<and> prefix (trace s) (trace s') \<and>
    (\<exists>c. (c = [] \<or> c = [CopyFile (path_join tmp ''concat.mp4'') out]) \<and>
       other_events (trace s') = other_events (trace s)
         @ WriteFile (path_join tmp ''video_list.txt'') (video_list_content files) # c)"
proof -
  define wf where "wf = WriteFile (path_join tmp ''video_list.txt'') (video_list_content files)"
  define run1 where "run1 = subprocess_run e
     (map Some (concat_cmd (path_join tmp ''video_list.txt'') (path_join tmp ''concat.mp4'')))"
  define tail where "tail =
     (if afs \<noteq> []
      then seq (subprocess_run e (map Some (mix_cmd afs (path_join tmp ''mixed_audio.wav''))))
             (subprocess_run e (map Some (combine_cmd (path_join tmp ''concat.mp4'')
                (path_join tmp ''mixed_audio.wav'') out)))
      else attempt e (CopyFile (path_join tmp ''concat.mp4'') out))"
  have asm: "assemble e tmp out files afs = seq (attempt e wf) (seq run1 tail)"
    by (simp add: assemble_def Let_def wf_def run1_def tail_def)
  obtain r1 s1 where a1: "attempt e wf s = (r1, s1)"
    by (cases "attempt e wf s")
  from attempt_result [OF a1] have s1: "dirs s1 = dirs s" "trace s1 = trace s @ [wf]"
    by simp_all
  have o1: "other_events (trace s1) = other_events (trace s) @ [wf]"
    by (simp add: s1 wf_def)
  have p1: "prefix (trace s) (trace s1)"
    by (simp add: s1)
  show ?thesis
  proof (cases r1)
    case (Some err)
    with assms a1 have "s' = s1"
      by (simp add: asm seq_def)
    with s1 o1 p1 show ?thesis
      unfolding wf_def [symmetric] by (intro conjI exI [of _ "[]"]) simp_all
  next
    case None
    with assms a1 have rest: "seq run1 tail s1 = (r, s')"
      by (simp add: asm seq_def)
    obtain r2 s2 where a2: "run1 s1 = (r2, s2)"
      by (cases "run1 s1")
    have "quiet run1"
      by (simp add: run1_def quiet_subprocess_run)
    note q2 = quietD [OF this a2]
    have p2: "prefix (trace s) (trace s2)"
      using p1 q2(2) by (rule prefix_order.trans)
    show ?thesis
    proof (cases r2)
      case (Some err)
      with rest a2 have "s' = s2"
        by (simp add: seq_def)
      with q2(1,3) s1(1) o1 p2 show ?thesis
        unfolding wf_def [symmetric] by (intro conjI exI [of _ "[]"]) simp_all
    next
      case n2: None
      with rest a2 have t: "tail s2 = (r, s')"
        by (simp add: seq_def)
      show ?thesis
      proof (cases "afs \<noteq> []")
        case True
        then have "quiet tail"
          by (simp add: tail_def quiet_seq quiet_subprocess_run)
        note q3 = quietD [OF this t]
        have "prefix (trace s) (trace s')"
          using p2 q3(2) by (rule prefix_order.trans)
        with q3(1,3) q2(1,3) s1(1) o1 show ?thesis
          unfolding wf_def [symmetric] by (intro conjI exI [of _ "[]"]) simp_all
      next
        case False
        with t have "attempt e (CopyFile (path_join tmp ''concat.mp4'') out) s2 = (r, s')"
          by (simp add: tail_def)
        from attempt_result [OF this]
        have s3: "dirs s' = dirs s2" "trace s' = trace s2 @ [CopyFile (path_join tmp ''concat.mp4'') out]"
          by simp_all
        have "prefix (trace s2) (trace s')"
          by (simp add: s3)
        with p2 have "prefix (trace s) (trace s')"
          by (rule prefix_order.trans)
        with s3 q2(1,3) s1(1) o1 show ?thesis
          unfolding wf_def [symmetric]
          by (intro conjI exI [of _ "[CopyFile (path_join tmp ''concat.mp4'') out]"]) simp_all
      qed
    qed
  qed
qed

lemma after_clips_shape:
  assumes "after_clips e cs out tmp files s = (r, s')"
  shows "prefix (trace s) (trace s') \<and>
    (\<exists>W c. other_events (trace s') = other_events (trace s) @ W \<and>
       (c = [] \<or> c = [CopyFile (path_join tmp ''concat.mp4'') out]) \<and>
       (W = [] \<and> r \<noteq> None \<and> dirs s' = dirs s
        \<or> W = WriteFile (path_join tmp ''video_list.txt'') (video_list_content files) # c
            \<and> r \<noteq> None \<and> dirs s' = dirs s
        \<or> W = WriteFile (path_join tmp ''video_list.txt'') (video_list_content files) # c @ [Rmtree tmp]
            \<and> r = None \<and> dirs s' = dirs s - {tmp}
        \<or> W = WriteFile (path_join tmp ''video_list.txt'') (video_list_content files) # c
                 @ [Rmtree tmp, Finished out]
            \<and> r = None \<and> dirs s' = dirs s - {tmp}
            \<and> (\<exists>t4. trace s' = t4 @ [Finished out] \<and> \<not> canceled e t4)))"
proof -
  define wf where "wf = WriteFile (path_join tmp ''video_list.txt'') (video_list_content files)"
  obtain r2 afs s2 where au: "process_audio_clips e tmp 0 cs [] s = (r2, afs, s2)"
    by (cases "process_audio_clips e tmp 0 cs [] s")
  from process_audio_clips_quiet [OF au]
  have q: "dirs s2 = dirs s" "prefix (trace s) (trace s2)"
    "other_events (trace s2) = other_events (trace s)"
    by simp_all
  show ?thesis
  proof (cases r2)
    case (Some err)
    with assms au have "r = Some err" "s' = s2"
      by (simp_all add: after_clips_def)
    with q show ?thesis
      by (intro conjI exI [of _ "[]"]) simp_all
  next
    case None
    obtain r3 s3 where asm: "assemble e tmp out files afs s2 = (r3, s3)"
      by (cases "assemble e tmp out files afs s2")
    from assemble_shape [OF asm] obtain c
      where d3: "dirs s3 = dirs s2" and p3: "prefix (trace s2) (trace s3)"
        and c: "c = [] \<or> c = [CopyFile (path_join tmp ''concat.mp4'') out]"
        and o3: "other_events (trace s3) = other_events (trace s2) @ wf # c"
      unfolding wf_def by blast
    have ps3: "prefix (trace s) (trace s3)"
      using q(2) p3 by (rule prefix_order.trans)
    show ?thesis
    proof (cases r3)
      case (Some err)
      with None assms au asm have "r = Some err" "s' = s3"
        by (simp_all add: after_clips_def)
      with q d3 ps3 c o3 show ?thesis
        unfolding wf_def [symmetric]
        by (intro conjI exI [of _ "wf # c"] exI [of _ c]) simp_all
    next
      case n3: None
      define s4 where "s4 = rmtree tmp s3"
      have s4: "dirs s4 = dirs s3 - {tmp}" "trace s4 = trace s3 @ [Rmtree tmp]"
        by (simp_all add: s4_def rmtree_def)
      have ps4: "prefix (trace s) (trace s4)"
        using ps3 by (simp add: s4 prefix_prefix)
      have o4: "other_events (trace s4) = other_events (trace s) @ wf # c @ [Rmtree tmp]"
        by (simp add: s4 o3 q)
      show ?thesis
      proof (cases "canceled e (trace s4)")
        case True
        with None n3 assms au asm have "r = None" "s' = s4"
          by (simp_all add: after_clips_def s4_def)
        with s4(1) d3 q(1) ps4 c o4 show ?thesis
          unfolding wf_def [symmetric]
          by (intro conjI exI [of _ "wf # c @ [Rmtree tmp]"] exI [of _ c]) simp_all
      next
        case False
        with None n3 assms au asm have res: "r = None" "s' = emit (Finished out) s4"
          by (simp_all add: after_clips_def s4_def)
        have s5: "dirs s' = dirs s4" "trace s' = trace s4 @ [Finished out]"
          by (simp_all add: res emit_def)
        have "prefix (trace s) (trace s')"
          using ps4 by (simp add: s5 prefix_prefix)
        moreover have "other_events (trace s') = other_events (trace s) @ wf # c @ [Rmtree tmp, Finished out]"
          by (simp add: s5 o4)
        moreover have "\<exists>t4. trace s' = t4 @ [Finished out] \<and> \<not> canceled e t4"
          using s5(2) False by blast
        ultimately show ?thesis
          using res(1) s5(1) s4(1) d3 q(1) c
          unfolding wf_def [symmetric]
          by (intro conjI exI [of _ "wf # c @ [Rmtree tmp, Finished out]"] exI [of _ c]) simp_all
      qed
    qed
  qed
qed

lemma export_body_shape:
  assumes "export_body e cs st out tmp s = (r, s')"
  shows "prefix (trace s) (trace s') \<and>
    (\<exists>k W c. k \<le> length cs \<and>
       other_events (trace s') = other_events (trace s)
         @ map (\<lambda>(j, c). Progress (progress_value j (length cs))) (take k (enumerate 0 cs)) @ W \<and>
       (c = [] \<or> c = [CopyFile (path_join tmp ''concat.mp4'') out]) \<and>
       (W = [] \<and> r \<noteq> None \<and> dirs s' = dirs s
        \<or> ((\<forall>t. \<not> canceled e t) \<longrightarrow> k = length cs) \<and>
          (W = WriteFile (path_join tmp ''video_list.txt'') (video_list_content (rendered_files tmp k cs)) # c
              \<and> r \<noteq> None \<and> dirs s' = dirs s
           \<or> W = WriteFile (path_join tmp ''video_list.txt'') (video_list_content (rendered_files tmp k cs)) # c
                  @ [Rmtree tmp]
              \<and> r = None \<and> dirs s' = dirs s - {tmp}
           \<or> W = WriteFile (path_join tmp ''video_list.txt'') (video_list_content (rendered_files tmp k cs)) # c
                   @ [Rmtree tmp, Finished out]
              \<and> r = None \<and> dirs s' = dirs s - {tmp}
              \<and> (\<exists>t4. trace s' = t4 @ [Finished out] \<and> \<not> canceled e t4))))"
proof -
  obtain r1 files s1 where rc: "render_clips e st tmp (length cs) 0 cs [] s = (r1, files, s1)"
    by (cases "render_clips e st tmp (length cs) 0 cs [] s")
  from render_clips_shape [OF rc] obtain k where k: "k \<le> length cs"
    and d1: "dirs s1 = dirs s" and p1: "prefix (trace s) (trace s1)"
    and o1: "other_events (trace s1) = other_events (trace s)
         @ map (\<lambda>(j, c). Progress (progress_value j (length cs))) (take k (enumerate 0 cs))"
    and f1: "r1 = None \<longrightarrow> files = rendered_files tmp k cs"
    and a1: "r1 = None \<longrightarrow> (\<forall>t. \<not> canceled e t) \<longrightarrow> k = length cs"
    unfolding rendered_files_def by auto
  show ?thesis
  proof (cases r1)
    case (Some err)
    with assms rc have "r = Some err" "s' = s1"
      by (simp_all add: export_body_def)
    with k d1 p1 o1 show ?thesis
      by (intro conjI exI [of _ k] exI [of _ "[]"]) simp_all
  next
    case None
    with assms rc f1 have ac: "after_clips e cs out tmp (rendered_files tmp k cs) s1 = (r, s')"
      by (simp add: export_body_def)
    from None a1 have a: "(\<forall>t. \<not> canceled e t) \<longrightarrow> k = length cs"
      by simp
    from after_clips_shape [OF ac] obtain W c where p2: "prefix (trace s1) (trace s')"
      and o2: "other_events (trace s') = other_events (trace s1) @ W"
      and c: "c = [] \<or> c = [CopyFile (path_join tmp ''concat.mp4'') out]"
      and w: "W = [] \<and> r \<noteq> None \<and> dirs s' = dirs s1
        \<or> W = WriteFile (path_join tmp ''video_list.txt'') (video_list_content (rendered_files tmp k cs)) # c
            \<and> r \<noteq> None \<and> dirs s' = dirs s1
        \<or> W = WriteFile (path_join tmp ''video_list.txt'') (video_list_content (rendered_files tmp k cs)) # c @ [Rmtree tmp]
            \<and> r = None \<and> dirs s' = dirs s1 - {tmp}
        \<or> W = WriteFile (path_join tmp ''video_list.txt'') (video_list_content (rendered_files tmp k cs)) # c
                 @ [Rmtree tmp, Finished out]
            \<and> r = None \<and> dirs s' = dirs s1 - {tmp}
            \<and> (\<exists>t4. trace s' = t4 @ [Finished out] \<and> \<not> canceled e t4)"
      by blast
    have p: "prefix (trace s) (trace s')"
      using p1 p2 by (rule prefix_order.trans)
    have o: "other_events (trace s') = other_events (trace s)
         @ map (\<lambda>(j, c). Progress (progress_value j (length cs))) (take k (enumerate 0 cs)) @ W"
      by (simp add: o2 o1)
    from w a have "W = [] \<and> r \<noteq> None \<and> dirs s' = dirs s
        \<or> ((\<forall>t. \<not> canceled e t) \<longrightarrow> k = length cs) \<and>
          (W = WriteFile (path_join tmp ''video_list.txt'') (video_list_content (rendered_files tmp k cs)) # c
              \<and> r \<noteq> None \<and> dirs s' = dirs s
           \<or> W = WriteFile (path_join tmp ''video_list.txt'') (video_list_content (rendered_files tmp k cs)) # c
                  @ [Rmtree tmp]
              \<and> r = None \<and> dirs s' = dirs s - {tmp}
           \<or> W = WriteFile (path_join tmp ''video_list.txt'') (video_list_content (rendered_files tmp k cs)) # c
                   @ [Rmtree tmp, Finished out]
              \<and> r = None \<and> dirs s' = dirs s - {tmp}
              \<and> (\<exists>t4. trace s' = t4 @ [Finished out] \<and> \<not> canceled e t4))"
      unfolding d1 by blast
    with p k o c show ?thesis
      by blast
  qed
qed

lemma export_shape:
  "\<exists>k W c. k \<le> length cs \<and>
     other_events (trace (export e cs st out ds)) = Mkdtemp (mkdtemp e)
       # map (\<lambda>(j, c). Progress (progress_value j (length cs))) (take k (enumerate 0 cs)) @ W \<and>
     (c = [] \<or> c = [CopyFile (path_join (mkdtemp e) ''concat.mp4'') out]) \<and>
     ((\<exists>err. W = [Error err, Rmtree (mkdtemp e)])
      \<or> ((\<forall>t. \<not> canceled e t) \<longrightarrow> k = length cs) \<and>
        ((\<exists>err. W = WriteFile (path_join (mkdtemp e) ''video_list.txt'')
                      (video_list_content (rendered_files (mkdtemp e) k cs)) # c
                    @ [Error err, Rmtree (mkdtemp e)])
         \<or> W = WriteFile (path_join (mkdtemp e) ''video_list.txt'')
                  (video_list_content (rendered_files (mkdtemp e) k cs)) # c @ [Rmtree (mkdtemp e)]
         \<or> W = WriteFile (path_join (mkdtemp e) ''video_list.txt'')
                  (video_list_content (rendered_files (mkdtemp e) k cs)) # c
                @ [Rmtree (mkdtemp e), Finished out]
            \<and> (\<exists>t4. trace (export e cs st out ds) = t4 @ [Finished out] \<and> \<not> canceled e t4)))"
proof -
  let ?tmp = "mkdtemp e"
  let ?wf = "\<lambda>k. WriteFile (path_join ?tmp ''video_list.txt'')
                  (video_list_content (rendered_files ?tmp k cs))"
  let ?T = "trace (export e cs st out ds)"
  define s0 where "s0 = \<lparr> trace = [Mkdtemp ?tmp], dirs = insert ?tmp ds \<rparr>"
  obtain r s1 where b: "export_body e cs st out ?tmp s0 = (r, s1)"
    by (cases "export_body e cs st out ?tmp s0")
  have s0: "other_events (trace s0) = [Mkdtemp ?tmp]" "?tmp \<in> dirs s0"
    by (simp_all add: s0_def)
  from export_body_shape [OF b] obtain k W c where k: "k \<le> length cs"
    and o0: "other_events (trace s1) = other_events (trace s0)
         @ map (\<lambda>(j, c). Progress (progress_value j (length cs))) (take k (enumerate 0 cs)) @ W"
    and c: "c = [] \<or> c = [CopyFile (path_join ?tmp ''concat.mp4'') out]"
    and w: "W = [] \<and> r \<noteq> None \<and> dirs s1 = dirs s0
        \<or> ((\<forall>t. \<not> canceled e t) \<longrightarrow> k = length cs) \<and>
          (W = ?wf k # c \<and> r \<noteq> None \<and> dirs s1 = dirs s0
           \<or> W = ?wf k # c @ [Rmtree ?tmp] \<and> r = None \<and> dirs s1 = dirs s0 - {?tmp}
           \<or> W = ?wf k # c @ [Rmtree ?tmp, Finished out] \<and> r = None \<and> dirs s1 = dirs s0 - {?tmp}
              \<and> (\<exists>t4. trace s1 = t4 @ [Finished out] \<and> \<not> canceled e t4))"
    by (elim conjE exE) (rule that)
  have o: "other_events (trace s1) = Mkdtemp ?tmp
         # map (\<lambda>(j, c). Progress (progress_value j (length cs))) (take k (enumerate 0 cs)) @ W"
    by (simp add: o0 s0)
  show ?thesis
  proof (cases r)
    case None
    with b have ex: "export e cs st out ds = s1"
      by (simp add: export_def s0_def)
    from w None have a: "(\<forall>t. \<not> canceled e t) \<longrightarrow> k = length cs"
      and w': "W = ?wf k # c @ [Rmtree ?tmp]
           \<or> W = ?wf k # c @ [Rmtree ?tmp, Finished out]
              \<and> (\<exists>t4. trace s1 = t4 @ [Finished out] \<and> \<not> canceled e t4)"
      by auto
    show ?thesis
      apply (rule exI [of _ k])
      apply (rule exI [of _ W])
      apply (rule exI [of _ c])
      using k o c a w' unfolding ex
      apply simp
      done
  next
    case (Some err)
    from w Some have d: "dirs s1 = dirs s0"
      and w': "W = [] \<or> ((\<forall>t. \<not> canceled e t) \<longrightarrow> k = length cs) \<and> W = ?wf k # c"
      by auto
    from d s0 have "?tmp \<in> dirs s1"
      by simp
    with b Some have ex: "export e cs st out ds = rmtree ?tmp (emit (Error err) s1)"
      by (simp add: export_def s0_def emit_def)
    have o': "other_events ?T = Mkdtemp ?tmp
         # map (\<lambda>(j, c). Progress (progress_value j (length cs))) (take k (enumerate 0 cs))
         @ (W @ [Error err, Rmtree ?tmp])"
      by (simp add: ex rmtree_def emit_def o)
    from w' show ?thesis
    proof (elim disjE conjE)
      assume W: "W = []"
      show ?thesis
        apply (rule exI [of _ k])
        apply (rule exI [of _ "[Error err, Rmtree ?tmp]"])
        apply (rule exI [of _ c])
        using k o' c W
        apply simp
        done
    next
      assume a: "(\<forall>t. \<not> canceled e t) \<longrightarrow> k = length cs" and W: "W = ?wf k # c"
      show ?thesis
        apply (rule exI [of _ k])
        apply (rule exI [of _ "?wf k # c @ [Error err, Rmtree ?tmp]"])
        apply (rule exI [of _ c])
        using k o' c a W
        apply simp
        done
    qed
  qed
qed

subsection \<open>Consequences for the signals, the list file and the disk\<close>

lemma progress_values_append [simp]:
  "progress_values (xs @ ys) = progress_values xs @ progress_values ys"
  by (induction xs rule: progress_values.induct) simp_all

lemma progress_values_other_events: "progress_values (other_events t) = progress_values t"
  by (induction t rule: progress_values.induct) (simp_all add: other_events_def)

lemma progress_values_map:
  "progress_values (map (\<lambda>(j, c). Progress (f j)) xs) = map f (map fst xs)"
  by (induction xs) auto

lemma set_progress_values: "(v \<in> set (progress_values t)) = (Progress v \<in> set t)"
  by (induction t rule: progress_values.induct) auto

lemma set_other_events: "\<not> is_engine ev \<Longrightarrow> (ev \<in> set (other_events t)) = (ev \<in> set t)"
  by (auto simp: other_events_def)

lemma fst_take_enumerate:
  "k \<le> length cs \<Longrightarrow> map fst (take k (enumerate 0 cs)) = [0..<k]"
  by (simp add: take_map [symmetric] map_fst_enumerate)

lemma progress_value_mono: "i \<le> j \<Longrightarrow> progress_value i n \<le> progress_value j n"
  unfolding progress_value_def
  by (intro floor_mono mult_right_mono divide_right_mono) simp_all

lemma progress_value_bounds:
  assumes "j < n"
  shows "0 \<le> progress_value j n \<and> progress_value j n < 80"
proof -
  from assms have pos: "0 < rat_of_nat n"
    by simp
  from assms have "rat_of_nat j * 80 < 80 * rat_of_nat n"
    by simp
  with pos have "rat_of_nat j * 80 / rat_of_nat n < 80"
    by (simp add: pos_divide_less_eq)
  then show ?thesis
    unfolding progress_value_def by (simp add: floor_less_iff)
qed

lemma export_progress:
  "\<exists>k\<le>length cs. progress_values (trace (export e cs st out ds))
     = map (\<lambda>j. progress_value j (length cs)) [0..<k]"
proof -
  let ?T = "trace (export e cs st out ds)"
  from export_shape [of cs e st out ds] obtain k W c where k: "k \<le> length cs"
    and o: "other_events ?T = Mkdtemp (mkdtemp e)
       # map (\<lambda>(j, c). Progress (progress_value j (length cs))) (take k (enumerate 0 cs)) @ W"
    and c: "c = [] \<or> c = [CopyFile (path_join (mkdtemp e) ''concat.mp4'') out]"
    and w: "(\<exists>err. W = [Error err, Rmtree (mkdtemp e)])
      \<or> ((\<forall>t. \<not> canceled e t) \<longrightarrow> k = length cs) \<and>
        ((\<exists>err. W = WriteFile (path_join (mkdtemp e) ''video_list.txt'')
                      (video_list_content (rendered_files (mkdtemp e) k cs)) # c
                    @ [Error err, Rmtree (mkdtemp e)])
         \<or> W = WriteFile (path_join (mkdtemp e) ''video_list.txt'')
                  (video_list_content (rendered_files (mkdtemp e) k cs)) # c @ [Rmtree (mkdtemp e)]
         \<or> W = WriteFile (path_join (mkdtemp e) ''video_list.txt'')
                  (video_list_content (rendered_files (mkdtemp e) k cs)) # c
                @ [Rmtree (mkdtemp e), Finished out]
            \<and> (\<exists>t4. ?T = t4 @ [Finished out] \<and> \<not> canceled e t4))"
    by (elim conjE exE) (rule that)
  from c have pc: "progress_values c = []"
    by auto
  from w have pw: "progress_values W = []"
    by (elim disjE conjE exE) (simp_all add: pc)
  have "progress_values ?T = progress_values (other_events ?T)"
    by (simp add: progress_values_other_events)
  also have "\<dots> = map (\<lambda>j. progress_value j (length cs)) [0..<k]"
    unfolding o using k by (simp add: pw progress_values_map fst_take_enumerate)
  finally show ?thesis
    using k by blast
qed

lemma export_progress_sorted: "sorted (progress_values (trace (export e cs st out ds)))"
proof -
  from export_progress [of cs e st out ds] obtain k
    where p: "progress_values (trace (export e cs st out ds))
                = map (\<lambda>j. progress_value j (length cs)) [0..<k]"
    by blast
  have "sorted_wrt (\<lambda>i j. progress_value i (length cs) \<le> progress_value j (length cs)) [0..<k]"
    by (rule sorted_wrt_mono_rel [OF _ sorted_upt]) (simp add: progress_value_mono)
  then show ?thesis
    unfolding p by (simp add: sorted_map)
qed

lemma export_progress_range:
  assumes "Progress v \<in> set (trace (export e cs st out ds))"
  shows "0 \<le> v \<and> v < 80"
proof -
  from export_progress [of cs e st out ds] obtain k where k: "k \<le> length cs"
    and p: "progress_values (trace (export e cs st out ds))
                = map (\<lambda>j. progress_value j (length cs)) [0..<k]"
    by blast
  from assms have "v \<in> set (progress_values (trace (export e cs st out ds)))"
    by (simp add: set_progress_values)
  then obtain j where "j < k" "v = progress_value j (length cs)"
    unfolding p by auto
  with k show ?thesis
    using progress_value_bounds [of j "length cs"] by simp
qed

lemma export_list_file:
  assumes "WriteFile f content \<in> set (trace (export e cs st out ds))"
  shows "\<exists>k\<le>length cs. f = path_join (mkdtemp e) ''video_list.txt''
           \<and> content = video_list_content (rendered_files (mkdtemp e) k cs)
           \<and> ((\<forall>t. \<not> canceled e t) \<longrightarrow> k = length cs)"
proof -
  let ?T = "trace (export e cs st out ds)"
  from export_shape [of cs e st out ds] obtain k W c where k: "k \<le> length cs"
    and o: "other_events ?T = Mkdtemp (mkdtemp e)
       # map (\<lambda>(j, c). Progress (progress_value j (length cs))) (take k (enumerate 0 cs)) @ W"
    and c: "c = [] \<or> c = [CopyFile (path_join (mkdtemp e) ''concat.mp4'') out]"
    and w: "(\<exists>err. W = [Error err, Rmtree (mkdtemp e)])
      \<or> ((\<forall>t. \<not> canceled e t) \<longrightarrow> k = length cs) \<and>
        ((\<exists>err. W = WriteFile (path_join (mkdtemp e) ''video_list.txt'')
                      (video_list_content (rendered_files (mkdtemp e) k cs)) # c
                    @ [Error err, Rmtree (mkdtemp e)])
         \<or> W = WriteFile (path_join (mkdtemp e) ''video_list.txt'')
                  (video_list_content (rendered_files (mkdtemp e) k cs)) # c @ [Rmtree (mkdtemp e)]
         \<or> W = WriteFile (path_join (mkdtemp e) ''video_list.txt'')
                  (video_list_content (rendered_files (mkdtemp e) k cs)) # c
                @ [Rmtree (mkdtemp e), Finished out]
            \<and> (\<exists>t4. ?T = t4 @ [Finished out] \<and> \<not> canceled e t4))"
    by (elim conjE exE) (rule that)
  from c have nc: "WriteFile f content \<notin> set c"
    by auto
  from assms have "WriteFile f content \<in> set (other_events ?T)"
    by (simp add: set_other_events)
  then have inw: "WriteFile f content \<in> set W"
    unfolding o by auto
  from w inw nc have "f = path_join (mkdtemp e) ''video_list.txt''
      \<and> content = video_list_content (rendered_files (mkdtemp e) k cs)
      \<and> ((\<forall>t. \<not> canceled e t) \<longrightarrow> k = length cs)"
    by (elim disjE conjE exE) simp_all
  with k show ?thesis
    by blast
qed

lemma export_finished:
  assumes "Finished p \<in> set (trace (export e cs st out ds))"
  shows "\<exists>t4. trace (export e cs st out ds) = t4 @ [Finished out] \<and> \<not> canceled e t4"
proof -
  let ?T = "trace (export e cs st out ds)"
  from export_shape [of cs e st out ds] obtain k W c where k: "k \<le> length cs"
    and o: "other_events ?T = Mkdtemp (mkdtemp e)
       # map (\<lambda>(j, c). Progress (progress_value j (length cs))) (take k (enumerate 0 cs)) @ W"
    and c: "c = [] \<or> c = [CopyFile (path_join (mkdtemp e) ''concat.mp4'') out]"
    and w: "(\<exists>err. W = [Error err, Rmtree (mkdtemp e)])
      \<or> ((\<forall>t. \<not> canceled e t) \<longrightarrow> k = length cs) \<and>
        ((\<exists>err. W = WriteFile (path_join (mkdtemp e) ''video_list.txt'')
                      (video_list_content (rendered_files (mkdtemp e) k cs)) # c
                    @ [Error err, Rmtree (mkdtemp e)])
         \<or> W = WriteFile (path_join (mkdtemp e) ''video_list.txt'')
                  (video_list_content (rendered_files (mkdtemp e) k cs)) # c @ [Rmtree (mkdtemp e)]
         \<or> W = WriteFile (path_join (mkdtemp e) ''video_list.txt'')
                  (video_list_content (rendered_files (mkdtemp e) k cs)) # c
                @ [Rmtree (mkdtemp e), Finished out]
            \<and> (\<exists>t4. ?T = t4 @ [Finished out] \<and> \<not> canceled e t4))"
    by (elim conjE exE) (rule that)
  from c have nc: "Finished p \<notin> set c"
    by auto
  from assms have "Finished p \<in> set (other_events ?T)"
    by (simp add: set_other_events)
  then have inw: "Finished p \<in> set W"
    unfolding o by auto
  from w inw nc show ?thesis
    by (elim disjE conjE exE) simp_all
qed

lemma export_dirs: "dirs (export e cs st out ds) = ds - {mkdtemp e}"
proof -
  define s0 where "s0 = \<lparr> trace = [Mkdtemp (mkdtemp e)], dirs = insert (mkdtemp e) ds \<rparr>"
  obtain r s1 where b: "export_body e cs st out (mkdtemp e) s0 = (r, s1)"
    by (cases "export_body e cs st out (mkdtemp e) s0")
  have d0: "dirs s0 = insert (mkdtemp e) ds"
    by (simp add: s0_def)
  show ?thesis
  proof (cases r)
    case (Some err)
    with export_body_shape [OF b] have "dirs s1 = dirs s0"
      by auto
    with b Some show ?thesis
      by (simp add: export_def s0_def [symmetric] rmtree_def emit_def d0)
  next
    case None
    with export_body_shape [OF b] have "dirs s1 = dirs s0 - {mkdtemp e}"
      by auto
    with b None show ?thesis
      by (simp add: export_def s0_def [symmetric] d0)
  qed
qed

subsection \<open>Sample runs\<close>

lemma two_transitions_eval:
  "two_transitions = [clip_dict 1 ''transition'' 0 5 2 ''Fade Transition'',
                      clip_dict 2 ''transition'' 0 0 2 ''Fade Transition'']"
  by (simp add: two_transitions_def transitions_project_def add_transition_def
      set_current_time_def init_editor_def Let_def)

lemma with_audio_eval:
  "with_audio = [clip_dict 1 ''transition'' 0 0 2 ''Fade Transition'',
                 (clip_dict 2 ''audio'' 5 0 8 ''b.wav'') \<lparr> path := Some ''b.wav'', volume := Some 1 \<rparr>]"
  by (simp add: with_audio_def audio_project_def add_transition_def add_audio_clip_def
      init_editor_def basename_def Let_def)

lemmas run_defs =
  export_def export_body_def after_clips_def sample_env_def Let_def assemble_def seq_def
  attempt_def subprocess_run_def rmtree_def emit_def concat_cmd_def mix_cmd_def combine_cmd_def
  audio_inputs_def input_labels_def filter_complex_def path_join_def clip_dict_def
  render_clip_def process_transition_clip_def process_audio_clip_def process_video_clip_def
  video_cmd_def video_filters_def effect_filters_def chroma_filter_def dict_get_def
  color_source_def default_settings_def DEFAULT_FPS_def DEFAULT_RESOLUTION_def
  clip_file_def audio_file_def progress_value_def str_nat.simps digit_char_def str_int_def

lemma run_two_transitions:
  "export (sample_env False) two_transitions default_settings ''out.mp4'' {}
   = \<lparr> trace =
         [Mkdtemp ''/tmp/x'', Progress 0,
          Run [''ffmpeg'', ''-y'', ''-f'', ''lavfi'', ''-i'',
               ''color=size=1920x1080:rate=30:color=black'', ''-t'', ''2'',
               ''-c:v'', ''libx264'', ''-pix_fmt'', ''yuv420p'', ''/tmp/x/clip_0.mp4''],
          Progress 40,
          Run [''ffmpeg'', ''-y'', ''-f'', ''lavfi'', ''-i'',
               ''color=size=1920x1080:rate=30:color=black'', ''-t'', ''2'',
               ''-c:v'', ''libx264'', ''-pix_fmt'', ''yuv420p'', ''/tmp/x/clip_1.mp4''],
          WriteFile ''/tmp/x/video_list.txt''
            (video_list_content [''/tmp/x/clip_0.mp4'', ''/tmp/x/clip_1.mp4'']),
          Run [''ffmpeg'', ''-y'', ''-f'', ''concat'', ''-safe'', ''0'', ''-i'',
               ''/tmp/x/video_list.txt'', ''-c'', ''copy'', ''/tmp/x/concat.mp4''],
          CopyFile ''/tmp/x/concat.mp4'' ''out.mp4'', Rmtree ''/tmp/x'', Finished ''out.mp4''],
       dirs = {} \<rparr>"
  by (simp add: two_transitions_eval run_defs)

lemma run_two_transitions_canceled:
  "export (sample_env True) two_transitions default_settings ''out.mp4'' {}
   = \<lparr> trace =
         [Mkdtemp ''/tmp/x'',
          WriteFile ''/tmp/x/video_list.txt'' (video_list_content []),
          Run [''ffmpeg'', ''-y'', ''-f'', ''concat'', ''-safe'', ''0'', ''-i'',
               ''/tmp/x/video_list.txt'', ''-c'', ''copy'', ''/tmp/x/concat.mp4''],
          CopyFile ''/tmp/x/concat.mp4'' ''out.mp4'', Rmtree ''/tmp/x''],
       dirs = {} \<rparr>"
  by (simp add: two_transitions_eval run_defs)

lemma run_with_audio:
  "export (sample_env False) with_audio default_settings ''out.mp4'' {}
   = \<lparr> trace =
         [Mkdtemp ''/tmp/x'', Progress 0,
          Run [''ffmpeg'', ''-y'', ''-f'', ''lavfi'', ''-i'',
               ''color=size=1920x1080:rate=30:color=black'', ''-t'', ''2'',
               ''-c:v'', ''libx264'', ''-pix_fmt'', ''yuv420p'', ''/tmp/x/clip_0.mp4''],
          Progress 40,
          Run [''ffmpeg'', ''-y'', ''-ss'', ''0'', ''-i'', ''b.wav'', ''-t'', ''8'',
               ''-af'', ''volume=1'', ''/tmp/x/audio_1.wav''],
          WriteFile ''/tmp/x/video_list.txt'' (video_list_content [''/tmp/x/clip_0.mp4'']),
          Run [''ffmpeg'', ''-y'', ''-f'', ''concat'', ''-safe'', ''0'', ''-i'',
               ''/tmp/x/video_list.txt'', ''-c'', ''copy'', ''/tmp/x/concat.mp4''],
          Run [''ffmpeg'', ''-y'', ''-i'', ''/tmp/x/audio_1.wav'',
               ''-filter_complex'', ''[1:a]amix=inputs=1:duration=longest[a]'',
               ''-map'', ''[a]'', ''/tmp/x/mixed_audio.wav''],
          Run [''ffmpeg'', ''-y'', ''-i'', ''/tmp/x/concat.mp4'', ''-i'',
               ''/tmp/x/mixed_audio.wav'', ''-c:v'', ''libx264'', ''-c:a'', ''aac'',
               ''-b:a'', ''192k'', ''-map'', ''0:v:0'', ''-map'', ''1:a:0'',
               ''-shortest'', ''out.mp4''],
          Rmtree ''/tmp/x'', Finished ''out.mp4''],
       dirs = {} \<rparr>"
  by (simp add: with_audio_eval run_defs)

lemma run_sample_video:
  "export (sample_env False) (clips (sample_editor 4)) default_settings ''out.mp4'' {}
   = \<lparr> trace = [Mkdtemp ''/tmp/x'', Progress 0, Error TypeError, Rmtree ''/tmp/x''],
       dirs = {} \<rparr>"
  by (simp add: sample_editor_eval init_editor_def run_defs)

subsection \<open>The concatenation list, cancellation, the mix, progress and cleanup\<close>

lemma export_project_run:
  "export_project e chosen ds ed = (ed', Some x) \<Longrightarrow>
   ed' = ed \<and> (\<exists>out. x = export e (clips ed) (project_settings ed) out ds)"
  by (auto simp: export_project_def split: if_splits option.splits)

lemma transitions_project_settings: "project_settings transitions_project = default_settings"
  by (simp add: transitions_project_def add_transition_def set_current_time_def
      init_editor_def Let_def)

lemma audio_project_settings: "project_settings audio_project = default_settings"
  by (simp add: audio_project_def add_transition_def add_audio_clip_def
      init_editor_def Let_def)

text \<open>
  C3. The claim: the concatenation list names the rendered clips sorted by increasing start
  time, whatever the order in which the clips were created. In the program the worker gets
  the editor's clip list as it is, and no step sorts it. With a transition added at 5
  seconds and then one added at 0, the list names the file of the clip that starts at 5
  before the file of the clip that starts at 0.
\<close>

theorem concat_list_not_in_start_order:
  "map start (clips transitions_project) = [5, 0] \<and>
   \<not> sorted (map start (clips transitions_project)) \<and>
   map (\<lambda>(j, c). (start c, clip_file ''/tmp/x'' j)) (enumerate 0 (clips transitions_project))
     = [(5, ''/tmp/x/clip_0.mp4''), (0, ''/tmp/x/clip_1.mp4'')] \<and>
   export_project (sample_env False) (Some ''out.mp4'') {} transitions_project
     = (transitions_project,
        Some (export (sample_env False) two_transitions default_settings ''out.mp4'' {})) \<and>
   WriteFile ''/tmp/x/video_list.txt''
       (video_list_content [''/tmp/x/clip_0.mp4'', ''/tmp/x/clip_1.mp4''])
     \<in> set (trace (export (sample_env False) two_transitions default_settings ''out.mp4'' {}))"
proof -
  have c: "clips transitions_project = two_transitions"
    by (simp add: two_transitions_def)
  have "map start two_transitions = [5, 0]"
    by (simp add: two_transitions_eval clip_dict_def)
  moreover have "map (\<lambda>(j, c). (start c, clip_file ''/tmp/x'' j)) (enumerate 0 two_transitions)
     = [(5, ''/tmp/x/clip_0.mp4''), (0, ''/tmp/x/clip_1.mp4'')]"
    by (simp add: two_transitions_eval clip_dict_def clip_file_def path_join_def
        str_nat.simps digit_char_def)
  moreover have "export_project (sample_env False) (Some ''out.mp4'') {} transitions_project
     = (transitions_project,
        Some (export (sample_env False) two_transitions default_settings ''out.mp4'' {}))"
    by (simp add: export_project_def c transitions_project_settings two_transitions_eval)
  ultimately show ?thesis
    unfolding c by (simp add: run_two_transitions)
qed

text \<open>
  C3, as the program has it. Every file written by a run that \<open>export_project\<close> starts is
  the concatenation list in the scratch directory, and its lines name the files of the
  clips that are not audio among the first \<open>k\<close> clips of the editor's list, in the order
  of that list; \<open>k\<close> is the number of clips when the flag is never set.
\<close>

theorem concat_list_follows_clip_list:
  assumes "export_project e chosen ds ed = (ed', Some x)"
    and "WriteFile f content \<in> set (trace x)"
  shows "\<exists>k\<le>length (clips ed). f = path_join (mkdtemp e) ''video_list.txt''
           \<and> content = video_list_content (rendered_files (mkdtemp e) k (clips ed))
           \<and> ((\<forall>t. \<not> canceled e t) \<longrightarrow> k = length (clips ed))"
proof -
  from export_project_run [OF assms(1)] obtain out
    where x: "x = export e (clips ed) (project_settings ed) out ds"
    by blast
  from assms(2) show ?thesis
    unfolding x by (rule export_list_file)
qed

theorem concat_list_follows_clip_list_witness:
  "export_project (sample_env False) (Some ''out.mp4'') {} audio_project
     = (audio_project, Some (export (sample_env False) with_audio default_settings ''out.mp4'' {})) \<and>
   WriteFile ''/tmp/x/video_list.txt'' (video_list_content [''/tmp/x/clip_0.mp4''])
     \<in> set (trace (export (sample_env False) with_audio default_settings ''out.mp4'' {})) \<and>
   (\<exists>k. k \<le> length (clips audio_project) \<and>
        ''/tmp/x/video_list.txt'' = path_join (mkdtemp (sample_env False)) ''video_list.txt'' \<and>
        video_list_content [''/tmp/x/clip_0.mp4'']
          = video_list_content (rendered_files (mkdtemp (sample_env False)) k (clips audio_project)) \<and>
        k = length (clips audio_project))"
proof -
  have c: "clips audio_project = with_audio"
    by (simp add: with_audio_def)
  have h1: "export_project (sample_env False) (Some ''out.mp4'') {} audio_project
     = (audio_project, Some (export (sample_env False) with_audio default_settings ''out.mp4'' {}))"
    by (simp add: export_project_def c audio_project_settings with_audio_eval)
  have h2: "WriteFile ''/tmp/x/video_list.txt'' (video_list_content [''/tmp/x/clip_0.mp4''])
     \<in> set (trace (export (sample_env False) with_audio default_settings ''out.mp4'' {}))"
    by (simp add: run_with_audio)
  have nc: "\<forall>t. \<not> canceled (sample_env False) t"
    by (simp add: sample_env_def)
  from concat_list_follows_clip_list [OF h1 h2] nc h1 h2 show ?thesis
    by blast
qed

lemma run_with_audio_canceled:
  "export (sample_env True) with_audio default_settings ''out.mp4'' {}
   = \<lparr> trace =
         [Mkdtemp ''/tmp/x'',
          Run [''ffmpeg'', ''-y'', ''-ss'', ''0'', ''-i'', ''b.wav'', ''-t'', ''8'',
               ''-af'', ''volume=1'', ''/tmp/x/audio_1.wav''],
          WriteFile ''/tmp/x/video_list.txt'' (video_list_content []),
          Run [''ffmpeg'', ''-y'', ''-f'', ''concat'', ''-safe'', ''0'', ''-i'',
               ''/tmp/x/video_list.txt'', ''-c'', ''copy'', ''/tmp/x/concat.mp4''],
          Run [''ffmpeg'', ''-y'', ''-i'', ''/tmp/x/audio_1.wav'',
               ''-filter_complex'', ''[1:a]amix=inputs=1:duration=longest[a]'',
               ''-map'', ''[a]'', ''/tmp/x/mixed_audio.wav''],
          Run [''ffmpeg'', ''-y'', ''-i'', ''/tmp/x/concat.mp4'', ''-i'',
               ''/tmp/x/mixed_audio.wav'', ''-c:v'', ''libx264'', ''-c:a'', ''aac'',
               ''-b:a'', ''192k'', ''-map'', ''0:v:0'', ''-map'', ''1:a:0'',
               ''-shortest'', ''out.mp4''],
          Rmtree ''/tmp/x''],
       dirs = {} \<rparr>"
  by (simp add: with_audio_eval run_defs)

lemma run_two_transitions_concat_fails:
  "export concat_fails_env two_transitions default_settings ''out.mp4'' {}
   = \<lparr> trace =
         [Mkdtemp ''/tmp/x'',
          WriteFile ''/tmp/x/video_list.txt'' (video_list_content []),
          Run [''ffmpeg'', ''-y'', ''-f'', ''concat'', ''-safe'', ''0'', ''-i'',
               ''/tmp/x/video_list.txt'', ''-c'', ''copy'', ''/tmp/x/concat.mp4''],
          Error CalledProcessError, Rmtree ''/tmp/x''],
       dirs = {} \<rparr>"
  by (simp add: two_transitions_eval concat_fails_env_def run_defs)

text \<open>
  C4. The claim: when the flag is set before every clip has been rendered, the run skips
  the remaining clips, goes straight to the cleanup without the concatenation, mix or
  combine stages, and ends neither with \<^verbatim>\<open>finished\<close> nor with an error. In the program the
  \<^verbatim>\<open>break\<close> only leaves the first loop, and the flag is read again only before \<^verbatim>\<open>finished\<close>
  is emitted. With the flag set from the start and nothing raising, the run on two
  transition clips renders nothing and still writes the concatenation list, which is empty,
  runs the concatenation and copies its result to the output path before it removes the
  scratch directory. With an audio clip in the list it also trims the audio and runs the
  mix and the combine invocations. Where the concatenation exits with an error, the run
  that was cancelled from the start ends with the \<^verbatim>\<open>error\<close> signal.
\<close>

theorem cancel_still_concatenates:
  "(\<forall>t. canceled (sample_env True) t) \<and>
   (\<forall>t ev. raises (sample_env True) t ev = None) \<and>
   length two_transitions = 2 \<and>
   trace (export (sample_env True) two_transitions default_settings ''out.mp4'' {})
     = [Mkdtemp ''/tmp/x'',
        WriteFile ''/tmp/x/video_list.txt'' (video_list_content []),
        Run (concat_cmd ''/tmp/x/video_list.txt'' ''/tmp/x/concat.mp4''),
        CopyFile ''/tmp/x/concat.mp4'' ''out.mp4'', Rmtree ''/tmp/x''] \<and>
   trace (export (sample_env True) with_audio default_settings ''out.mp4'' {})
     = [Mkdtemp ''/tmp/x'',
        Run [''ffmpeg'', ''-y'', ''-ss'', ''0'', ''-i'', ''b.wav'', ''-t'', ''8'',
             ''-af'', ''volume=1'', ''/tmp/x/audio_1.wav''],
        WriteFile ''/tmp/x/video_list.txt'' (video_list_content []),
        Run (concat_cmd ''/tmp/x/video_list.txt'' ''/tmp/x/concat.mp4''),
        Run (mix_cmd [''/tmp/x/audio_1.wav''] ''/tmp/x/mixed_audio.wav''),
        Run (combine_cmd ''/tmp/x/concat.mp4'' ''/tmp/x/mixed_audio.wav'' ''out.mp4''),
        Rmtree ''/tmp/x''] \<and>
   (\<forall>t. canceled concat_fails_env t) \<and>
   trace (export concat_fails_env two_transitions default_settings ''out.mp4'' {})
     = [Mkdtemp ''/tmp/x'',
        WriteFile ''/tmp/x/video_list.txt'' (video_list_content []),
        Run (concat_cmd ''/tmp/x/video_list.txt'' ''/tmp/x/concat.mp4''),
        Error CalledProcessError, Rmtree ''/tmp/x'']"
proof -
  have "length two_transitions = 2"
    by (simp add: two_transitions_eval)
  moreover have "\<forall>t. canceled (sample_env True) t" "\<forall>t ev. raises (sample_env True) t ev = None"
    "\<forall>t. canceled concat_fails_env t"
    by (simp_all add: sample_env_def concat_fails_env_def)
  ultimately show ?thesis
    by (simp add: run_two_transitions_canceled run_with_audio_canceled
        run_two_transitions_concat_fails concat_cmd_def mix_cmd_def combine_cmd_def
        audio_inputs_def input_labels_def filter_complex_def str_nat.simps digit_char_def)
qed

text \<open>
  The same holds of every run in which the flag is set from the start and nothing raises:
  whatever the clips, as long as none is audio, the trace is the one above. And in every
  run, with a flag that stays set once it is set, \<^verbatim>\<open>finished\<close> is not emitted after the flag
  has been read as set.
\<close>

lemma render_clips_canceled:
  "canceled e (trace s) \<Longrightarrow> render_clips e st tmp n i cs files s = (None, files, s)"
  by (cases cs) simp_all

lemma process_audio_clips_no_audio:
  "\<forall>c \<in> set cs. clip_type c \<noteq> ''audio'' \<Longrightarrow>
   process_audio_clips e tmp i cs afs s = (None, afs, s)"
  by (induction cs arbitrary: i) simp_all

lemma canceled_run_trace:
  assumes c: "\<forall>t. canceled e t" and r: "\<forall>t ev. raises e t ev = None"
    and na: "\<forall>c \<in> set cs. clip_type c \<noteq> ''audio''"
  shows "trace (export e cs st out ds)
    = [Mkdtemp (mkdtemp e),
       WriteFile (path_join (mkdtemp e) ''video_list.txt'') (video_list_content []),
       Run (concat_cmd (path_join (mkdtemp e) ''video_list.txt'') (path_join (mkdtemp e) ''concat.mp4'')),
       CopyFile (path_join (mkdtemp e) ''concat.mp4'') out, Rmtree (mkdtemp e)]"
proof -
  have n: "None \<notin> set (map Some xs)" for xs :: "string list"
    by auto
  from c r show ?thesis
    using n by (simp add: export_def export_body_def render_clips_canceled after_clips_def
        process_audio_clips_no_audio [OF na] assemble_def seq_def attempt_def subprocess_run_def
        rmtree_def Let_def del: set_map)
qed

lemma canceled_run_not_finished:
  assumes mono: "\<And>t t'. canceled e t \<Longrightarrow> canceled e (t @ t')"
    and t: "canceled e t" and pre: "strict_prefix t (trace (export e cs st out ds))"
  shows "Finished p \<notin> set (trace (export e cs st out ds))"
proof
  assume "Finished p \<in> set (trace (export e cs st out ds))"
  from export_finished [OF this] obtain t4
    where t4: "trace (export e cs st out ds) = t4 @ [Finished out]" and nc: "\<not> canceled e t4"
    by blast
  from pre have "prefix t t4"
    unfolding t4 by (auto simp: strict_prefix_def)
  then obtain t' where "t4 = t @ t'"
    by (auto simp: prefix_def)
  with mono [OF t, of t'] nc show False
    by simp
qed

text \<open>
  C5. The claim: the filter expression of the mix invocation references each of its \<open>m\<close>
  inputs exactly once. The inputs of the mix invocation are the trimmed audio files only,
  numbered from 0, and the program labels the \<open>j\<close>-th of them \<^verbatim>\<open>[j+1:a]\<close>. With one audio
  clip the only input is number 0 and the filter reads input 1, which does not exist.
\<close>

theorem mix_filter_labels_off_by_one:
  "audio_inputs [''/tmp/x/audio_1.wav''] = [''-i'', ''/tmp/x/audio_1.wav''] \<and>
   input_labels [''/tmp/x/audio_1.wav''] = [''[1:a]''] \<and>
   mix_cmd [''/tmp/x/audio_1.wav''] ''/tmp/x/mixed_audio.wav''
     = [''ffmpeg'', ''-y'', ''-i'', ''/tmp/x/audio_1.wav'',
        ''-filter_complex'', ''[1:a]amix=inputs=1:duration=longest[a]'',
        ''-map'', ''[a]'', ''/tmp/x/mixed_audio.wav''] \<and>
   Run (mix_cmd [''/tmp/x/audio_1.wav''] ''/tmp/x/mixed_audio.wav'')
     \<in> set (trace (export (sample_env False) with_audio default_settings ''out.mp4'' {}))"
  by (simp add: run_with_audio mix_cmd_def audio_inputs_def input_labels_def filter_complex_def
      str_nat.simps digit_char_def)

text \<open>
  C6. The claim: 100 is emitted exactly when the export completes successfully. The worker
  emits \<^verbatim>\<open>int((i / total_clips) * 80)\<close> before each clip and nothing else. The run on two
  transition clips succeeds and emits \<^verbatim>\<open>finished\<close> after the progress values 0 and 40.
\<close>

theorem finished_without_progress_100:
  "Finished ''out.mp4''
     \<in> set (trace (export (sample_env False) two_transitions default_settings ''out.mp4'' {})) \<and>
   progress_values (trace (export (sample_env False) two_transitions default_settings ''out.mp4'' {}))
     = [0, 40] \<and>
   Progress 100
     \<notin> set (trace (export (sample_env False) two_transitions default_settings ''out.mp4'' {}))"
  by (simp add: run_two_transitions)

text \<open>
  C6, as the program has it. In every run the progress values are emitted in non-decreasing
  order, each is at least 0 and less than 80, and 100 is never emitted.
\<close>

theorem progress_nondecreasing_below_80:
  "sorted (progress_values (trace (export e cs st out ds))) \<and>
   (\<forall>v. Progress v \<in> set (trace (export e cs st out ds)) \<longrightarrow> 0 \<le> v \<and> v < 80) \<and>
   Progress 100 \<notin> set (trace (export e cs st out ds))"
proof -
  have "Progress 100 \<notin> set (trace (export e cs st out ds))"
    using export_progress_range [of 100 e cs st out ds] by auto
  then show ?thesis
    using export_progress_range [of _ e cs st out ds]
    by (simp add: export_progress_sorted)
qed

theorem progress_nondecreasing_below_80_witness:
  "Progress 40 \<in> set (trace (export (sample_env False) with_audio default_settings ''out.mp4'' {})) \<and>
   (0::int) \<le> 40 \<and> (40::int) < 80 \<and>
   sorted (progress_values (trace (export (sample_env False) with_audio default_settings ''out.mp4'' {}))) \<and>
   Progress 100 \<notin> set (trace (export (sample_env False) with_audio default_settings ''out.mp4'' {}))"
proof -
  have "Progress 40 \<in> set (trace (export (sample_env False) with_audio default_settings ''out.mp4'' {}))"
    by (simp add: run_with_audio)
  with progress_nondecreasing_below_80 [of "sample_env False" with_audio default_settings "''out.mp4''" "{}"]
  show ?thesis
    by simp
qed

text \<open>
  C7. When a run of the worker ends, the scratch directory that it made is not among the
  directories on disk and every other directory is as it was, whether the run ended with
  \<^verbatim>\<open>finished\<close>, with \<^verbatim>\<open>error\<close> or silently after the flag was set. \<open>export_project\<close> returns the
  editor's state as it was, so the clip list and the settings are untouched, on failure as
  on success.
\<close>

theorem scratch_removed_on_every_path:
  "dirs (export e cs st out ds) = ds - {mkdtemp e} \<and>
   mkdtemp e \<notin> dirs (export e cs st out ds) \<and>
   fst (export_project e chosen ds ed) = ed \<and>
   (\<forall>x. snd (export_project e chosen ds ed) = Some x \<longrightarrow> mkdtemp e \<notin> dirs x)"
  by (auto simp: export_dirs export_project_def split: option.splits)

theorem scratch_removed_on_every_path_witness:
  "Finished ''out.mp4''
     \<in> set (trace (export (sample_env False) two_transitions default_settings ''out.mp4'' {''/tmp/x'', ''/home''})) \<and>
   dirs (export (sample_env False) two_transitions default_settings ''out.mp4'' {''/tmp/x'', ''/home''})
     = {''/home''} \<and>
   Error TypeError
     \<in> set (trace (export (sample_env False) (clips (sample_editor 4)) default_settings ''out.mp4'' {})) \<and>
   ''/tmp/x'' \<notin> dirs (export (sample_env False) (clips (sample_editor 4)) default_settings ''out.mp4'' {}) \<and>
   snd (export_project (sample_env False) (Some ''out.mp4'') {} (sample_editor 4))
     = Some (export (sample_env False) (clips (sample_editor 4)) default_settings ''out.mp4'' {}) \<and>
   fst (export_project (sample_env False) (Some ''out.mp4'') {} (sample_editor 4)) = sample_editor 4 \<and>
   Finished ''out.mp4''
     \<notin> set (trace (export (sample_env True) two_transitions default_settings ''out.mp4'' {})) \<and>
   Error TypeError
     \<notin> set (trace (export (sample_env True) two_transitions default_settings ''out.mp4'' {})) \<and>
   ''/tmp/x'' \<notin> dirs (export (sample_env True) two_transitions default_settings ''out.mp4'' {})"
proof -
  have d: "mkdtemp (sample_env c) = ''/tmp/x''" for c
    by (simp add: sample_env_def)
  have f: "Finished ''out.mp4''
     \<in> set (trace (export (sample_env False) two_transitions default_settings ''out.mp4'' {''/tmp/x'', ''/home''}))"
    by (simp add: two_transitions_eval run_defs)
  have s: "snd (export_project (sample_env False) (Some ''out.mp4'') {} (sample_editor 4))
     = Some (export (sample_env False) (clips (sample_editor 4)) default_settings ''out.mp4'' {})"
    by (simp add: export_project_def sample_editor_eval init_editor_def)
  from scratch_removed_on_every_path [of "sample_env False" two_transitions default_settings
      "''out.mp4''" "{''/tmp/x'', ''/home''}" None init_editor]
    scratch_removed_on_every_path [of "sample_env False" "clips (sample_editor 4)" default_settings
      "''out.mp4''" "{}" "Some ''out.mp4''" "sample_editor 4"]
    scratch_removed_on_every_path [of "sample_env True" two_transitions default_settings
      "''out.mp4''" "{}" None init_editor]
    f s
  show ?thesis
    by (simp add: d run_sample_video run_two_transitions_canceled)
qed

subsection \<open>Clips without effects\<close>

lemma video_filters_effect_free:
  "effect_free clip \<Longrightarrow> speed_free clip \<Longrightarrow> video_filters e clip = Inr []"
  by (simp add: video_filters_def effect_filters_def chroma_filter_def effect_free_def
      speed_free_def Let_def)

lemma image_filters_effect_free: "effect_free clip \<Longrightarrow> image_filters e clip = Inr []"
  by (simp add: image_filters_def effect_filters_def chroma_filter_def effect_free_def Let_def)

lemma video_cmd_effect_free:
  assumes "effect_free clip" and "speed_free clip" and "path clip = Some p"
  shows "video_cmd e clip out
    = Inr (map Some [''ffmpeg'', ''-y'', ''-ss'', str_num e (dict_get (start_trim clip) 0),
                     ''-i'', p, ''-t'', str_num e (duration clip), ''-vf'']
           @ [None]
           @ map Some [''-c:v'', ''libx264'', ''-preset'', ''fast'', ''-crf'', ''23'', out])"
  using assms(2,3)
  by (simp add: video_cmd_def video_filters_effect_free [OF assms(1,2)] speed_free_def Let_def)

lemma image_cmd_effect_free:
  assumes "effect_free clip" and "path clip = Some p"
  shows "image_cmd e clip out
    = Inr (map Some [''ffmpeg'', ''-y'', ''-loop'', ''1'', ''-i'', p,
                     ''-t'', str_num e (duration clip), ''-vf'']
           @ [None]
           @ map Some [''-c:v'', ''libx264'', ''-pix_fmt'', ''yuv420p'',
                       ''-preset'', ''fast'', ''-crf'', ''23'', out])"
  using assms(2)
  by (simp add: image_cmd_def image_filters_effect_free [OF assms(1)] Let_def)

lemma video_cmd_no_path:
  "effect_free clip \<Longrightarrow> speed_free clip \<Longrightarrow> path clip = None \<Longrightarrow>
   video_cmd e clip out = Inl (KeyError ''path'')"
  by (simp add: video_cmd_def video_filters_effect_free Let_def)

lemma image_cmd_no_path:
  "effect_free clip \<Longrightarrow> path clip = None \<Longrightarrow> image_cmd e clip out = Inl (KeyError ''path'')"
  by (simp add: image_cmd_def image_filters_effect_free Let_def)

text \<open>
  C10. For a video clip whose effect keys and speed are absent or neutral, and for such an
  image clip, the filter list is empty, \<^verbatim>\<open>filter_str\<close> is \<^verbatim>\<open>None\<close>, and the argument list
  holds it right after \<^verbatim>\<open>-vf\<close>, at index 9. \<^verbatim>\<open>subprocess.run\<close> raises \<^verbatim>\<open>TypeError\<close> on that list
  before any process is started, so the render of the clip raises and leaves the trace and
  the disk as they were. A clip without a path raises \<^verbatim>\<open>KeyError\<close> while the list is built.
\<close>

theorem effect_free_clip_fails:
  assumes free: "effect_free clip"
    and kind: "clip_type clip = ''video'' \<and> speed_free clip \<or> clip_type clip = ''image''"
  shows "(\<exists>err. render_clip e st clip out s = (Some err, s))
       \<and> (\<forall>p. path clip = Some p \<longrightarrow>
            (\<exists>cmd. (if clip_type clip = ''video'' then video_cmd e clip out
                     else image_cmd e clip out) = Inr cmd
                  \<and> cmd ! 8 = Some ''-vf'' \<and> cmd ! 9 = None \<and> None \<in> set cmd)
            \<and> render_clip e st clip out s = (Some TypeError, s))"
proof (cases "path clip")
  case None
  from kind show ?thesis
  proof
    assume "clip_type clip = ''video'' \<and> speed_free clip"
    with free None show ?thesis
      by (simp add: render_clip_def process_video_clip_def video_cmd_no_path)
  next
    assume "clip_type clip = ''image''"
    with free None show ?thesis
      by (simp add: render_clip_def process_image_clip_def image_cmd_no_path)
  qed
next
  case (Some p)
  from kind show ?thesis
  proof
    assume v: "clip_type clip = ''video'' \<and> speed_free clip"
    then have c: "video_cmd e clip out
      = Inr (map Some [''ffmpeg'', ''-y'', ''-ss'', str_num e (dict_get (start_trim clip) 0),
                       ''-i'', p, ''-t'', str_num e (duration clip), ''-vf'']
             @ [None]
             @ map Some [''-c:v'', ''libx264'', ''-preset'', ''fast'', ''-crf'', ''23'', out])"
      using free Some by (simp add: video_cmd_effect_free)
    from v Some show ?thesis
      by (simp add: render_clip_def process_video_clip_def c subprocess_run_def)
  next
    assume i: "clip_type clip = ''image''"
    have c: "image_cmd e clip out
      = Inr (map Some [''ffmpeg'', ''-y'', ''-loop'', ''1'', ''-i'', p,
                       ''-t'', str_num e (duration clip), ''-vf'']
             @ [None]
             @ map Some [''-c:v'', ''libx264'', ''-pix_fmt'', ''yuv420p'',
                         ''-preset'', ''fast'', ''-crf'', ''23'', out])"
      using free Some by (simp add: image_cmd_effect_free)
    from i Some show ?thesis
      by (simp add: render_clip_def process_image_clip_def c subprocess_run_def)
  qed
qed

theorem effect_free_clip_fails_witness:
  "effect_free (clips (sample_editor 4) ! 0) \<and> speed_free (clips (sample_editor 4) ! 0) \<and>
   clip_type (clips (sample_editor 4) ! 0) = ''video'' \<and>
   path (clips (sample_editor 4) ! 0) = Some ''a.mp4'' \<and>
   render_clip (sample_env False) default_settings (clips (sample_editor 4) ! 0) ''/tmp/x/clip_0.mp4''
       \<lparr> trace = [], dirs = {} \<rparr>
     = (Some TypeError, \<lparr> trace = [], dirs = {} \<rparr>) \<and>
   effect_free (clips mixed_project ! 2) \<and>
   clip_type (clips mixed_project ! 2) = ''image'' \<and>
   path (clips mixed_project ! 2) = Some ''c.png'' \<and>
   render_clip (sample_env False) default_settings (clips mixed_project ! 2) ''/tmp/x/clip_2.mp4''
       \<lparr> trace = [], dirs = {} \<rparr>
     = (Some TypeError, \<lparr> trace = [], dirs = {} \<rparr>)"
proof -
  have v: "effect_free (clips (sample_editor 4) ! 0)" "speed_free (clips (sample_editor 4) ! 0)"
    "clip_type (clips (sample_editor 4) ! 0) = ''video''"
    "path (clips (sample_editor 4) ! 0) = Some ''a.mp4''"
    by (simp_all add: sample_editor_eval init_editor_def clip_dict_def effect_free_def
        speed_free_def dict_get_def)
  have i: "effect_free (clips mixed_project ! 2)"
    "clip_type (clips mixed_project ! 2) = ''image''"
    "path (clips mixed_project ! 2) = Some ''c.png''"
    by (simp_all add: mixed_project_image clip_dict_def effect_free_def dict_get_def)
  from effect_free_clip_fails [of "clips (sample_editor 4) ! 0" "sample_env False" default_settings
      "''/tmp/x/clip_0.mp4''" "\<lparr> trace = [], dirs = {} \<rparr>"]
    effect_free_clip_fails [of "clips mixed_project ! 2" "sample_env False" default_settings
      "''/tmp/x/clip_2.mp4''" "\<lparr> trace = [], dirs = {} \<rparr>"]
    v i
  show ?thesis
    by simp
qed

end
